theory Spec2Isabelle
  imports Complex_Main "HOL-Library.Word"
begin

section \<open>Real numbers of the code\<close>

text \<open>
  The code computes in \<open>Real\<close> (a C++ double). No law of arithmetic is assumed of it:
  every definition below is polymorphic in a type \<open>'r\<close> that only has the operations
  (\<open>0\<close>, \<open>1\<close>, \<open>+\<close>, \<open>-\<close>, \<open>*\<close>, \<open>/\<close>, \<open>abs\<close>, \<open><\<close>), so a theorem proved for
  every such \<open>'r\<close> holds for IEEE arithmetic as well as for the reals, and equality of
  two values of \<open>'r\<close> is equality of the stored values.

  The literals \<open>0.5\<close> and \<open>0.25\<close> are written with \<open>1\<close>, \<open>+\<close> and \<open>/\<close>; each step is
  exact in binary floating point, and in a field they are \<open>1/2\<close> and \<open>1/4\<close>.
\<close>

definition c0_5 :: "'r::{one,plus,inverse}" where
  "c0_5 = 1 / (1 + 1)"

definition c0_25 :: "'r::{one,plus,inverse}" where
  "c0_25 = 1 / (1 + 1 + (1 + 1))"

section \<open>Kernels: par_for over an index space\<close>

text \<open>
  \<open>pmb->par_for(name, ks, ke, js, je, is, ie, body)\<close> runs \<open>body\<close> once for every index of
  the closed box. The model runs the iterations one after the other, \<open>k\<close> outermost and
  \<open>i\<close> innermost; \<open>par_for_written\<close> and \<open>par_for_frame\<close> below show that for the kernels
  of this code, whose iterations write disjoint slots and read none that is written, the
  result does not depend on that order.
\<close>

definition par_for :: "'i list \<Rightarrow> ('i \<Rightarrow> 's \<Rightarrow> 's) \<Rightarrow> 's \<Rightarrow> 's" where
  "par_for idx body st = fold body idx st"

definition range2 :: "int \<Rightarrow> int \<Rightarrow> int \<Rightarrow> int \<Rightarrow> (int \<times> int) list" where
  "range2 js je is ie = concat (map (\<lambda>j. map (\<lambda>i. (j, i)) [is..ie]) [js..je])"

definition range3 :: "int \<Rightarrow> int \<Rightarrow> int \<Rightarrow> int \<Rightarrow> int \<Rightarrow> int \<Rightarrow> (int \<times> int \<times> int) list" where
  "range3 ks ke js je is ie =
     concat (map (\<lambda>k. map (\<lambda>(j, i). (k, j, i)) (range2 js je is ie)) [ks..ke])"

definition range4 ::
  "nat \<Rightarrow> int \<Rightarrow> int \<Rightarrow> int \<Rightarrow> int \<Rightarrow> int \<Rightarrow> int \<Rightarrow> (nat \<times> int \<times> int \<times> int) list" where
  "range4 nb ks ke js je is ie =
     concat (map (\<lambda>b. map (\<lambda>(k, j, i). (b, k, j, i)) (range3 ks ke js je is ie)) [0..<nb])"

section \<open>Mesh blocks and the magnetic-field arrays\<close>

datatype BoundaryFlag = block | reflect | outflow | periodic | user | undef

datatype IndexDomain = entire | interior

text \<open>The closed index box \<open>[ks, ke] \<times> [js, je] \<times> [is, ie]\<close>.\<close>

record IndexRange3 =
  r_ks :: int
  r_ke :: int
  r_js :: int
  r_je :: int
  r_is :: int
  r_ie :: int

definition in_box :: "IndexRange3 \<Rightarrow> int \<Rightarrow> int \<Rightarrow> int \<Rightarrow> bool" where
  "in_box r k j i \<longleftrightarrow>
     r_ks r \<le> k \<and> k \<le> r_ke r \<and> r_js r \<le> j \<and> j \<le> r_je r \<and> r_is r \<le> i \<and> i \<le> r_ie r"

text \<open>The box with its upper ends moved by \<open>dk\<close>, \<open>dj\<close>, \<open>di\<close>, as in \<open>ke+1\<close>.\<close>

definition grow :: "IndexRange3 \<Rightarrow> int \<Rightarrow> int \<Rightarrow> int \<Rightarrow> IndexRange3" where
  "grow r dk dj di = r\<lparr>r_ke := r_ke r + dk, r_je := r_je r + dj, r_ie := r_ie r + di\<rparr>"

text \<open>The cells \<open>(b, k, j, i)\<close> of the box \<open>r\<close> in the blocks \<open>0 .. nb-1\<close>.\<close>

definition box4 :: "nat \<Rightarrow> IndexRange3 \<Rightarrow> (nat \<times> int \<times> int \<times> int) list" where
  "box4 nb r = range4 nb (r_ks r) (r_ke r) (r_js r) (r_je r) (r_is r) (r_ie r)"

text \<open>
  What the kernels read of a mesh: the number of dimensions, the number of blocks, the
  cell bounds of each domain (the same for every block; \<open>c_cellbounds\<close> for the coarse
  buffers) and, for each block, the flags of its two x2 boundaries.
\<close>

record Mesh =
  ndim :: int
  nblocks :: nat
  cellbounds :: "IndexDomain \<Rightarrow> IndexRange3"
  c_cellbounds :: "IndexDomain \<Rightarrow> IndexRange3"
  inner_x2 :: "nat \<Rightarrow> BoundaryFlag"
  outer_x2 :: "nat \<Rightarrow> BoundaryFlag"

text \<open>
  The coordinates of block \<open>b\<close>: \<open>gdet G b j i\<close> is \<open>G.gdet(Loci::center, j, i)\<close>,
  \<open>dx1v G b i\<close>, \<open>dx2v G b j\<close> and \<open>dx3v G b k\<close> are the cell widths.
\<close>

record 'r Coords =
  gdet :: "nat \<Rightarrow> int \<Rightarrow> int \<Rightarrow> 'r"
  dx1v :: "nat \<Rightarrow> int \<Rightarrow> 'r"
  dx2v :: "nat \<Rightarrow> int \<Rightarrow> 'r"
  dx3v :: "nat \<Rightarrow> int \<Rightarrow> 'r"

record Params =
  fix_polar_flux :: bool
  disable_flux_ct :: bool
  verbose :: int

text \<open>
  The slots of the magnetic-field variables: \<open>BFlux b dir c k j i\<close> is
  \<open>cons.B.flux[dir](c, k, j, i)\<close> of block \<open>b\<close>, \<open>ConsB\<close> and \<open>PrimsB\<close> are the data of
  \<open>cons.B\<close> and \<open>prims.B\<close>. The EMF temporaries are arrays of their own, allocated
  (zero-filled) by each call.
\<close>

datatype bloc =
    BFlux nat nat nat int int int
  | ConsB nat nat int int int
  | PrimsB nat nat int int int

datatype eloc = Emf1 nat int int int | Emf2 nat int int int | Emf3 nat int int int

abbreviation (input) X1DIR :: nat where "X1DIR \<equiv> 1"
abbreviation (input) X2DIR :: nat where "X2DIR \<equiv> 2"
abbreviation (input) X3DIR :: nat where "X3DIR \<equiv> 3"
abbreviation (input) B1 :: nat where "B1 \<equiv> 0"
abbreviation (input) B2 :: nat where "B2 \<equiv> 1"
abbreviation (input) B3 :: nat where "B3 \<equiv> 2"

subsection \<open>FluxCT, per block (b\_flux\_ct.cpp)\<close>

definition flux_ct_emf ::
  "nat \<Rightarrow> (bloc \<Rightarrow> 'r) \<Rightarrow> int \<times> int \<times> int \<Rightarrow>
   (eloc \<Rightarrow> 'r::{zero,one,plus,minus,uminus,times,inverse}) \<Rightarrow> (eloc \<Rightarrow> 'r)" where
  "flux_ct_emf b F = (\<lambda>(k, j, i) emf.
     let F1 = (\<lambda>c k j i. F (BFlux b X1DIR c k j i));
         F2 = (\<lambda>c k j i. F (BFlux b X2DIR c k j i));
         F3 = (\<lambda>c k j i. F (BFlux b X3DIR c k j i))
     in emf(Emf3 b k j i := c0_25 * (F1 B2 k j i + F1 B2 k (j - 1) i - F2 B1 k j i - F2 B1 k j (i - 1)),
            Emf2 b k j i := - c0_25 * (F1 B3 k j i + F1 B3 (k - 1) j i - F3 B1 k j i - F3 B1 k j (i - 1)),
            Emf1 b k j i := c0_25 * (F2 B3 k j i + F2 B3 (k - 1) j i - F3 B2 k j i - F3 B2 k (j - 1) i)))"

definition flux_ct_1 ::
  "nat \<Rightarrow> (eloc \<Rightarrow> 'r) \<Rightarrow> int \<times> int \<times> int \<Rightarrow>
   (bloc \<Rightarrow> 'r::{zero,one,plus,minus,uminus,times,inverse}) \<Rightarrow> (bloc \<Rightarrow> 'r)" where
  "flux_ct_1 b emf = (\<lambda>(k, j, i) F.
     F(BFlux b X1DIR B1 k j i := 0,
       BFlux b X1DIR B2 k j i := c0_5 * (emf (Emf3 b k j i) + emf (Emf3 b k (j + 1) i)),
       BFlux b X1DIR B3 k j i := - c0_5 * (emf (Emf2 b k j i) + emf (Emf2 b (k + 1) j i))))"

definition flux_ct_2 ::
  "nat \<Rightarrow> (eloc \<Rightarrow> 'r) \<Rightarrow> int \<times> int \<times> int \<Rightarrow>
   (bloc \<Rightarrow> 'r::{zero,one,plus,minus,uminus,times,inverse}) \<Rightarrow> (bloc \<Rightarrow> 'r)" where
  "flux_ct_2 b emf = (\<lambda>(k, j, i) F.
     F(BFlux b X2DIR B1 k j i := - c0_5 * (emf (Emf3 b k j i) + emf (Emf3 b k j (i + 1))),
       BFlux b X2DIR B2 k j i := 0,
       BFlux b X2DIR B3 k j i := c0_5 * (emf (Emf1 b k j i) + emf (Emf1 b (k + 1) j i))))"

definition flux_ct_3 ::
  "nat \<Rightarrow> (eloc \<Rightarrow> 'r) \<Rightarrow> int \<times> int \<times> int \<Rightarrow>
   (bloc \<Rightarrow> 'r::{zero,one,plus,minus,uminus,times,inverse}) \<Rightarrow> (bloc \<Rightarrow> 'r)" where
  "flux_ct_3 b emf = (\<lambda>(k, j, i) F.
     F(BFlux b X3DIR B1 k j i := c0_5 * (emf (Emf2 b k j i) + emf (Emf2 b k j (i + 1))),
       BFlux b X3DIR B2 k j i := - c0_5 * (emf (Emf1 b k j i) + emf (Emf1 b k (j + 1) i)),
       BFlux b X3DIR B3 k j i := 0))"

text \<open>The fused kernel (\<open>#if FUSE_EMF_KERNELS\<close>) makes the nine assignments in one iteration.\<close>

definition flux_ct_all ::
  "nat \<Rightarrow> (eloc \<Rightarrow> 'r) \<Rightarrow> int \<times> int \<times> int \<Rightarrow>
   (bloc \<Rightarrow> 'r::{zero,one,plus,minus,uminus,times,inverse}) \<Rightarrow> (bloc \<Rightarrow> 'r)" where
  "flux_ct_all b emf = (\<lambda>kji F. flux_ct_3 b emf kji (flux_ct_2 b emf kji (flux_ct_1 b emf kji F)))"

text \<open>
  The EMF arrays of a three-dimensional call: a fresh zero-filled array, written at
  every corner of \<open>[ks, ke+1] \<times> [js, je+1] \<times> [is, ie+1]\<close> from the fluxes on entry.
\<close>

definition FluxCT_emf ::
  "Mesh \<Rightarrow> nat \<Rightarrow> (bloc \<Rightarrow> 'r) \<Rightarrow> (eloc \<Rightarrow> 'r::{zero,one,plus,minus,uminus,times,inverse})" where
  "FluxCT_emf m b F =
     (let d = cellbounds m interior
      in par_for (range3 (r_ks d) (r_ke d + 1) (r_js d) (r_je d + 1) (r_is d) (r_ie d + 1))
           (flux_ct_emf b F) (\<lambda>_. 0))"

text \<open>
  The two-dimensional path has one EMF array \<open>emf(j, i)\<close>, kept in the \<open>Emf3\<close> slots of
  plane \<open>k = 0\<close>, and addresses the fluxes at \<open>k = 0\<close> only.
\<close>

definition flux_ct_emf_2D ::
  "nat \<Rightarrow> (bloc \<Rightarrow> 'r) \<Rightarrow> int \<times> int \<Rightarrow>
   (eloc \<Rightarrow> 'r::{zero,one,plus,minus,uminus,times,inverse}) \<Rightarrow> (eloc \<Rightarrow> 'r)" where
  "flux_ct_emf_2D b F = (\<lambda>(j, i) emf.
     let F1 = (\<lambda>c k j i. F (BFlux b X1DIR c k j i));
         F2 = (\<lambda>c k j i. F (BFlux b X2DIR c k j i))
     in emf(Emf3 b 0 j i := c0_25 * (F1 B2 0 j i + F1 B2 0 (j - 1) i
                                      - F2 B1 0 j i - F2 B1 0 j (i - 1))))"

definition flux_ct_1_2D ::
  "nat \<Rightarrow> (eloc \<Rightarrow> 'r) \<Rightarrow> int \<times> int \<Rightarrow>
   (bloc \<Rightarrow> 'r::{zero,one,plus,minus,uminus,times,inverse}) \<Rightarrow> (bloc \<Rightarrow> 'r)" where
  "flux_ct_1_2D b emf = (\<lambda>(j, i) F.
     F(BFlux b X1DIR B1 0 j i := 0,
       BFlux b X1DIR B2 0 j i := c0_5 * (emf (Emf3 b 0 j i) + emf (Emf3 b 0 (j + 1) i))))"

definition flux_ct_2_2D ::
  "nat \<Rightarrow> (eloc \<Rightarrow> 'r) \<Rightarrow> int \<times> int \<Rightarrow>
   (bloc \<Rightarrow> 'r::{zero,one,plus,minus,uminus,times,inverse}) \<Rightarrow> (bloc \<Rightarrow> 'r)" where
  "flux_ct_2_2D b emf = (\<lambda>(j, i) F.
     F(BFlux b X2DIR B1 0 j i := - c0_5 * (emf (Emf3 b 0 j i) + emf (Emf3 b 0 j (i + 1))),
       BFlux b X2DIR B2 0 j i := 0))"

definition flux_ct_all_2D ::
  "nat \<Rightarrow> (eloc \<Rightarrow> 'r) \<Rightarrow> int \<times> int \<Rightarrow>
   (bloc \<Rightarrow> 'r::{zero,one,plus,minus,uminus,times,inverse}) \<Rightarrow> (bloc \<Rightarrow> 'r)" where
  "flux_ct_all_2D b emf = (\<lambda>ji F. flux_ct_2_2D b emf ji (flux_ct_1_2D b emf ji F))"

definition FluxCT2D_emf ::
  "Mesh \<Rightarrow> nat \<Rightarrow> (bloc \<Rightarrow> 'r) \<Rightarrow> (eloc \<Rightarrow> 'r::{zero,one,plus,minus,uminus,times,inverse})" where
  "FluxCT2D_emf m b F =
     (let d = cellbounds m interior
      in par_for (range2 (r_js d) (r_je d + 1) (r_is d) (r_ie d + 1))
           (flux_ct_emf_2D b F) (\<lambda>_. 0))"

definition FluxCT2D ::
  "bool \<Rightarrow> Mesh \<Rightarrow> nat \<Rightarrow>
   (bloc \<Rightarrow> 'r::{zero,one,plus,minus,uminus,times,inverse}) \<Rightarrow> (bloc \<Rightarrow> 'r)" where
  "FluxCT2D fuse m b F =
     (let d = cellbounds m interior;
          is = r_is d; ie = r_ie d; js = r_js d; je = r_je d;
          emf = FluxCT2D_emf m b F
      in if fuse
         then par_for (range2 js (je + 1) is (ie + 1)) (flux_ct_all_2D b emf) F
         else par_for (range2 js (je + 1) is ie) (flux_ct_2_2D b emf)
                (par_for (range2 js je is (ie + 1)) (flux_ct_1_2D b emf) F))"

text \<open>
  \<open>FluxCT\<close> on the data of block \<open>b\<close>. \<open>fuse\<close> is the compile-time switch
  \<open>FUSE_EMF_KERNELS\<close>, whose definition is not among the sources.
\<close>

definition FluxCT ::
  "bool \<Rightarrow> Mesh \<Rightarrow> nat \<Rightarrow>
   (bloc \<Rightarrow> 'r::{zero,one,plus,minus,uminus,times,inverse}) \<Rightarrow> (bloc \<Rightarrow> 'r)" where
  "FluxCT fuse m b F =
     (if ndim m = 2 then FluxCT2D fuse m b F
      else if ndim m = 1 then F
      else
        let d = cellbounds m interior;
            is = r_is d; ie = r_ie d; js = r_js d; je = r_je d; ks = r_ks d; ke = r_ke d;
            emf = FluxCT_emf m b F
        in if fuse
           then par_for (range3 ks (ke + 1) js (je + 1) is (ie + 1)) (flux_ct_all b emf) F
           else par_for (range3 (ks) (ke + 1) js je is ie) (flux_ct_3 b emf)
                  (par_for (range3 ks ke js (je + 1) is ie) (flux_ct_2 b emf)
                     (par_for (range3 ks ke js je is (ie + 1)) (flux_ct_1 b emf) F)))"

subsection \<open>FixPolarFlux and TransportB, per block (b\_flux\_ct.cpp)\<close>

definition fix_flux_b_l ::
  "int \<Rightarrow> nat \<Rightarrow> int \<Rightarrow> int \<times> int \<times> int \<Rightarrow>
   (bloc \<Rightarrow> 'r::{zero,uminus}) \<Rightarrow> (bloc \<Rightarrow> 'r)" where
  "fix_flux_b_l nd b js = (\<lambda>(k, j, i) F.
     let F = F(BFlux b X1DIR B2 k (j - 1) i := - F (BFlux b X1DIR B2 k js i));
         F = (if nd > 1 then F(BFlux b X2DIR B2 k j i := 0) else F);
         F = (if nd > 2 then F(BFlux b X3DIR B2 k (j - 1) i := - F (BFlux b X3DIR B2 k js i)) else F)
     in F)"

definition fix_flux_b_r ::
  "int \<Rightarrow> nat \<Rightarrow> int \<Rightarrow> int \<times> int \<times> int \<Rightarrow>
   (bloc \<Rightarrow> 'r::{zero,uminus}) \<Rightarrow> (bloc \<Rightarrow> 'r)" where
  "fix_flux_b_r nd b je = (\<lambda>(k, j, i) F.
     let F = F(BFlux b X1DIR B2 k j i := - F (BFlux b X1DIR B2 k je i));
         F = (if nd > 1 then F(BFlux b X2DIR B2 k j i := 0) else F);
         F = (if nd > 2 then F(BFlux b X3DIR B2 k j i := - F (BFlux b X3DIR B2 k je i)) else F)
     in F)"

definition FixPolarFlux ::
  "Mesh \<Rightarrow> nat \<Rightarrow> (bloc \<Rightarrow> 'r::{zero,uminus}) \<Rightarrow> (bloc \<Rightarrow> 'r)" where
  "FixPolarFlux m b F =
     (let d = cellbounds m interior;
          is = r_is d; ie = r_ie d; js = r_js d; je = r_je d; ks = r_ks d; ke = r_ke d;
          je_e = (if ndim m > 1 then je + 1 else je);
          ke_e = (if ndim m > 2 then ke + 1 else ke);
          F = (if inner_x2 m b = user
               then par_for (range3 ks ke_e js js is (ie + 1)) (fix_flux_b_l (ndim m) b js) F
               else F);
          F = (if outer_x2 m b = user
               then par_for (range3 ks ke_e je_e je_e is (ie + 1)) (fix_flux_b_r (ndim m) b je) F
               else F)
      in F)"

text \<open>
  \<open>TransportB\<close> reads one parameter of the package, \<open>fix_polar_flux\<close>, and then runs
  \<open>FluxCT\<close>.
\<close>

definition TransportB ::
  "bool \<Rightarrow> Params \<Rightarrow> Mesh \<Rightarrow> nat \<Rightarrow>
   (bloc \<Rightarrow> 'r::{zero,one,plus,minus,uminus,times,inverse}) \<Rightarrow> (bloc \<Rightarrow> 'r)" where
  "TransportB fuse p m b F =
     (let F = (if fix_polar_flux p then FixPolarFlux m b F else F)
      in FluxCT fuse m b F)"

subsection \<open>The whole-mesh variants (the b\_flux\_ct.cpp that follows bondi.cpp)\<close>

definition mesh_flux_ct_emf ::
  "int \<Rightarrow> (bloc \<Rightarrow> 'r) \<Rightarrow> nat \<times> int \<times> int \<times> int \<Rightarrow>
   (eloc \<Rightarrow> 'r::{zero,one,plus,minus,uminus,times,inverse}) \<Rightarrow> (eloc \<Rightarrow> 'r)" where
  "mesh_flux_ct_emf nd F = (\<lambda>(b, k, j, i) emf.
     let flux = (\<lambda>dir c k j i. F (BFlux b dir c k j i));
         emf = emf(Emf3 b k j i := c0_25 * (flux X1DIR B2 k j i + flux X1DIR B2 k (j - 1) i -
                                            flux X2DIR B1 k j i - flux X2DIR B1 k j (i - 1)))
     in if nd > 2
        then emf(Emf2 b k j i := - c0_25 * (flux X1DIR B3 k j i + flux X1DIR B3 (k - 1) j i -
                                            flux X3DIR B1 k j i - flux X3DIR B1 k j (i - 1)),
                 Emf1 b k j i := c0_25 * (flux X2DIR B3 k j i + flux X2DIR B3 (k - 1) j i -
                                          flux X3DIR B2 k j i - flux X3DIR B2 k (j - 1) i))
        else emf)"

definition mesh_flux_ct_1 ::
  "int \<Rightarrow> (eloc \<Rightarrow> 'r) \<Rightarrow> nat \<times> int \<times> int \<times> int \<Rightarrow>
   (bloc \<Rightarrow> 'r::{zero,one,plus,minus,uminus,times,inverse}) \<Rightarrow> (bloc \<Rightarrow> 'r)" where
  "mesh_flux_ct_1 nd emf = (\<lambda>(b, k, j, i) F.
     let F = F(BFlux b X1DIR B1 k j i := 0,
               BFlux b X1DIR B2 k j i := c0_5 * (emf (Emf3 b k j i) + emf (Emf3 b k (j + 1) i)))
     in if nd > 2
        then F(BFlux b X1DIR B3 k j i := - c0_5 * (emf (Emf2 b k j i) + emf (Emf2 b (k + 1) j i)))
        else F)"

definition mesh_flux_ct_2 ::
  "int \<Rightarrow> (eloc \<Rightarrow> 'r) \<Rightarrow> nat \<times> int \<times> int \<times> int \<Rightarrow>
   (bloc \<Rightarrow> 'r::{zero,one,plus,minus,uminus,times,inverse}) \<Rightarrow> (bloc \<Rightarrow> 'r)" where
  "mesh_flux_ct_2 nd emf = (\<lambda>(b, k, j, i) F.
     let F = F(BFlux b X2DIR B1 k j i := - c0_5 * (emf (Emf3 b k j i) + emf (Emf3 b k j (i + 1))),
               BFlux b X2DIR B2 k j i := 0)
     in if nd > 2
        then F(BFlux b X2DIR B3 k j i := c0_5 * (emf (Emf1 b k j i) + emf (Emf1 b (k + 1) j i)))
        else F)"

definition mesh_flux_ct_3 ::
  "(eloc \<Rightarrow> 'r) \<Rightarrow> nat \<times> int \<times> int \<times> int \<Rightarrow>
   (bloc \<Rightarrow> 'r::{zero,one,plus,minus,uminus,times,inverse}) \<Rightarrow> (bloc \<Rightarrow> 'r)" where
  "mesh_flux_ct_3 emf = (\<lambda>(b, k, j, i) F.
     F(BFlux b X3DIR B1 k j i := c0_5 * (emf (Emf2 b k j i) + emf (Emf2 b k j (i + 1))),
       BFlux b X3DIR B2 k j i := - c0_5 * (emf (Emf1 b k j i) + emf (Emf1 b k (j + 1) i)),
       BFlux b X3DIR B3 k j i := 0))"

definition mesh_flux_ct_all ::
  "int \<Rightarrow> (eloc \<Rightarrow> 'r) \<Rightarrow> nat \<times> int \<times> int \<times> int \<Rightarrow>
   (bloc \<Rightarrow> 'r::{zero,one,plus,minus,uminus,times,inverse}) \<Rightarrow> (bloc \<Rightarrow> 'r)" where
  "mesh_flux_ct_all nd emf = (\<lambda>(b, k, j, i) F.
     let F = F(BFlux b X1DIR B1 k j i := 0,
               BFlux b X1DIR B2 k j i := c0_5 * (emf (Emf3 b k j i) + emf (Emf3 b k (j + 1) i)),
               BFlux b X2DIR B1 k j i := - c0_5 * (emf (Emf3 b k j i) + emf (Emf3 b k j (i + 1))),
               BFlux b X2DIR B2 k j i := 0)
     in if nd > 2
        then F(BFlux b X1DIR B3 k j i := - c0_5 * (emf (Emf2 b k j i) + emf (Emf2 b (k + 1) j i)),
               BFlux b X2DIR B3 k j i := c0_5 * (emf (Emf1 b k j i) + emf (Emf1 b (k + 1) j i)),
               BFlux b X3DIR B1 k j i := c0_5 * (emf (Emf2 b k j i) + emf (Emf2 b k j (i + 1))),
               BFlux b X3DIR B2 k j i := - c0_5 * (emf (Emf1 b k j i) + emf (Emf1 b k (j + 1) i)),
               BFlux b X3DIR B3 k j i := 0)
        else F)"

text \<open>The halo ranges \<open>il\<close>, \<open>jl\<close>, \<open>kl\<close> of the whole-mesh \<open>FluxCT\<close>.\<close>

definition FluxCT_mesh_halo :: "Mesh \<Rightarrow> IndexRange3" where
  "FluxCT_mesh_halo m =
     (let d = cellbounds m interior
      in \<lparr> r_ks = (if ndim m > 2 then r_ks d - 3 else r_ks d),
           r_ke = (if ndim m > 2 then r_ke d + 3 else r_ke d),
           r_js = r_js d - 3, r_je = r_je d + 3,
           r_is = r_is d - 3, r_ie = r_ie d + 3 \<rparr>)"

definition FluxCT_mesh_emf ::
  "Mesh \<Rightarrow> (bloc \<Rightarrow> 'r) \<Rightarrow> (eloc \<Rightarrow> 'r::{zero,one,plus,minus,uminus,times,inverse})" where
  "FluxCT_mesh_emf m F =
     (let l = FluxCT_mesh_halo m
      in par_for (range4 (nblocks m) (r_ks l) (r_ke l) (r_js l) (r_je l) (r_is l) (r_ie l))
           (mesh_flux_ct_emf (ndim m) F) (\<lambda>_. 0))"

definition FluxCT_mesh ::
  "bool \<Rightarrow> Mesh \<Rightarrow> (bloc \<Rightarrow> 'r::{zero,one,plus,minus,uminus,times,inverse}) \<Rightarrow> (bloc \<Rightarrow> 'r)" where
  "FluxCT_mesh fuse m F =
     (if ndim m < 2 then F
      else
        let d = cellbounds m interior; l = FluxCT_mesh_halo m; nb = nblocks m;
            emf = FluxCT_mesh_emf m F
        in if fuse
           then par_for (range4 nb (r_ks l) (r_ke l) (r_js l) (r_je l) (r_is l) (r_ie l))
                  (mesh_flux_ct_all (ndim m) emf) F
           else
             let F = par_for (range4 nb (r_ks d) (r_ke d) (r_js d) (r_je d) (r_is l) (r_ie l))
                       (mesh_flux_ct_1 (ndim m) emf) F;
                 F = par_for (range4 nb (r_ks d) (r_ke d) (r_js l) (r_je l) (r_is d) (r_ie d))
                       (mesh_flux_ct_2 (ndim m) emf) F
             in if ndim m > 2
                then par_for (range4 nb (r_ks l) (r_ke l) (r_js d) (r_je d) (r_is d) (r_ie d))
                       (mesh_flux_ct_3 emf) F
                else F)"

text \<open>The whole-mesh \<open>FixPolarFlux\<close> runs the two boundary kernels on every block of the list.\<close>

definition FixPolarFlux_mesh ::
  "Mesh \<Rightarrow> (bloc \<Rightarrow> 'r::{zero,uminus}) \<Rightarrow> (bloc \<Rightarrow> 'r)" where
  "FixPolarFlux_mesh m F = fold (\<lambda>b F. FixPolarFlux m b F) [0..<nblocks m] F"

definition TransportB_mesh ::
  "bool \<Rightarrow> Params \<Rightarrow> Mesh \<Rightarrow>
   (bloc \<Rightarrow> 'r::{zero,one,plus,minus,uminus,times,inverse}) \<Rightarrow> (bloc \<Rightarrow> 'r)" where
  "TransportB_mesh fuse p m F =
     (let F = (if fix_polar_flux p then FixPolarFlux_mesh m F else F)
      in FluxCT_mesh fuse m F)"

subsection \<open>MaxDivB\<close>







subsection \<open>UtoP\<close>

text \<open>
  \<open>NVEC\<close> is a macro of decs.hpp, which is not among the sources; \<open>cons.B\<close> and
  \<open>prims.B\<close> are registered with three components.
\<close>

definition NVEC :: nat where
  "NVEC = 3"

definition range5 ::
  "nat \<Rightarrow> nat \<Rightarrow> int \<Rightarrow> int \<Rightarrow> int \<Rightarrow> int \<Rightarrow> int \<Rightarrow> int \<Rightarrow>
   (nat \<times> nat \<times> int \<times> int \<times> int) list" where
  "range5 nb nv ks ke js je is ie =
     concat (map (\<lambda>b. map (\<lambda>(mu, k, j, i). (b, mu, k, j, i)) (range4 nv ks ke js je is ie)) [0..<nb])"

definition UtoP_B ::
  "'r Coords \<Rightarrow> nat \<times> nat \<times> int \<times> int \<times> int \<Rightarrow> (bloc \<Rightarrow> 'r::inverse) \<Rightarrow> (bloc \<Rightarrow> 'r)" where
  "UtoP_B G = (\<lambda>(b, mu, k, j, i) st.
     st(PrimsB b mu k j i := st (ConsB b mu k j i) / gdet G b j i))"

definition UtoP_bounds :: "Mesh \<Rightarrow> IndexDomain \<Rightarrow> bool \<Rightarrow> IndexRange3" where
  "UtoP_bounds m domain coarse = (if coarse then c_cellbounds m else cellbounds m) domain"

text \<open>\<open>UtoP(MeshBlockData*, domain, coarse)\<close> of b\_flux\_ct.cpp, on block \<open>b\<close>.\<close>

definition UtoP ::
  "Mesh \<Rightarrow> 'r Coords \<Rightarrow> nat \<Rightarrow> IndexDomain \<Rightarrow> bool \<Rightarrow> (bloc \<Rightarrow> 'r::inverse) \<Rightarrow> (bloc \<Rightarrow> 'r)" where
  "UtoP m G b domain coarse st =
     (let d = UtoP_bounds m domain coarse
      in par_for (range4 NVEC (r_ks d) (r_ke d) (r_js d) (r_je d) (r_is d) (r_ie d))
           (\<lambda>(p, k, j, i). UtoP_B G (b, p, k, j, i)) st)"

text \<open>
  The two overloads of the whole-mesh file; \<open>nv\<close> is \<open>B_U.GetDim(4)\<close>, the number of
  components in the pack.
\<close>

definition UtoP_mesh ::
  "nat \<Rightarrow> Mesh \<Rightarrow> 'r Coords \<Rightarrow> IndexDomain \<Rightarrow> bool \<Rightarrow> (bloc \<Rightarrow> 'r::inverse) \<Rightarrow> (bloc \<Rightarrow> 'r)" where
  "UtoP_mesh nv m G domain coarse st =
     (let d = UtoP_bounds m domain coarse
      in par_for (range5 (nblocks m) nv (r_ks d) (r_ke d) (r_js d) (r_je d) (r_is d) (r_ie d))
           (UtoP_B G) st)"

definition UtoP_block ::
  "nat \<Rightarrow> Mesh \<Rightarrow> 'r Coords \<Rightarrow> nat \<Rightarrow> IndexDomain \<Rightarrow> bool \<Rightarrow>
   (bloc \<Rightarrow> 'r::inverse) \<Rightarrow> (bloc \<Rightarrow> 'r)" where
  "UtoP_block nv m G b domain coarse st =
     (let d = UtoP_bounds m domain coarse
      in par_for (range4 nv (r_ks d) (r_ke d) (r_js d) (r_je d) (r_is d) (r_ie d))
           (\<lambda>(mu, k, j, i). UtoP_B G (b, mu, k, j, i)) st)"

section \<open>VarMap (types.hpp)\<close>

text \<open>
  The slots are \<open>int8_t\<close>: signed 8-bit words. \<open>PASSIVE\<close> is declared but the constructor
  never assigns it; the model takes its content as an argument.
\<close>

type_synonym int8_t = "8 word"

record VarMap =
  RHO :: int8_t
  UU :: int8_t
  U1 :: int8_t
  U2 :: int8_t
  U3 :: int8_t
  vB1 :: int8_t
  vB2 :: int8_t
  vB3 :: int8_t
  RHO_ADDED :: int8_t
  UU_ADDED :: int8_t
  PASSIVE :: int8_t
  KTOT :: int8_t
  K_CONSTANT :: int8_t
  K_HOWES :: int8_t
  K_KAWAZURA :: int8_t
  K_WERNER :: int8_t
  K_ROWAN :: int8_t
  K_SHARMA :: int8_t
  PSI :: int8_t
  Q :: int8_t
  DP :: int8_t

text \<open>
  A \<open>PackIndexMap\<close> gives the first and last slot of each variable of a pack.
  \<open>name_map[key].first\<close> of a name that is not in the pack is \<open>-1\<close> (the note above the
  class: the values of any variables not present in the pack will be -1).
\<close>

type_synonym PackIndexMap = "string \<rightharpoonup> int \<times> int"

definition first_of :: "PackIndexMap \<Rightarrow> string \<Rightarrow> int" where
  "first_of name_map key = (case name_map key of None \<Rightarrow> - 1 | Some (f, l) \<Rightarrow> f)"

text \<open>
  The constructor. The fields \<open>B1\<close>, \<open>B2\<close>, \<open>B3\<close> of the class are \<open>vB1\<close>, \<open>vB2\<close>, \<open>vB3\<close>
  here. An \<open>int\<close> is narrowed to \<open>int8_t\<close> on assignment; \<open>U1 + 1\<close> is computed in \<open>int\<close>.
\<close>

definition mk_VarMap :: "int8_t \<Rightarrow> PackIndexMap \<Rightarrow> bool \<Rightarrow> VarMap" where
  "mk_VarMap uninit name_map is_cons =
     (let pre = (if is_cons then ''cons.'' else ''prims.'');
          slot = (\<lambda>name. (word_of_int (first_of name_map (pre @ name)) :: int8_t));
          u1 = slot ''uvec'';
          b1 = slot ''B''
      in \<lparr> RHO = slot ''rho'', UU = slot ''u'', U1 = u1,
           U2 = word_of_int (sint u1 + 1), U3 = word_of_int (sint u1 + 2),
           vB1 = b1,
           vB2 = word_of_int (sint b1 + 1), vB3 = word_of_int (sint b1 + 2),
           RHO_ADDED = slot ''rho_added'', UU_ADDED = slot ''u_added'',
           PASSIVE = uninit,
           KTOT = slot ''Ktot'', K_CONSTANT = slot ''Kel_Constant'',
           K_HOWES = slot ''Kel_Howes'', K_KAWAZURA = slot ''Kel_Kawazura'',
           K_WERNER = slot ''Kel_Werner'', K_ROWAN = slot ''Kel_Rowan'',
           K_SHARMA = slot ''Kel_Sharma'',
           PSI = slot ''psi_cd'', Q = slot ''q'', DP = slot ''dP'' \<rparr>)"

section \<open>First-order flux correction (fofc.cpp)\<close>

text \<open>
  The slots FOFC touches, by block \<open>b\<close>, variable \<open>ip\<close> and cell or face \<open>(k, j, i)\<close>:
  the three flag fields, the cell-centred primitives \<open>P_all\<close>, the face temporaries
  \<open>Flux.Pl\<close> ... \<open>Flux.Fr\<close>, the signal speeds \<open>Cmax b (dir-1) k j i\<close> and
  \<open>Cmin\<close>, and the fluxes \<open>U_flux b dir ip k j i\<close> = \<open>U_all(b).flux(dir, ip, k, j, i)\<close>.
\<close>

datatype floc =
    Fflag nat int int int
  | Pflag nat int int int
  | Fofcflag nat int int int
  | P_all nat nat int int int
  | Pl_all nat nat int int int
  | Pr_all nat nat int int int
  | Ul_all nat nat int int int
  | Ur_all nat nat int int int
  | Fl_all nat nat int int int
  | Fr_all nat nat int int int
  | Cmax nat nat int int int
  | Cmin nat nat int int int
  | U_flux nat nat nat int int int

datatype Loci = face1 | face2 | face3 | center | corner

text \<open>
  Modelled from the spec: \<open>loc_of\<close>, \<open>m::max\<close>, \<open>m::abs\<close> and \<open>llf\<close> are declared in
  headers that are not among the sources. \<open>loc_of dir\<close> is the face location of
  direction \<open>dir\<close>; \<open>llf\<close> is the Local-Lax-Friedrichs rule
  \<open>F = 0.5*(Fl + Fr) - 0.5*max(cmax, cmin)*(Ur - Ul)\<close>.
\<close>

definition loc_of :: "nat \<Rightarrow> Loci" where
  "loc_of dir = (if dir = 1 then face1 else if dir = 2 then face2 else if dir = 3 then face3 else center)"

definition m_max :: "'r::ord \<Rightarrow> 'r \<Rightarrow> 'r" where
  "m_max a b = (if a < b then b else a)"

definition m_abs :: "'r::abs \<Rightarrow> 'r" where
  "m_abs a = abs a"

definition llf :: "'r \<Rightarrow> 'r \<Rightarrow> 'r \<Rightarrow> 'r \<Rightarrow> 'r \<Rightarrow> 'r \<Rightarrow> 'r::{one,plus,minus,times,inverse,ord}" where
  "llf fluxL fluxR cmax cmin Ul Ur =
     c0_5 * (fluxL + fluxR) - c0_5 * m_max cmax cmin * (Ur - Ul)"

text \<open>
  The functions of the flux engine that FOFC calls and that are not among the sources,
  taken as parameters. Each is a pure function of the primitive vector of one state
  (\<open>nvar\<close> values), of the block and of the place:
  \<^item> \<open>to_int\<close> is the C conversion \<open>(int) x\<close> of a Real;
  \<^item> \<open>calc_4vecs b P k j i loc\<close> gives the four-vectors \<open>Dtmp\<close>;
  \<^item> \<open>prim_to_flux b P Dtmp k j i dir loc\<close> gives, for each variable \<open>ip\<close>, the
    conserved variable (\<open>dir = 0\<close>) or the flux in direction \<open>dir\<close>;
  \<^item> \<open>vchar_global b P Dtmp k j i loc dir\<close> gives \<open>(cmax, cmin)\<close>.
\<close>

record ('r, 'fv) FluxFns =
  to_int :: "'r \<Rightarrow> int"
  calc_4vecs :: "nat \<Rightarrow> 'r list \<Rightarrow> int \<Rightarrow> int \<Rightarrow> int \<Rightarrow> Loci \<Rightarrow> 'fv"
  prim_to_flux :: "nat \<Rightarrow> 'r list \<Rightarrow> 'fv \<Rightarrow> int \<Rightarrow> int \<Rightarrow> int \<Rightarrow> nat \<Rightarrow> Loci \<Rightarrow> nat \<Rightarrow> 'r"
  vchar_global :: "nat \<Rightarrow> 'r list \<Rightarrow> 'fv \<Rightarrow> int \<Rightarrow> int \<Rightarrow> int \<Rightarrow> Loci \<Rightarrow> nat \<Rightarrow> 'r \<times> 'r"

text \<open>\<open>PLOOP\<close>: \<open>for (int ip = 0; ip < nvar; ++ip)\<close>.\<close>

definition PLOOP :: "nat \<Rightarrow> (nat \<Rightarrow> 's \<Rightarrow> 's) \<Rightarrow> 's \<Rightarrow> 's" where
  "PLOOP nvar body st = fold body [0..<nvar] st"

text \<open>The primitive vector that a callee reads at \<open>(k, j, i)\<close> of a pack.\<close>

definition prims_at :: "nat \<Rightarrow> (nat \<Rightarrow> floc) \<Rightarrow> (floc \<Rightarrow> 'r) \<Rightarrow> 'r list" where
  "prims_at nvar slot st = map (\<lambda>ip. st (slot ip)) [0..<nvar]"

text \<open>The first kernel: mark the cells whose flux is to be lowered.\<close>

definition fofc_mark ::
  "('r \<Rightarrow> int) \<Rightarrow> nat \<times> int \<times> int \<times> int \<Rightarrow> (floc \<Rightarrow> 'r::one) \<Rightarrow> (floc \<Rightarrow> 'r)" where
  "fofc_mark cast = (\<lambda>(b, k, j, i) st.
     if cast (st (Fflag b k j i)) > 0 \<or> cast (st (Pflag b k j i)) > 0
     then st(Fofcflag b k j i := 1)
     else st)"

text \<open>The second kernel, for the faces of direction \<open>dir\<close>.\<close>

definition fofc_face ::
  "('r, 'fv) FluxFns \<Rightarrow> nat \<Rightarrow> nat \<Rightarrow> nat \<times> int \<times> int \<times> int \<Rightarrow>
   (floc \<Rightarrow> 'r::{zero,one,plus,minus,uminus,times,inverse,abs,ord}) \<Rightarrow> (floc \<Rightarrow> 'r)" where
  "fofc_face fns nvar dir = (\<lambda>(b, k, j, i) st.
     let kk = (if dir = 3 then k - 1 else k);
         jj = (if dir = 2 then j - 1 else j);
         ii = (if dir = 1 then i - 1 else i)
     in if to_int fns (st (Fofcflag b k j i)) > 0 \<or> to_int fns (st (Fofcflag b kk jj ii)) > 0
        then
          let loc = loc_of dir;
              st = PLOOP nvar (\<lambda>ip st. st(Pl_all b ip k j i := st (P_all b ip kk jj ii))) st;
              st = PLOOP nvar (\<lambda>ip st. st(Pr_all b ip k j i := st (P_all b ip k j i))) st;
              Pl = prims_at nvar (\<lambda>ip. Pl_all b ip k j i) st;
              Dtmp = calc_4vecs fns b Pl k j i loc;
              st = PLOOP nvar (\<lambda>ip st. st(Ul_all b ip k j i := prim_to_flux fns b Pl Dtmp k j i 0 loc ip)) st;
              st = PLOOP nvar (\<lambda>ip st. st(Fl_all b ip k j i := prim_to_flux fns b Pl Dtmp k j i dir loc ip)) st;
              (cmaxL, cminL) = vchar_global fns b Pl Dtmp k j i loc dir;
              st = st(Cmax b (dir - 1) k j i := m_max 0 cmaxL);
              st = st(Cmin b (dir - 1) k j i := m_max 0 (- cminL));
              Pr = prims_at nvar (\<lambda>ip. Pr_all b ip k j i) st;
              Dtmp = calc_4vecs fns b Pr k j i loc;
              st = PLOOP nvar (\<lambda>ip st. st(Ur_all b ip k j i := prim_to_flux fns b Pr Dtmp k j i 0 loc ip)) st;
              st = PLOOP nvar (\<lambda>ip st. st(Fr_all b ip k j i := prim_to_flux fns b Pr Dtmp k j i dir loc ip)) st;
              (cmaxR, cminR) = vchar_global fns b Pr Dtmp k j i loc dir;
              st = st(Cmax b (dir - 1) k j i := m_abs (m_max (st (Cmax b (dir - 1) k j i)) cmaxR));
              st = st(Cmin b (dir - 1) k j i := m_abs (m_max (st (Cmin b (dir - 1) k j i)) (- cminR)))
          in PLOOP nvar (\<lambda>ip st.
               st(U_flux b dir ip k j i :=
                    llf (st (Fl_all b ip k j i)) (st (Fr_all b ip k j i))
                        (st (Cmax b (dir - 1) k j i)) (st (Cmin b (dir - 1) k j i))
                        (st (Ul_all b ip k j i)) (st (Ur_all b ip k j i)))) st
        else st)"

text \<open>
  \<open>FOFC\<close>. \<open>KDomain::GetRange\<close> is not among the sources: \<open>cells\<close> is the box it returns
  for the marking kernel and \<open>faces dir\<close> the box for the faces of direction \<open>dir\<close>.
  \<open>nd\<close> is \<open>ndim\<close>, \<open>nvar\<close> is \<open>P_all.GetDim(4)\<close> and \<open>nb\<close> is \<open>P_all.GetDim(5)\<close>.
\<close>

definition FOFC_mark :: "('r \<Rightarrow> int) \<Rightarrow> nat \<Rightarrow> IndexRange3 \<Rightarrow> (floc \<Rightarrow> 'r::one) \<Rightarrow> (floc \<Rightarrow> 'r)" where
  "FOFC_mark cast nb cells st = par_for (box4 nb cells) (fofc_mark cast) st"

definition FOFC_dir ::
  "('r, 'fv) FluxFns \<Rightarrow> int \<Rightarrow> nat \<Rightarrow> nat \<Rightarrow> (nat \<Rightarrow> IndexRange3) \<Rightarrow> nat \<Rightarrow>
   (floc \<Rightarrow> 'r::{zero,one,plus,minus,uminus,times,inverse,abs,ord}) \<Rightarrow> (floc \<Rightarrow> 'r)" where
  "FOFC_dir fns nd nvar nb faces dir st =
     (if int dir > nd then st
      else par_for (box4 nb (faces dir)) (fofc_face fns nvar dir) st)"

definition FOFC ::
  "('r, 'fv) FluxFns \<Rightarrow> int \<Rightarrow> nat \<Rightarrow> nat \<Rightarrow> IndexRange3 \<Rightarrow> (nat \<Rightarrow> IndexRange3) \<Rightarrow>
   (floc \<Rightarrow> 'r::{zero,one,plus,minus,uminus,times,inverse,abs,ord}) \<Rightarrow> (floc \<Rightarrow> 'r)" where
  "FOFC fns nd nvar nb cells faces st =
     fold (FOFC_dir fns nd nvar nb faces) [1, 2, 3] (FOFC_mark (to_int fns) nb cells st)"

text \<open>The slots that the iteration of the face kernel at \<open>(b, k, j, i)\<close> can write.\<close>

definition face_writes :: "nat \<Rightarrow> nat \<Rightarrow> nat \<times> int \<times> int \<times> int \<Rightarrow> floc set" where
  "face_writes nvar dir = (\<lambda>(b, k, j, i).
     {l. (\<exists>ip<nvar. l \<in> {Pl_all b ip k j i, Pr_all b ip k j i, Ul_all b ip k j i, Ur_all b ip k j i,
                           Fl_all b ip k j i, Fr_all b ip k j i, U_flux b dir ip k j i})
         \<or> l = Cmax b (dir - 1) k j i \<or> l = Cmin b (dir - 1) k j i})"

section \<open>Binary floating point\<close>

text \<open>
  The arithmetic of a C++ double on finite values in the normal range: the exact
  result of an operation, rounded to the nearest number with 53 significant bits, ties
  to the even one. A value is kept as the rational it denotes. Overflow, subnormal
  results, infinities and NaN are outside this model; \<open>ilog2_from\<close> searches the binary
  exponent of a positive rational with enough steps for the whole range of a double.
\<close>

definition rne :: "rat \<Rightarrow> int" where
  "rne x = (let f = \<lfloor>x\<rfloor>; r = x - of_int f
            in if r < 1 / 2 then f else if 1 / 2 < r then f + 1 else if even f then f else f + 1)"

fun ilog2_from :: "nat \<Rightarrow> rat \<Rightarrow> int \<Rightarrow> int" where
  "ilog2_from 0 a e = e"
| "ilog2_from (Suc n) a e =
     (if a < 1 then ilog2_from n (a * 2) (e - 1)
      else if 2 \<le> a then ilog2_from n (a / 2) (e + 1)
      else e)"

definition binary64 :: "rat \<Rightarrow> rat" where
  "binary64 x = (if x = 0 then 0
                 else let e = ilog2_from 2200 \<bar>x\<bar> 0 - 52;
                          r = of_int (rne (\<bar>x\<bar> / 2 powi e)) * 2 powi e
                      in if x < 0 then - r else r)"

datatype double = Double rat

instantiation double :: "{times, inverse}"
begin

definition times_double :: "double \<Rightarrow> double \<Rightarrow> double" where
  "times_double x y = (case (x, y) of (Double a, Double b) \<Rightarrow> Double (binary64 (a * b)))"

definition inverse_double :: "double \<Rightarrow> double" where
  "inverse_double x = (case x of Double a \<Rightarrow> Double (binary64 (1 / a)))"

definition divide_double :: "double \<Rightarrow> double \<Rightarrow> double" where
  "divide_double x y = (case (x, y) of (Double a, Double b) \<Rightarrow> Double (binary64 (a / b)))"

instance ..

end

section \<open>The relations that the claims state\<close>

text \<open>
  The constrained-transport relation of the specification between the fluxes \<open>F\<close> on
  entry, the EMF arrays \<open>E\<close> and the fluxes \<open>F'\<close> on exit, at one index of block \<open>b\<close>:
  each EMF is a quarter of the antisymmetric sum of four face fluxes, each transverse
  flux is plus or minus one half of the sum of the two adjacent EMFs. \<open>emf1\<close>, \<open>emf2\<close>
  and the fluxes that use them exist in three dimensions only (\<open>three_d\<close>).
\<close>

definition toth_emf ::
  "(bloc \<Rightarrow> 'r) \<Rightarrow> (eloc \<Rightarrow> 'r::{one,plus,minus,uminus,times,inverse}) \<Rightarrow> bool \<Rightarrow>
   nat \<Rightarrow> int \<Rightarrow> int \<Rightarrow> int \<Rightarrow> bool" where
  "toth_emf F E three_d b k j i \<longleftrightarrow>
     E (Emf3 b k j i) = c0_25 * (F (BFlux b X1DIR B2 k j i) + F (BFlux b X1DIR B2 k (j - 1) i)
                                 - F (BFlux b X2DIR B1 k j i) - F (BFlux b X2DIR B1 k j (i - 1))) \<and>
     (three_d \<longrightarrow>
        E (Emf2 b k j i) = - c0_25 * (F (BFlux b X1DIR B3 k j i) + F (BFlux b X1DIR B3 (k - 1) j i)
                                      - F (BFlux b X3DIR B1 k j i) - F (BFlux b X3DIR B1 k j (i - 1))) \<and>
        E (Emf1 b k j i) = c0_25 * (F (BFlux b X2DIR B3 k j i) + F (BFlux b X2DIR B3 (k - 1) j i)
                                    - F (BFlux b X3DIR B2 k j i) - F (BFlux b X3DIR B2 k (j - 1) i)))"

definition toth_F1 ::
  "(eloc \<Rightarrow> 'r) \<Rightarrow> (bloc \<Rightarrow> 'r::{one,plus,uminus,times,inverse}) \<Rightarrow> bool \<Rightarrow>
   nat \<Rightarrow> int \<Rightarrow> int \<Rightarrow> int \<Rightarrow> bool" where
  "toth_F1 E F' three_d b k j i \<longleftrightarrow>
     F' (BFlux b X1DIR B2 k j i) = c0_5 * (E (Emf3 b k j i) + E (Emf3 b k (j + 1) i)) \<and>
     (three_d \<longrightarrow>
        F' (BFlux b X1DIR B3 k j i) = - c0_5 * (E (Emf2 b k j i) + E (Emf2 b (k + 1) j i)))"

definition toth_F2 ::
  "(eloc \<Rightarrow> 'r) \<Rightarrow> (bloc \<Rightarrow> 'r::{one,plus,uminus,times,inverse}) \<Rightarrow> bool \<Rightarrow>
   nat \<Rightarrow> int \<Rightarrow> int \<Rightarrow> int \<Rightarrow> bool" where
  "toth_F2 E F' three_d b k j i \<longleftrightarrow>
     F' (BFlux b X2DIR B1 k j i) = - c0_5 * (E (Emf3 b k j i) + E (Emf3 b k j (i + 1))) \<and>
     (three_d \<longrightarrow>
        F' (BFlux b X2DIR B3 k j i) = c0_5 * (E (Emf1 b k j i) + E (Emf1 b (k + 1) j i)))"

definition toth_F3 ::
  "(eloc \<Rightarrow> 'r) \<Rightarrow> (bloc \<Rightarrow> 'r::{one,plus,uminus,times,inverse}) \<Rightarrow>
   nat \<Rightarrow> int \<Rightarrow> int \<Rightarrow> int \<Rightarrow> bool" where
  "toth_F3 E F' b k j i \<longleftrightarrow>
     F' (BFlux b X3DIR B1 k j i) = c0_5 * (E (Emf2 b k j i) + E (Emf2 b k j (i + 1))) \<and>
     F' (BFlux b X3DIR B2 k j i) = - c0_5 * (E (Emf1 b k j i) + E (Emf1 b k (j + 1) i))"

text \<open>
  The state of the fluxes \<open>F'\<close> of block \<open>b\<close> at a polar boundary, at one \<open>(k, i)\<close>: the
  flux of \<open>B2\<close> through the pole face is 0 and the flux of \<open>B2\<close> in directions 1 and
  (in three dimensions) 3 in the row beyond the pole is minus that of the row inside.
\<close>

definition polar_inner :: "Mesh \<Rightarrow> (bloc \<Rightarrow> 'r::{zero,uminus}) \<Rightarrow> nat \<Rightarrow> int \<Rightarrow> int \<Rightarrow> bool" where
  "polar_inner m F' b k i \<longleftrightarrow>
     (let js = r_js (cellbounds m interior)
      in F' (BFlux b X2DIR B2 k js i) = 0 \<and>
         F' (BFlux b X1DIR B2 k (js - 1) i) = - F' (BFlux b X1DIR B2 k js i) \<and>
         (ndim m > 2 \<longrightarrow> F' (BFlux b X3DIR B2 k (js - 1) i) = - F' (BFlux b X3DIR B2 k js i)))"

definition polar_outer :: "Mesh \<Rightarrow> (bloc \<Rightarrow> 'r::{zero,uminus}) \<Rightarrow> nat \<Rightarrow> int \<Rightarrow> int \<Rightarrow> bool" where
  "polar_outer m F' b k i \<longleftrightarrow>
     (let je = r_je (cellbounds m interior)
      in F' (BFlux b X2DIR B2 k (je + 1) i) = 0 \<and>
         F' (BFlux b X1DIR B2 k (je + 1) i) = - F' (BFlux b X1DIR B2 k je i) \<and>
         (ndim m > 2 \<longrightarrow> F' (BFlux b X3DIR B2 k (je + 1) i) = - F' (BFlux b X3DIR B2 k je i)))"

text \<open>The \<open>(k, i)\<close> that the two boundary kernels of \<open>FixPolarFlux\<close> visit.\<close>

definition polar_range :: "Mesh \<Rightarrow> int \<Rightarrow> int \<Rightarrow> bool" where
  "polar_range m k i \<longleftrightarrow>
     (let d = cellbounds m interior
      in r_ks d \<le> k \<and> k \<le> (if ndim m > 2 then r_ke d + 1 else r_ke d) \<and>
         r_is d \<le> i \<and> i \<le> r_ie d + 1)"

text \<open>
  The cell behind the face \<open>(k, j, i)\<close> of direction \<open>dir\<close>: the face borders the cell of
  the same index and this one.
\<close>

definition trail :: "nat \<Rightarrow> int \<times> int \<times> int \<Rightarrow> int \<times> int \<times> int" where
  "trail dir = (\<lambda>(k, j, i). (if dir = 3 then k - 1 else k,
                                if dir = 2 then j - 1 else j,
                                if dir = 1 then i - 1 else i))"

text \<open>
  FOFC corrects a face when either of the two cells that border it has \<open>fofcflag\<close> set
  once the marking kernel has run.
\<close>

definition fofc_marked ::
  "('r \<Rightarrow> int) \<Rightarrow> nat \<Rightarrow> IndexRange3 \<Rightarrow> (floc \<Rightarrow> 'r::one) \<Rightarrow> nat \<Rightarrow> int \<times> int \<times> int \<Rightarrow> bool" where
  "fofc_marked cast nb cells st b = (\<lambda>(k, j, i). cast (FOFC_mark cast nb cells st (Fofcflag b k j i)) > 0)"

definition fofc_corrects ::
  "('r \<Rightarrow> int) \<Rightarrow> nat \<Rightarrow> IndexRange3 \<Rightarrow> (floc \<Rightarrow> 'r::one) \<Rightarrow> nat \<Rightarrow> nat \<Rightarrow> int \<times> int \<times> int \<Rightarrow> bool" where
  "fofc_corrects cast nb cells st dir b kji \<longleftrightarrow>
     fofc_marked cast nb cells st b kji \<or> fofc_marked cast nb cells st b (trail dir kji)"

text \<open>
  The first-order flux of the specification for variable \<open>ip\<close> at the face \<open>(k, j, i)\<close>
  of direction \<open>dir\<close>: the left state is the cell-centred primitive vector of the cell
  behind the face, the right state that of the cell of the face's index; conserved
  variables, fluxes and speeds are computed from these two states, the speeds are
  clamped to be non-negative, and the flux is their Local-Lax-Friedrichs combination.
\<close>

definition fofc_flux ::
  "('r, 'fv) FluxFns \<Rightarrow> nat \<Rightarrow> nat \<Rightarrow>
   (floc \<Rightarrow> 'r::{zero,one,plus,minus,uminus,times,inverse,abs,ord}) \<Rightarrow>
   nat \<Rightarrow> nat \<Rightarrow> int \<times> int \<times> int \<Rightarrow> 'r" where
  "fofc_flux fns nvar dir st b ip = (\<lambda>(k, j, i).
     let (kk, jj, ii) = trail dir (k, j, i);
         loc = loc_of dir;
         Pl = prims_at nvar (\<lambda>ip. P_all b ip kk jj ii) st;
         Pr = prims_at nvar (\<lambda>ip. P_all b ip k j i) st;
         Dl = calc_4vecs fns b Pl k j i loc;
         Dr = calc_4vecs fns b Pr k j i loc;
         Ul = prim_to_flux fns b Pl Dl k j i 0 loc ip;
         Fl = prim_to_flux fns b Pl Dl k j i dir loc ip;
         Ur = prim_to_flux fns b Pr Dr k j i 0 loc ip;
         Fr = prim_to_flux fns b Pr Dr k j i dir loc ip;
         (cmaxL, cminL) = vchar_global fns b Pl Dl k j i loc dir;
         (cmaxR, cminR) = vchar_global fns b Pr Dr k j i loc dir;
         cmax = m_abs (m_max (m_max 0 cmaxL) cmaxR);
         cmin = m_abs (m_max (m_max 0 (- cminL)) (- cminR))
     in c0_5 * (Fl + Fr) - c0_5 * m_max cmax cmin * (Ur - Ul))"

text \<open>
  The faces of direction \<open>dir\<close> that border the cell \<open>c\<close>: the face of the cell's own
  index, behind which lies \<open>trail dir c\<close>, and the face of the next index, \<open>lead dir c\<close>,
  behind which lies \<open>c\<close>.
\<close>

definition lead :: "nat \<Rightarrow> int \<times> int \<times> int \<Rightarrow> int \<times> int \<times> int" where
  "lead dir = (\<lambda>(k, j, i). (if dir = 3 then k + 1 else k,
                               if dir = 2 then j + 1 else j,
                               if dir = 1 then i + 1 else i))"

definition bordering :: "nat \<Rightarrow> int \<times> int \<times> int \<Rightarrow> (int \<times> int \<times> int) set" where
  "bordering dir c = {c, lead dir c}"

text \<open>
  The store in which the characteristic speeds that the main scheme left in \<open>cmax\<close> and
  \<open>cmin\<close> are replaced by arbitrary values \<open>cmx\<close> and \<open>cmn\<close>.
\<close>

definition with_speeds ::
  "(floc \<Rightarrow> 'r) \<Rightarrow> (nat \<Rightarrow> nat \<Rightarrow> int \<Rightarrow> int \<Rightarrow> int \<Rightarrow> 'r) \<Rightarrow> (nat \<Rightarrow> nat \<Rightarrow> int \<Rightarrow> int \<Rightarrow> int \<Rightarrow> 'r) \<Rightarrow>
   (floc \<Rightarrow> 'r)" where
  "with_speeds st cmx cmn = (\<lambda>l. case l of
       Cmax b c k j i \<Rightarrow> cmx b c k j i
     | Cmin b c k j i \<Rightarrow> cmn b c k j i
     | _ \<Rightarrow> st l)"



section \<open>Concrete meshes and data\<close>

text \<open>
  A block of \<open>2 \<times> 2 \<times> 2\<close> interior cells with four ghost cells on each side, both x2
  boundaries polar; and its two-dimensional counterpart, with the single plane \<open>k = 0\<close>.
\<close>

definition bounds_3D :: "IndexDomain \<Rightarrow> IndexRange3" where
  "bounds_3D domain =
     (case domain of
        interior \<Rightarrow> \<lparr>r_ks = 4, r_ke = 5, r_js = 4, r_je = 5, r_is = 4, r_ie = 5\<rparr>
      | entire \<Rightarrow> \<lparr>r_ks = 0, r_ke = 9, r_js = 0, r_je = 9, r_is = 0, r_ie = 9\<rparr>)"

definition bounds_2D :: "IndexDomain \<Rightarrow> IndexRange3" where
  "bounds_2D domain =
     (case domain of
        interior \<Rightarrow> \<lparr>r_ks = 0, r_ke = 0, r_js = 4, r_je = 5, r_is = 4, r_ie = 5\<rparr>
      | entire \<Rightarrow> \<lparr>r_ks = 0, r_ke = 0, r_js = 0, r_je = 9, r_is = 0, r_ie = 9\<rparr>)"

definition mesh_3D :: Mesh where
  "mesh_3D = \<lparr>ndim = 3, nblocks = 1, cellbounds = bounds_3D, c_cellbounds = bounds_3D,
              inner_x2 = (\<lambda>b. user), outer_x2 = (\<lambda>b. user)\<rparr>"

definition mesh_2D :: Mesh where
  "mesh_2D = \<lparr>ndim = 2, nblocks = 1, cellbounds = bounds_2D, c_cellbounds = bounds_2D,
              inner_x2 = (\<lambda>b. user), outer_x2 = (\<lambda>b. user)\<rparr>"

text \<open>Fluxes that are 1 in every slot.\<close>

definition ones :: "bloc \<Rightarrow> real" where
  "ones = (\<lambda>l. 1)"

text \<open>Fluxes that differ from slot to slot.\<close>

definition ramp :: "bloc \<Rightarrow> real" where
  "ramp l = (case l of BFlux b d c k j i \<Rightarrow> real_of_int (100 * int d + 10 * int c + 4 * k + 2 * j + i)
             | _ \<Rightarrow> 0)"

text \<open>Parameters with constrained transport switched off.\<close>

definition ct_disabled :: Params where
  "ct_disabled = \<lparr>fix_polar_flux = True, disable_flux_ct = True, verbose = 0\<rparr>"

text \<open>Coordinates with \<open>gdet = 49\<close> everywhere, and a field that is 1 in every slot, in doubles.\<close>

definition G49 :: "double Coords" where
  "G49 = \<lparr>gdet = (\<lambda>b j i. Double 49), dx1v = (\<lambda>b i. Double 1),
           dx2v = (\<lambda>b j. Double 1), dx3v = (\<lambda>b k. Double 1)\<rparr>"

definition B_one :: "bloc \<Rightarrow> double" where
  "B_one = (\<lambda>l. Double 1)"

text \<open>The same in exact arithmetic.\<close>

definition G49r :: "real Coords" where
  "G49r = \<lparr>gdet = (\<lambda>b j i. 49), dx1v = (\<lambda>b i. 1), dx2v = (\<lambda>b j. 1), dx3v = (\<lambda>b k. 1)\<rparr>"











text \<open>A pack of the hydrodynamic variables only: it has no \<open>cons.B\<close>.\<close>

definition hydro_pack :: PackIndexMap where
  "hydro_pack = [''cons.rho'' \<mapsto> (0, 0), ''cons.u'' \<mapsto> (1, 1), ''cons.uvec'' \<mapsto> (2, 4)]"

text \<open>
  Inputs of FOFC: one block, one variable, three dimensions, the cells and the faces of
  every direction in \<open>3..6\<close>. The conversion to int truncates; the conserved variable
  of a state is its primitive, the flux in direction \<open>dir\<close> is \<open>1 + dir\<close> times it, and
  the speeds are \<open>(P, - P)\<close>.
\<close>

definition cast_int :: "real \<Rightarrow> int" where
  "cast_int x = (if x < 0 then \<lceil>x\<rceil> else \<lfloor>x\<rfloor>)"

definition fns0 :: "(real, unit) FluxFns" where
  "fns0 = \<lparr>to_int = cast_int,
            calc_4vecs = (\<lambda>b P k j i loc. ()),
            prim_to_flux = (\<lambda>b P D k j i dir loc ip. (P ! ip) * (1 + real dir)),
            vchar_global = (\<lambda>b P D k j i loc dir. (P ! 0, - (P ! 0)))\<rparr>"

definition cells0 :: IndexRange3 where
  "cells0 = \<lparr>r_ks = 3, r_ke = 6, r_js = 3, r_je = 6, r_is = 3, r_ie = 6\<rparr>"

definition faces0 :: "nat \<Rightarrow> IndexRange3" where
  "faces0 dir = cells0"

text \<open>
  Stores with the primitive 2 in cell \<open>(4, 4, 3)\<close> and 4 in cell \<open>(4, 4, 4)\<close>, the flux 7
  at the x1 face between them, and 0 elsewhere: in \<open>quiet\<close> no flag is set, in \<open>flagged\<close>
  \<open>pflag\<close> is set in cell \<open>(4, 4, 4)\<close>. \<open>second_entry\<close> is the store with which FOFC is
  entered the next time after a call on \<open>flagged\<close>: what that call returned, with
  \<open>pflag\<close> found to be 0 again in cell \<open>(4, 4, 4)\<close> and the flux 7 written again by the
  main scheme.
\<close>

definition quiet :: "floc \<Rightarrow> real" where
  "quiet = (\<lambda>l. 0)(P_all 0 0 4 4 3 := 2, P_all 0 0 4 4 4 := 4, U_flux 0 1 0 4 4 4 := 7)"

definition flagged :: "floc \<Rightarrow> real" where
  "flagged = quiet(Pflag 0 4 4 4 := 1)"

definition second_entry :: "floc \<Rightarrow> real" where
  "second_entry =
     (FOFC fns0 3 1 1 cells0 faces0 flagged)(Pflag 0 4 4 4 := 0, U_flux 0 1 0 4 4 4 := 7)"

section \<open>Properties of kernels\<close>

lemma set_range2:
  "set (range2 js je is ie) = {(j, i). js \<le> j \<and> j \<le> je \<and> is \<le> i \<and> i \<le> ie}"
  by (auto simp: range2_def)

lemma set_range3:
  "set (range3 ks ke js je is ie) =
     {(k, j, i). ks \<le> k \<and> k \<le> ke \<and> js \<le> j \<and> j \<le> je \<and> is \<le> i \<and> i \<le> ie}"
  by (auto simp: range3_def set_range2)

lemma set_range4:
  "set (range4 nb ks ke js je is ie) =
     {(b, k, j, i). b < nb \<and> ks \<le> k \<and> k \<le> ke \<and> js \<le> j \<and> j \<le> je \<and> is \<le> i \<and> i \<le> ie}"
  by (auto simp: range4_def set_range3)

lemma distinct_concat_map:
  assumes "distinct xs"
    and "\<And>x. x \<in> set xs \<Longrightarrow> distinct (f x)"
    and "\<And>x y. x \<in> set xs \<Longrightarrow> y \<in> set xs \<Longrightarrow> x \<noteq> y \<Longrightarrow> set (f x) \<inter> set (f y) = {}"
  shows "distinct (concat (map f xs))"
  using assms by (induction xs) auto

lemma distinct_range2: "distinct (range2 js je is ie)"
  unfolding range2_def
  by (rule distinct_concat_map) (auto simp: distinct_map inj_on_def)

lemma distinct_range3: "distinct (range3 ks ke js je is ie)"
  unfolding range3_def
  by (rule distinct_concat_map) (auto simp: distinct_map inj_on_def distinct_range2)

lemma distinct_range4: "distinct (range4 nb ks ke js je is ie)"
  unfolding range4_def
  by (rule distinct_concat_map) (auto simp: distinct_map inj_on_def distinct_range3)

text \<open>
  A kernel whose iteration \<open>x\<close> writes only the slots \<open>W x\<close>, with values that depend on
  the slots \<open>R\<close> alone, where no iteration writes a slot of \<open>R\<close> or a slot of another
  iteration: every written slot holds what its own iteration computes from the state
  on entry, and every other slot is unchanged.
\<close>

lemma par_for_frame:
  assumes "\<And>x s. x \<in> set xs \<Longrightarrow> l \<notin> W x \<Longrightarrow> body x s l = s l"
    and "\<And>x. x \<in> set xs \<Longrightarrow> l \<notin> W x"
  shows "par_for xs body s l = s l"
  using assms unfolding par_for_def
  by (induction xs arbitrary: s) auto

lemma par_for_written:
  assumes frame: "\<And>y s l. y \<in> set xs \<Longrightarrow> l \<notin> W y \<Longrightarrow> body y s l = s l"
    and dep: "\<And>s s'. (\<forall>r\<in>R. s r = s' r) \<Longrightarrow> body x s l = body x s' l"
    and RW: "\<And>y. y \<in> set xs \<Longrightarrow> y \<noteq> x \<Longrightarrow> W y \<inter> R = {}"
    and disj: "\<And>y. y \<in> set xs \<Longrightarrow> y \<noteq> x \<Longrightarrow> l \<notin> W y"
    and dist: "distinct xs"
    and mem: "x \<in> set xs"
  shows "par_for xs body s l = body x s l"
  using assms(1,3-)
proof (induction xs arbitrary: s)
  case Nil
  then show ?case by simp
next
  case (Cons a xs)
  show ?case
  proof (cases "x = a")
    case True
    have "par_for xs body (body a s) l = body a s l"
    proof (rule par_for_frame [where W = W])
      show "\<And>x s. x \<in> set xs \<Longrightarrow> l \<notin> W x \<Longrightarrow> body x s l = s l"
        using Cons.prems(1) by simp
      show "\<And>y. y \<in> set xs \<Longrightarrow> l \<notin> W y"
        using Cons.prems(3,4) True by auto
    qed
    then show ?thesis using True by (simp add: par_for_def)
  next
    case False
    then have mem: "x \<in> set xs" using Cons.prems(5) by simp
    have "par_for xs body (body a s) l = body x (body a s) l"
      using Cons.prems mem by (intro Cons.IH) auto
    also have "\<dots> = body x s l"
    proof (rule dep)
      show "\<forall>r\<in>R. body a s r = s r"
        using Cons.prems(1) [of a] Cons.prems(2) [of a] False by auto
    qed
    finally show ?thesis by (simp add: par_for_def)
  qed
qed

lemma flux_ct_emf_written:
  assumes "(k, j, i) \<in> set xs" "distinct xs"
  shows "par_for xs (flux_ct_emf b F) e (Emf3 b k j i) =
           c0_25 * (F (BFlux b X1DIR B2 k j i) + F (BFlux b X1DIR B2 k (j - 1) i)
                    - F (BFlux b X2DIR B1 k j i) - F (BFlux b X2DIR B1 k j (i - 1)))" (is ?t3)
    and "par_for xs (flux_ct_emf b F) e (Emf2 b k j i) =
           - c0_25 * (F (BFlux b X1DIR B3 k j i) + F (BFlux b X1DIR B3 (k - 1) j i)
                    - F (BFlux b X3DIR B1 k j i) - F (BFlux b X3DIR B1 k j (i - 1)))" (is ?t2)
    and "par_for xs (flux_ct_emf b F) e (Emf1 b k j i) =
           c0_25 * (F (BFlux b X2DIR B3 k j i) + F (BFlux b X2DIR B3 (k - 1) j i)
                    - F (BFlux b X3DIR B2 k j i) - F (BFlux b X3DIR B2 k (j - 1) i))" (is ?t1)
proof -
  have *: "par_for xs (flux_ct_emf b F) e l = flux_ct_emf b F (k, j, i) e l"
    if "l \<in> {Emf1 b k j i, Emf2 b k j i, Emf3 b k j i}" for l
    using that assms
    by (intro par_for_written [where W = "\<lambda>(k, j, i). {Emf1 b k j i, Emf2 b k j i, Emf3 b k j i}" and R = "{}"])
       (auto simp: flux_ct_emf_def Let_def split: if_splits)
  show ?t3 by (subst *) (simp_all add: flux_ct_emf_def Let_def)
  show ?t2 by (subst *) (simp_all add: flux_ct_emf_def Let_def)
  show ?t1 by (subst *) (simp_all add: flux_ct_emf_def Let_def)
qed

lemma flux_ct_1_written:
  assumes "(k, j, i) \<in> set xs" "distinct xs"
  shows "par_for xs (flux_ct_1 b emf) F (BFlux b X1DIR B1 k j i) = 0" (is ?t1)
    and "par_for xs (flux_ct_1 b emf) F (BFlux b X1DIR B2 k j i) =
           c0_5 * (emf (Emf3 b k j i) + emf (Emf3 b k (j + 1) i))" (is ?t2)
    and "par_for xs (flux_ct_1 b emf) F (BFlux b X1DIR B3 k j i) =
           - c0_5 * (emf (Emf2 b k j i) + emf (Emf2 b (k + 1) j i))" (is ?t3)
proof -
  have *: "par_for xs (flux_ct_1 b emf) F l = flux_ct_1 b emf (k, j, i) F l"
    if "l \<in> {BFlux b X1DIR B1 k j i, BFlux b X1DIR B2 k j i, BFlux b X1DIR B3 k j i}" for l
    using that assms
    by (intro par_for_written [where W = "\<lambda>(k, j, i). {BFlux b X1DIR B1 k j i, BFlux b X1DIR B2 k j i, BFlux b X1DIR B3 k j i}" and R = "{}"])
       (auto simp: flux_ct_1_def split: if_splits)
  show ?t1 by (subst *) (simp_all add: flux_ct_1_def)
  show ?t2 by (subst *) (simp_all add: flux_ct_1_def)
  show ?t3 by (subst *) (simp_all add: flux_ct_1_def)
qed

lemma flux_ct_1_frame:
  assumes "\<And>c k j i. l \<noteq> BFlux b X1DIR c k j i"
  shows "par_for xs (flux_ct_1 b emf) F l = F l"
  using assms
  by (intro par_for_frame [where W = "\<lambda>(k, j, i). {BFlux b X1DIR B1 k j i, BFlux b X1DIR B2 k j i, BFlux b X1DIR B3 k j i}"])
     (auto simp: flux_ct_1_def split: if_splits)

lemma flux_ct_2_written:
  assumes "(k, j, i) \<in> set xs" "distinct xs"
  shows "par_for xs (flux_ct_2 b emf) F (BFlux b X2DIR B1 k j i) =
           - c0_5 * (emf (Emf3 b k j i) + emf (Emf3 b k j (i + 1)))" (is ?t1)
    and "par_for xs (flux_ct_2 b emf) F (BFlux b X2DIR B2 k j i) = 0" (is ?t2)
    and "par_for xs (flux_ct_2 b emf) F (BFlux b X2DIR B3 k j i) =
           c0_5 * (emf (Emf1 b k j i) + emf (Emf1 b (k + 1) j i))" (is ?t3)
proof -
  have *: "par_for xs (flux_ct_2 b emf) F l = flux_ct_2 b emf (k, j, i) F l"
    if "l \<in> {BFlux b X2DIR B1 k j i, BFlux b X2DIR B2 k j i, BFlux b X2DIR B3 k j i}" for l
    using that assms
    by (intro par_for_written [where W = "\<lambda>(k, j, i). {BFlux b X2DIR B1 k j i, BFlux b X2DIR B2 k j i, BFlux b X2DIR B3 k j i}" and R = "{}"])
       (auto simp: flux_ct_2_def split: if_splits)
  show ?t1 by (subst *) (simp_all add: flux_ct_2_def)
  show ?t2 by (subst *) (simp_all add: flux_ct_2_def)
  show ?t3 by (subst *) (simp_all add: flux_ct_2_def)
qed

lemma flux_ct_2_frame:
  assumes "\<And>c k j i. l \<noteq> BFlux b X2DIR c k j i"
  shows "par_for xs (flux_ct_2 b emf) F l = F l"
  using assms
  by (intro par_for_frame [where W = "\<lambda>(k, j, i). {BFlux b X2DIR B1 k j i, BFlux b X2DIR B2 k j i, BFlux b X2DIR B3 k j i}"])
     (auto simp: flux_ct_2_def split: if_splits)

lemma flux_ct_3_written:
  assumes "(k, j, i) \<in> set xs" "distinct xs"
  shows "par_for xs (flux_ct_3 b emf) F (BFlux b X3DIR B1 k j i) =
           c0_5 * (emf (Emf2 b k j i) + emf (Emf2 b k j (i + 1)))" (is ?t1)
    and "par_for xs (flux_ct_3 b emf) F (BFlux b X3DIR B2 k j i) =
           - c0_5 * (emf (Emf1 b k j i) + emf (Emf1 b k (j + 1) i))" (is ?t2)
    and "par_for xs (flux_ct_3 b emf) F (BFlux b X3DIR B3 k j i) = 0" (is ?t3)
proof -
  have *: "par_for xs (flux_ct_3 b emf) F l = flux_ct_3 b emf (k, j, i) F l"
    if "l \<in> {BFlux b X3DIR B1 k j i, BFlux b X3DIR B2 k j i, BFlux b X3DIR B3 k j i}" for l
    using that assms
    by (intro par_for_written [where W = "\<lambda>(k, j, i). {BFlux b X3DIR B1 k j i, BFlux b X3DIR B2 k j i, BFlux b X3DIR B3 k j i}" and R = "{}"])
       (auto simp: flux_ct_3_def split: if_splits)
  show ?t1 by (subst *) (simp_all add: flux_ct_3_def)
  show ?t2 by (subst *) (simp_all add: flux_ct_3_def)
  show ?t3 by (subst *) (simp_all add: flux_ct_3_def)
qed

lemma flux_ct_3_frame:
  assumes "\<And>c k j i. l \<noteq> BFlux b X3DIR c k j i"
  shows "par_for xs (flux_ct_3 b emf) F l = F l"
  using assms
  by (intro par_for_frame [where W = "\<lambda>(k, j, i). {BFlux b X3DIR B1 k j i, BFlux b X3DIR B2 k j i, BFlux b X3DIR B3 k j i}"])
     (auto simp: flux_ct_3_def split: if_splits)

lemma flux_ct_all_eq:
  assumes "(k, j, i) \<in> set xs" "distinct xs" "d \<in> {1, 2, 3}" "c \<in> {0, 1, 2}"
  shows "par_for xs (flux_ct_all b emf) F (BFlux b d c k j i) =
           flux_ct_all b emf (k, j, i) F (BFlux b d c k j i)"
  using assms
  by (intro par_for_written
        [where W = "\<lambda>(k, j, i). {BFlux b d c k j i | d c. d \<in> {1, 2, 3} \<and> c \<in> {0, 1, 2}}" and R = "{}"])
     (auto simp: flux_ct_all_def flux_ct_1_def flux_ct_2_def flux_ct_3_def split: if_splits)


lemma set_box3:
  "set (range3 (r_ks r) (r_ke r) (r_js r) (r_je r) (r_is r) (r_ie r)) = {(k, j, i). in_box r k j i}"
  by (simp add: set_range3 in_box_def)

lemma in_box_grow:
  "in_box (grow r dk dj di) k j i \<longleftrightarrow>
     r_ks r \<le> k \<and> k \<le> r_ke r + dk \<and> r_js r \<le> j \<and> j \<le> r_je r + dj \<and> r_is r \<le> i \<and> i \<le> r_ie r + di"
  by (simp add: in_box_def grow_def)

lemma FluxCT_emf_value:
  assumes "in_box (grow (cellbounds m interior) 1 1 1) k j i"
  shows "FluxCT_emf m b F (Emf3 b k j i) =
           c0_25 * (F (BFlux b X1DIR B2 k j i) + F (BFlux b X1DIR B2 k (j - 1) i)
                    - F (BFlux b X2DIR B1 k j i) - F (BFlux b X2DIR B1 k j (i - 1)))"
    and "FluxCT_emf m b F (Emf2 b k j i) =
           - c0_25 * (F (BFlux b X1DIR B3 k j i) + F (BFlux b X1DIR B3 (k - 1) j i)
                    - F (BFlux b X3DIR B1 k j i) - F (BFlux b X3DIR B1 k j (i - 1)))"
    and "FluxCT_emf m b F (Emf1 b k j i) =
           c0_25 * (F (BFlux b X2DIR B3 k j i) + F (BFlux b X2DIR B3 (k - 1) j i)
                    - F (BFlux b X3DIR B2 k j i) - F (BFlux b X3DIR B2 k (j - 1) i))"
  using assms unfolding FluxCT_emf_def Let_def
  by (simp_all add: flux_ct_emf_written set_range3 distinct_range3 in_box_grow)


lemma flux_ct_all_written:
  assumes "(k, j, i) \<in> set xs" "distinct xs"
  shows "par_for xs (flux_ct_all b emf) F (BFlux b X1DIR B1 k j i) = 0"
    and "par_for xs (flux_ct_all b emf) F (BFlux b X1DIR B2 k j i) =
           c0_5 * (emf (Emf3 b k j i) + emf (Emf3 b k (j + 1) i))"
    and "par_for xs (flux_ct_all b emf) F (BFlux b X1DIR B3 k j i) =
           - c0_5 * (emf (Emf2 b k j i) + emf (Emf2 b (k + 1) j i))"
    and "par_for xs (flux_ct_all b emf) F (BFlux b X2DIR B1 k j i) =
           - c0_5 * (emf (Emf3 b k j i) + emf (Emf3 b k j (i + 1)))"
    and "par_for xs (flux_ct_all b emf) F (BFlux b X2DIR B2 k j i) = 0"
    and "par_for xs (flux_ct_all b emf) F (BFlux b X2DIR B3 k j i) =
           c0_5 * (emf (Emf1 b k j i) + emf (Emf1 b (k + 1) j i))"
    and "par_for xs (flux_ct_all b emf) F (BFlux b X3DIR B1 k j i) =
           c0_5 * (emf (Emf2 b k j i) + emf (Emf2 b k j (i + 1)))"
    and "par_for xs (flux_ct_all b emf) F (BFlux b X3DIR B2 k j i) =
           - c0_5 * (emf (Emf1 b k j i) + emf (Emf1 b k (j + 1) i))"
    and "par_for xs (flux_ct_all b emf) F (BFlux b X3DIR B3 k j i) = 0"
  using assms
  by (simp_all add: flux_ct_all_eq)
     (simp_all add: flux_ct_all_def flux_ct_1_def flux_ct_2_def flux_ct_3_def)


lemma FluxCT_3D_F1:
  assumes "ndim m \<noteq> 1" "ndim m \<noteq> 2" "in_box (grow (cellbounds m interior) 0 0 1) k j i"
  shows "FluxCT fuse m b F (BFlux b X1DIR B1 k j i) = 0"
    and "FluxCT fuse m b F (BFlux b X1DIR B2 k j i) =
           c0_5 * (FluxCT_emf m b F (Emf3 b k j i) + FluxCT_emf m b F (Emf3 b k (j + 1) i))"
    and "FluxCT fuse m b F (BFlux b X1DIR B3 k j i) =
           - c0_5 * (FluxCT_emf m b F (Emf2 b k j i) + FluxCT_emf m b F (Emf2 b (k + 1) j i))"
proof -
  let ?d = "cellbounds m interior"
  have r1: "(k, j, i) \<in> set (range3 (r_ks ?d) (r_ke ?d) (r_js ?d) (r_je ?d) (r_is ?d) (r_ie ?d + 1))"
    and ra: "(k, j, i) \<in> set (range3 (r_ks ?d) (r_ke ?d + 1) (r_js ?d) (r_je ?d + 1) (r_is ?d) (r_ie ?d + 1))"
    using assms(3) by (simp_all add: set_range3 in_box_grow)
  note facts = FluxCT_def Let_def flux_ct_3_frame flux_ct_2_frame flux_ct_1_written
          flux_ct_all_written distinct_range3
  show "FluxCT fuse m b F (BFlux b X1DIR B1 k j i) = 0"
    using assms(1,2) r1 ra by (cases fuse) (simp_all add: facts del: One_nat_def)
  show "FluxCT fuse m b F (BFlux b X1DIR B2 k j i) =
           c0_5 * (FluxCT_emf m b F (Emf3 b k j i) + FluxCT_emf m b F (Emf3 b k (j + 1) i))"
    using assms(1,2) r1 ra by (cases fuse) (simp_all add: facts del: One_nat_def)
  show "FluxCT fuse m b F (BFlux b X1DIR B3 k j i) =
           - c0_5 * (FluxCT_emf m b F (Emf2 b k j i) + FluxCT_emf m b F (Emf2 b (k + 1) j i))"
    using assms(1,2) r1 ra by (cases fuse) (simp_all add: facts del: One_nat_def)
qed

lemma FluxCT_3D_F2:
  assumes "ndim m \<noteq> 1" "ndim m \<noteq> 2" "in_box (grow (cellbounds m interior) 0 1 0) k j i"
  shows "FluxCT fuse m b F (BFlux b X2DIR B1 k j i) =
           - c0_5 * (FluxCT_emf m b F (Emf3 b k j i) + FluxCT_emf m b F (Emf3 b k j (i + 1)))"
    and "FluxCT fuse m b F (BFlux b X2DIR B2 k j i) = 0"
    and "FluxCT fuse m b F (BFlux b X2DIR B3 k j i) =
           c0_5 * (FluxCT_emf m b F (Emf1 b k j i) + FluxCT_emf m b F (Emf1 b (k + 1) j i))"
proof -
  let ?d = "cellbounds m interior"
  have r1: "(k, j, i) \<in> set (range3 (r_ks ?d) (r_ke ?d) (r_js ?d) (r_je ?d + 1) (r_is ?d) (r_ie ?d))"
    and ra: "(k, j, i) \<in> set (range3 (r_ks ?d) (r_ke ?d + 1) (r_js ?d) (r_je ?d + 1) (r_is ?d) (r_ie ?d + 1))"
    using assms(3) by (simp_all add: set_range3 in_box_grow)
  note facts = FluxCT_def Let_def flux_ct_3_frame flux_ct_2_written
          flux_ct_all_written distinct_range3
  show "FluxCT fuse m b F (BFlux b X2DIR B1 k j i) =
           - c0_5 * (FluxCT_emf m b F (Emf3 b k j i) + FluxCT_emf m b F (Emf3 b k j (i + 1)))"
    using assms(1,2) r1 ra by (cases fuse) (simp_all add: facts del: One_nat_def)
  show "FluxCT fuse m b F (BFlux b X2DIR B2 k j i) = 0"
    using assms(1,2) r1 ra by (cases fuse) (simp_all add: facts del: One_nat_def)
  show "FluxCT fuse m b F (BFlux b X2DIR B3 k j i) =
           c0_5 * (FluxCT_emf m b F (Emf1 b k j i) + FluxCT_emf m b F (Emf1 b (k + 1) j i))"
    using assms(1,2) r1 ra by (cases fuse) (simp_all add: facts del: One_nat_def)
qed

lemma FluxCT_3D_F3:
  assumes "ndim m \<noteq> 1" "ndim m \<noteq> 2" "in_box (grow (cellbounds m interior) 1 0 0) k j i"
  shows "FluxCT fuse m b F (BFlux b X3DIR B1 k j i) =
           c0_5 * (FluxCT_emf m b F (Emf2 b k j i) + FluxCT_emf m b F (Emf2 b k j (i + 1)))"
    and "FluxCT fuse m b F (BFlux b X3DIR B2 k j i) =
           - c0_5 * (FluxCT_emf m b F (Emf1 b k j i) + FluxCT_emf m b F (Emf1 b k (j + 1) i))"
    and "FluxCT fuse m b F (BFlux b X3DIR B3 k j i) = 0"
proof -
  let ?d = "cellbounds m interior"
  have r1: "(k, j, i) \<in> set (range3 (r_ks ?d) (r_ke ?d + 1) (r_js ?d) (r_je ?d) (r_is ?d) (r_ie ?d))"
    and ra: "(k, j, i) \<in> set (range3 (r_ks ?d) (r_ke ?d + 1) (r_js ?d) (r_je ?d + 1) (r_is ?d) (r_ie ?d + 1))"
    using assms(3) by (simp_all add: set_range3 in_box_grow)
  note facts = FluxCT_def Let_def flux_ct_3_written flux_ct_all_written distinct_range3
  show "FluxCT fuse m b F (BFlux b X3DIR B1 k j i) =
           c0_5 * (FluxCT_emf m b F (Emf2 b k j i) + FluxCT_emf m b F (Emf2 b k j (i + 1)))"
    using assms(1,2) r1 ra by (cases fuse) (simp_all add: facts del: One_nat_def)
  show "FluxCT fuse m b F (BFlux b X3DIR B2 k j i) =
           - c0_5 * (FluxCT_emf m b F (Emf1 b k j i) + FluxCT_emf m b F (Emf1 b k (j + 1) i))"
    using assms(1,2) r1 ra by (cases fuse) (simp_all add: facts del: One_nat_def)
  show "FluxCT fuse m b F (BFlux b X3DIR B3 k j i) = 0"
    using assms(1,2) r1 ra by (cases fuse) (simp_all add: facts del: One_nat_def)
qed

subsection \<open>The two-dimensional kernels\<close>

lemma flux_ct_emf_2D_written:
  assumes "(j, i) \<in> set xs" "distinct xs"
  shows "par_for xs (flux_ct_emf_2D b F) e (Emf3 b 0 j i) =
           c0_25 * (F (BFlux b X1DIR B2 0 j i) + F (BFlux b X1DIR B2 0 (j - 1) i)
                    - F (BFlux b X2DIR B1 0 j i) - F (BFlux b X2DIR B1 0 j (i - 1)))"
proof -
  have "par_for xs (flux_ct_emf_2D b F) e (Emf3 b 0 j i) = flux_ct_emf_2D b F (j, i) e (Emf3 b 0 j i)"
    using assms
    by (intro par_for_written [where W = "\<lambda>(j, i). {Emf3 b 0 j i}" and R = "{}"])
       (auto simp: flux_ct_emf_2D_def Let_def split: if_splits)
  then show ?thesis by (simp add: flux_ct_emf_2D_def Let_def)
qed

lemma flux_ct_1_2D_written:
  assumes "(j, i) \<in> set xs" "distinct xs"
  shows "par_for xs (flux_ct_1_2D b emf) F (BFlux b X1DIR B1 0 j i) = 0" (is ?t1)
    and "par_for xs (flux_ct_1_2D b emf) F (BFlux b X1DIR B2 0 j i) =
           c0_5 * (emf (Emf3 b 0 j i) + emf (Emf3 b 0 (j + 1) i))" (is ?t2)
proof -
  have *: "par_for xs (flux_ct_1_2D b emf) F l = flux_ct_1_2D b emf (j, i) F l"
    if "l \<in> {BFlux b X1DIR B1 0 j i, BFlux b X1DIR B2 0 j i}" for l
    using that assms
    by (intro par_for_written [where W = "\<lambda>(j, i). {BFlux b X1DIR B1 0 j i, BFlux b X1DIR B2 0 j i}" and R = "{}"])
       (auto simp: flux_ct_1_2D_def split: if_splits)
  show ?t1 by (subst *) (simp_all add: flux_ct_1_2D_def)
  show ?t2 by (subst *) (simp_all add: flux_ct_1_2D_def)
qed

lemma flux_ct_2_2D_written:
  assumes "(j, i) \<in> set xs" "distinct xs"
  shows "par_for xs (flux_ct_2_2D b emf) F (BFlux b X2DIR B1 0 j i) =
           - c0_5 * (emf (Emf3 b 0 j i) + emf (Emf3 b 0 j (i + 1)))" (is ?t1)
    and "par_for xs (flux_ct_2_2D b emf) F (BFlux b X2DIR B2 0 j i) = 0" (is ?t2)
proof -
  have *: "par_for xs (flux_ct_2_2D b emf) F l = flux_ct_2_2D b emf (j, i) F l"
    if "l \<in> {BFlux b X2DIR B1 0 j i, BFlux b X2DIR B2 0 j i}" for l
    using that assms
    by (intro par_for_written [where W = "\<lambda>(j, i). {BFlux b X2DIR B1 0 j i, BFlux b X2DIR B2 0 j i}" and R = "{}"])
       (auto simp: flux_ct_2_2D_def split: if_splits)
  show ?t1 by (subst *) (simp_all add: flux_ct_2_2D_def)
  show ?t2 by (subst *) (simp_all add: flux_ct_2_2D_def)
qed

lemma flux_ct_2_2D_frame:
  assumes "\<And>c k j i. l \<noteq> BFlux b X2DIR c k j i"
  shows "par_for xs (flux_ct_2_2D b emf) F l = F l"
  using assms
  by (intro par_for_frame [where W = "\<lambda>(j, i). {BFlux b X2DIR B1 0 j i, BFlux b X2DIR B2 0 j i}"])
     (auto simp: flux_ct_2_2D_def split: if_splits)

lemma flux_ct_all_2D_written:
  assumes "(j, i) \<in> set xs" "distinct xs"
  shows "par_for xs (flux_ct_all_2D b emf) F (BFlux b X1DIR B1 0 j i) = 0" (is ?t1)
    and "par_for xs (flux_ct_all_2D b emf) F (BFlux b X1DIR B2 0 j i) =
           c0_5 * (emf (Emf3 b 0 j i) + emf (Emf3 b 0 (j + 1) i))" (is ?t2)
    and "par_for xs (flux_ct_all_2D b emf) F (BFlux b X2DIR B1 0 j i) =
           - c0_5 * (emf (Emf3 b 0 j i) + emf (Emf3 b 0 j (i + 1)))" (is ?t3)
    and "par_for xs (flux_ct_all_2D b emf) F (BFlux b X2DIR B2 0 j i) = 0" (is ?t4)
proof -
  have *: "par_for xs (flux_ct_all_2D b emf) F l = flux_ct_all_2D b emf (j, i) F l"
    if "l \<in> {BFlux b X1DIR B1 0 j i, BFlux b X1DIR B2 0 j i, BFlux b X2DIR B1 0 j i, BFlux b X2DIR B2 0 j i}" for l
    using that assms
    by (intro par_for_written [where W = "\<lambda>(j, i). {BFlux b X1DIR B1 0 j i, BFlux b X1DIR B2 0 j i,
            BFlux b X2DIR B1 0 j i, BFlux b X2DIR B2 0 j i}" and R = "{}"])
       (auto simp: flux_ct_all_2D_def flux_ct_1_2D_def flux_ct_2_2D_def split: if_splits)
  show ?t1 by (subst *) (simp_all add: flux_ct_all_2D_def flux_ct_1_2D_def flux_ct_2_2D_def)
  show ?t2 by (subst *) (simp_all add: flux_ct_all_2D_def flux_ct_1_2D_def flux_ct_2_2D_def)
  show ?t3 by (subst *) (simp_all add: flux_ct_all_2D_def flux_ct_1_2D_def flux_ct_2_2D_def)
  show ?t4 by (subst *) (simp_all add: flux_ct_all_2D_def flux_ct_1_2D_def flux_ct_2_2D_def)
qed

lemma FluxCT2D_emf_value:
  assumes "r_js (cellbounds m interior) \<le> j" "j \<le> r_je (cellbounds m interior) + 1"
    and "r_is (cellbounds m interior) \<le> i" "i \<le> r_ie (cellbounds m interior) + 1"
  shows "FluxCT2D_emf m b F (Emf3 b 0 j i) =
           c0_25 * (F (BFlux b X1DIR B2 0 j i) + F (BFlux b X1DIR B2 0 (j - 1) i)
                    - F (BFlux b X2DIR B1 0 j i) - F (BFlux b X2DIR B1 0 j (i - 1)))"
  using assms unfolding FluxCT2D_emf_def Let_def
  by (simp add: flux_ct_emf_2D_written set_range2 distinct_range2)

lemma FluxCT_2D_F1:
  assumes "ndim m = 2"
    and "r_js (cellbounds m interior) \<le> j" "j \<le> r_je (cellbounds m interior)"
    and "r_is (cellbounds m interior) \<le> i" "i \<le> r_ie (cellbounds m interior) + 1"
  shows "FluxCT fuse m b F (BFlux b X1DIR B1 0 j i) = 0"
    and "FluxCT fuse m b F (BFlux b X1DIR B2 0 j i) =
           c0_5 * (FluxCT2D_emf m b F (Emf3 b 0 j i) + FluxCT2D_emf m b F (Emf3 b 0 (j + 1) i))"
proof -
  let ?d = "cellbounds m interior"
  have r1: "(j, i) \<in> set (range2 (r_js ?d) (r_je ?d) (r_is ?d) (r_ie ?d + 1))"
    and ra: "(j, i) \<in> set (range2 (r_js ?d) (r_je ?d + 1) (r_is ?d) (r_ie ?d + 1))"
    using assms(2-) by (simp_all add: set_range2)
  note facts = FluxCT_def FluxCT2D_def Let_def flux_ct_2_2D_frame flux_ct_1_2D_written
          flux_ct_all_2D_written distinct_range2
  show "FluxCT fuse m b F (BFlux b X1DIR B1 0 j i) = 0"
    using assms(1) r1 ra by (cases fuse) (simp_all add: facts del: One_nat_def)
  show "FluxCT fuse m b F (BFlux b X1DIR B2 0 j i) =
           c0_5 * (FluxCT2D_emf m b F (Emf3 b 0 j i) + FluxCT2D_emf m b F (Emf3 b 0 (j + 1) i))"
    using assms(1) r1 ra by (cases fuse) (simp_all add: facts del: One_nat_def)
qed

lemma FluxCT_2D_F2:
  assumes "ndim m = 2"
    and "r_js (cellbounds m interior) \<le> j" "j \<le> r_je (cellbounds m interior) + 1"
    and "r_is (cellbounds m interior) \<le> i" "i \<le> r_ie (cellbounds m interior)"
  shows "FluxCT fuse m b F (BFlux b X2DIR B1 0 j i) =
           - c0_5 * (FluxCT2D_emf m b F (Emf3 b 0 j i) + FluxCT2D_emf m b F (Emf3 b 0 j (i + 1)))"
    and "FluxCT fuse m b F (BFlux b X2DIR B2 0 j i) = 0"
proof -
  let ?d = "cellbounds m interior"
  have r1: "(j, i) \<in> set (range2 (r_js ?d) (r_je ?d + 1) (r_is ?d) (r_ie ?d))"
    and ra: "(j, i) \<in> set (range2 (r_js ?d) (r_je ?d + 1) (r_is ?d) (r_ie ?d + 1))"
    using assms(2-) by (simp_all add: set_range2)
  note facts = FluxCT_def FluxCT2D_def Let_def flux_ct_2_2D_written
          flux_ct_all_2D_written distinct_range2
  show "FluxCT fuse m b F (BFlux b X2DIR B1 0 j i) =
           - c0_5 * (FluxCT2D_emf m b F (Emf3 b 0 j i) + FluxCT2D_emf m b F (Emf3 b 0 j (i + 1)))"
    using assms(1) r1 ra by (cases fuse) (simp_all add: facts del: One_nat_def)
  show "FluxCT fuse m b F (BFlux b X2DIR B2 0 j i) = 0"
    using assms(1) r1 ra by (cases fuse) (simp_all add: facts del: One_nat_def)
qed


text \<open>
  C1. After FluxCT the flux of each magnetic-field component along its own axis is 0 at
  every face the call writes: on the three-dimensional path \<open>F1(B1)\<close> on
  \<open>[ks,ke] \<times> [js,je] \<times> [is,ie+1]\<close>, \<open>F2(B2)\<close> on \<open>[ks,ke] \<times> [js,je+1] \<times> [is,ie]\<close> and
  \<open>F3(B3)\<close> on \<open>[ks,ke+1] \<times> [js,je] \<times> [is,ie]\<close>; on the two-dimensional path \<open>F1(B1)\<close> and
  \<open>F2(B2)\<close> in the plane \<open>k = 0\<close> that this path addresses.
\<close>

theorem FluxCT_self_flux_zero:
  fixes F :: "bloc \<Rightarrow> 'r::{zero,one,plus,minus,uminus,times,inverse}"
  shows "(ndim m \<noteq> 1 \<and> ndim m \<noteq> 2 \<longrightarrow>
            (in_box (grow (cellbounds m interior) 0 0 1) k j i \<longrightarrow>
               FluxCT fuse m b F (BFlux b X1DIR B1 k j i) = 0) \<and>
            (in_box (grow (cellbounds m interior) 0 1 0) k j i \<longrightarrow>
               FluxCT fuse m b F (BFlux b X2DIR B2 k j i) = 0) \<and>
            (in_box (grow (cellbounds m interior) 1 0 0) k j i \<longrightarrow>
               FluxCT fuse m b F (BFlux b X3DIR B3 k j i) = 0)) \<and>
         (ndim m = 2 \<longrightarrow>
            (in_box (grow (cellbounds m interior) 0 0 1) k j i \<longrightarrow>
               FluxCT fuse m b F (BFlux b X1DIR B1 0 j i) = 0) \<and>
            (in_box (grow (cellbounds m interior) 0 1 0) k j i \<longrightarrow>
               FluxCT fuse m b F (BFlux b X2DIR B2 0 j i) = 0))"
  by (simp add: FluxCT_3D_F1(1) FluxCT_3D_F2(2) FluxCT_3D_F3(3) FluxCT_2D_F1(1) FluxCT_2D_F2(2)
        in_box_grow del: One_nat_def)

theorem FluxCT_self_flux_zero_witness:
  "ones (BFlux 0 X1DIR B1 4 4 6) = 1 \<and>
   FluxCT False mesh_3D 0 ones (BFlux 0 X1DIR B1 4 4 6) = 0 \<and>
   FluxCT False mesh_3D 0 ones (BFlux 0 X2DIR B2 4 6 4) = 0 \<and>
   FluxCT False mesh_3D 0 ones (BFlux 0 X3DIR B3 6 4 4) = 0 \<and>
   FluxCT True mesh_2D 0 ones (BFlux 0 X1DIR B1 0 4 6) = 0 \<and>
   FluxCT True mesh_2D 0 ones (BFlux 0 X2DIR B2 0 6 4) = 0"
  using FluxCT_self_flux_zero [of mesh_3D 4 4 6 False 0 ones]
    FluxCT_self_flux_zero [of mesh_3D 4 6 4 False 0 ones]
    FluxCT_self_flux_zero [of mesh_3D 6 4 4 False 0 ones]
    FluxCT_self_flux_zero [of mesh_2D 0 4 6 True 0 ones]
    FluxCT_self_flux_zero [of mesh_2D 0 6 4 True 0 ones]
  by (simp add: mesh_3D_def mesh_2D_def bounds_3D_def bounds_2D_def in_box_grow ones_def)

subsection \<open>The whole-mesh kernels\<close>

lemma mesh_flux_ct_emf_written:
  assumes "(b, k, j, i) \<in> set xs" "distinct xs"
  shows "par_for xs (mesh_flux_ct_emf nd F) e (Emf3 b k j i) =
           c0_25 * (F (BFlux b X1DIR B2 k j i) + F (BFlux b X1DIR B2 k (j - 1) i)
                    - F (BFlux b X2DIR B1 k j i) - F (BFlux b X2DIR B1 k j (i - 1)))" (is ?t3)
    and "nd > 2 \<Longrightarrow> par_for xs (mesh_flux_ct_emf nd F) e (Emf2 b k j i) =
           - c0_25 * (F (BFlux b X1DIR B3 k j i) + F (BFlux b X1DIR B3 (k - 1) j i)
                    - F (BFlux b X3DIR B1 k j i) - F (BFlux b X3DIR B1 k j (i - 1)))" (is "_ \<Longrightarrow> ?t2")
    and "nd > 2 \<Longrightarrow> par_for xs (mesh_flux_ct_emf nd F) e (Emf1 b k j i) =
           c0_25 * (F (BFlux b X2DIR B3 k j i) + F (BFlux b X2DIR B3 (k - 1) j i)
                    - F (BFlux b X3DIR B2 k j i) - F (BFlux b X3DIR B2 k (j - 1) i))" (is "_ \<Longrightarrow> ?t1")
proof -
  have *: "par_for xs (mesh_flux_ct_emf nd F) e l = mesh_flux_ct_emf nd F (b, k, j, i) e l"
    if "l = Emf3 b k j i \<or> nd > 2 \<and> l \<in> {Emf1 b k j i, Emf2 b k j i}" for l
    using that assms
    by (intro par_for_written
          [where W = "\<lambda>(b, k, j, i). {l. l = Emf3 b k j i \<or> nd > 2 \<and> l \<in> {Emf1 b k j i, Emf2 b k j i}}"
             and R = "{}"])
       (auto simp: mesh_flux_ct_emf_def Let_def split: if_splits)
  show ?t3 by (subst *) (simp_all add: mesh_flux_ct_emf_def Let_def)
  show ?t2 if "nd > 2" using that by (subst *) (simp_all add: mesh_flux_ct_emf_def Let_def)
  show ?t1 if "nd > 2" using that by (subst *) (simp_all add: mesh_flux_ct_emf_def Let_def)
qed

lemma mesh_flux_ct_1_written:
  assumes "(b, k, j, i) \<in> set xs" "distinct xs"
  shows "par_for xs (mesh_flux_ct_1 nd emf) F (BFlux b X1DIR B1 k j i) = 0" (is ?t1)
    and "par_for xs (mesh_flux_ct_1 nd emf) F (BFlux b X1DIR B2 k j i) =
           c0_5 * (emf (Emf3 b k j i) + emf (Emf3 b k (j + 1) i))" (is ?t2)
    and "nd > 2 \<Longrightarrow> par_for xs (mesh_flux_ct_1 nd emf) F (BFlux b X1DIR B3 k j i) =
           - c0_5 * (emf (Emf2 b k j i) + emf (Emf2 b (k + 1) j i))" (is "_ \<Longrightarrow> ?t3")
proof -
  have *: "par_for xs (mesh_flux_ct_1 nd emf) F l = mesh_flux_ct_1 nd emf (b, k, j, i) F l"
    if "l \<in> {BFlux b X1DIR B1 k j i, BFlux b X1DIR B2 k j i} \<or> nd > 2 \<and> l = BFlux b X1DIR B3 k j i" for l
    using that assms
    by (intro par_for_written
          [where W = "\<lambda>(b, k, j, i). {l. l \<in> {BFlux b X1DIR B1 k j i, BFlux b X1DIR B2 k j i}
                          \<or> nd > 2 \<and> l = BFlux b X1DIR B3 k j i}" and R = "{}"])
       (auto simp: mesh_flux_ct_1_def Let_def split: if_splits)
  show ?t1 by (subst *) (simp_all add: mesh_flux_ct_1_def Let_def)
  show ?t2 by (subst *) (simp_all add: mesh_flux_ct_1_def Let_def)
  show ?t3 if "nd > 2" using that by (subst *) (simp_all add: mesh_flux_ct_1_def Let_def)
qed

lemma mesh_flux_ct_1_frame:
  assumes "\<And>b c k j i. l \<noteq> BFlux b X1DIR c k j i"
  shows "par_for xs (mesh_flux_ct_1 nd emf) F l = F l"
  by (rule par_for_frame [where W = "\<lambda>y. {l. \<exists>b c k j i. l = BFlux b X1DIR c k j i}"])
     (use assms in \<open>auto simp: mesh_flux_ct_1_def Let_def split: if_splits\<close>)

lemma mesh_flux_ct_2_written:
  assumes "(b, k, j, i) \<in> set xs" "distinct xs"
  shows "par_for xs (mesh_flux_ct_2 nd emf) F (BFlux b X2DIR B1 k j i) =
           - c0_5 * (emf (Emf3 b k j i) + emf (Emf3 b k j (i + 1)))" (is ?t1)
    and "par_for xs (mesh_flux_ct_2 nd emf) F (BFlux b X2DIR B2 k j i) = 0" (is ?t2)
    and "nd > 2 \<Longrightarrow> par_for xs (mesh_flux_ct_2 nd emf) F (BFlux b X2DIR B3 k j i) =
           c0_5 * (emf (Emf1 b k j i) + emf (Emf1 b (k + 1) j i))" (is "_ \<Longrightarrow> ?t3")
proof -
  have *: "par_for xs (mesh_flux_ct_2 nd emf) F l = mesh_flux_ct_2 nd emf (b, k, j, i) F l"
    if "l \<in> {BFlux b X2DIR B1 k j i, BFlux b X2DIR B2 k j i} \<or> nd > 2 \<and> l = BFlux b X2DIR B3 k j i" for l
    using that assms
    by (intro par_for_written
          [where W = "\<lambda>(b, k, j, i). {l. l \<in> {BFlux b X2DIR B1 k j i, BFlux b X2DIR B2 k j i}
                          \<or> nd > 2 \<and> l = BFlux b X2DIR B3 k j i}" and R = "{}"])
       (auto simp: mesh_flux_ct_2_def Let_def split: if_splits)
  show ?t1 by (subst *) (simp_all add: mesh_flux_ct_2_def Let_def)
  show ?t2 by (subst *) (simp_all add: mesh_flux_ct_2_def Let_def)
  show ?t3 if "nd > 2" using that by (subst *) (simp_all add: mesh_flux_ct_2_def Let_def)
qed

lemma mesh_flux_ct_2_frame:
  assumes "\<And>b c k j i. l \<noteq> BFlux b X2DIR c k j i"
  shows "par_for xs (mesh_flux_ct_2 nd emf) F l = F l"
  by (rule par_for_frame [where W = "\<lambda>y. {l. \<exists>b c k j i. l = BFlux b X2DIR c k j i}"])
     (use assms in \<open>auto simp: mesh_flux_ct_2_def Let_def split: if_splits\<close>)

lemma mesh_flux_ct_3_written:
  assumes "(b, k, j, i) \<in> set xs" "distinct xs"
  shows "par_for xs (mesh_flux_ct_3 emf) F (BFlux b X3DIR B1 k j i) =
           c0_5 * (emf (Emf2 b k j i) + emf (Emf2 b k j (i + 1)))" (is ?t1)
    and "par_for xs (mesh_flux_ct_3 emf) F (BFlux b X3DIR B2 k j i) =
           - c0_5 * (emf (Emf1 b k j i) + emf (Emf1 b k (j + 1) i))" (is ?t2)
    and "par_for xs (mesh_flux_ct_3 emf) F (BFlux b X3DIR B3 k j i) = 0" (is ?t3)
proof -
  have *: "par_for xs (mesh_flux_ct_3 emf) F l = mesh_flux_ct_3 emf (b, k, j, i) F l"
    if "l \<in> {BFlux b X3DIR B1 k j i, BFlux b X3DIR B2 k j i, BFlux b X3DIR B3 k j i}" for l
    using that assms
    by (intro par_for_written
          [where W = "\<lambda>(b, k, j, i). {BFlux b X3DIR B1 k j i, BFlux b X3DIR B2 k j i, BFlux b X3DIR B3 k j i}"
             and R = "{}"])
       (auto simp: mesh_flux_ct_3_def split: if_splits)
  show ?t1 by (subst *) (simp_all add: mesh_flux_ct_3_def)
  show ?t2 by (subst *) (simp_all add: mesh_flux_ct_3_def)
  show ?t3 by (subst *) (simp_all add: mesh_flux_ct_3_def)
qed

lemma mesh_flux_ct_3_frame:
  assumes "\<And>b c k j i. l \<noteq> BFlux b X3DIR c k j i"
  shows "par_for xs (mesh_flux_ct_3 emf) F l = F l"
  by (rule par_for_frame [where W = "\<lambda>y. {l. \<exists>b c k j i. l = BFlux b X3DIR c k j i}"])
     (use assms in \<open>auto simp: mesh_flux_ct_3_def split: if_splits\<close>)

lemma mesh_flux_ct_all_written:
  assumes "(b, k, j, i) \<in> set xs" "distinct xs"
  shows "par_for xs (mesh_flux_ct_all nd emf) F (BFlux b X1DIR B1 k j i) = 0" (is ?a)
    and "par_for xs (mesh_flux_ct_all nd emf) F (BFlux b X1DIR B2 k j i) =
           c0_5 * (emf (Emf3 b k j i) + emf (Emf3 b k (j + 1) i))" (is ?b)
    and "par_for xs (mesh_flux_ct_all nd emf) F (BFlux b X2DIR B1 k j i) =
           - c0_5 * (emf (Emf3 b k j i) + emf (Emf3 b k j (i + 1)))" (is ?c)
    and "par_for xs (mesh_flux_ct_all nd emf) F (BFlux b X2DIR B2 k j i) = 0" (is ?d)
    and "nd > 2 \<Longrightarrow> par_for xs (mesh_flux_ct_all nd emf) F (BFlux b X1DIR B3 k j i) =
           - c0_5 * (emf (Emf2 b k j i) + emf (Emf2 b (k + 1) j i))" (is "_ \<Longrightarrow> ?e")
    and "nd > 2 \<Longrightarrow> par_for xs (mesh_flux_ct_all nd emf) F (BFlux b X2DIR B3 k j i) =
           c0_5 * (emf (Emf1 b k j i) + emf (Emf1 b (k + 1) j i))" (is "_ \<Longrightarrow> ?f")
    and "nd > 2 \<Longrightarrow> par_for xs (mesh_flux_ct_all nd emf) F (BFlux b X3DIR B1 k j i) =
           c0_5 * (emf (Emf2 b k j i) + emf (Emf2 b k j (i + 1)))" (is "_ \<Longrightarrow> ?g")
    and "nd > 2 \<Longrightarrow> par_for xs (mesh_flux_ct_all nd emf) F (BFlux b X3DIR B2 k j i) =
           - c0_5 * (emf (Emf1 b k j i) + emf (Emf1 b k (j + 1) i))" (is "_ \<Longrightarrow> ?h")
    and "nd > 2 \<Longrightarrow> par_for xs (mesh_flux_ct_all nd emf) F (BFlux b X3DIR B3 k j i) = 0" (is "_ \<Longrightarrow> ?i")
proof -
  have other: "mesh_flux_ct_all nd emf (b, k, j, i) F l = F l" if "\<And>d c. l \<noteq> BFlux b d c k j i"
    for b k j i F and l :: bloc
    using that by (simp add: mesh_flux_ct_all_def Let_def)
  have *: "par_for xs (mesh_flux_ct_all nd emf) F (BFlux b d c k j i) =
             mesh_flux_ct_all nd emf (b, k, j, i) F (BFlux b d c k j i)"
    if "\<And>s s'. mesh_flux_ct_all nd emf (b, k, j, i) s (BFlux b d c k j i) =
                  mesh_flux_ct_all nd emf (b, k, j, i) s' (BFlux b d c k j i)" for d c
  proof (rule par_for_written [where W = "\<lambda>(b, k, j, i). {l. \<exists>d c. l = BFlux b d c k j i}" and R = "{}"])
    show "mesh_flux_ct_all nd emf y s l = s l"
      if "y \<in> set xs" "l \<notin> (case y of (b, k, j, i) \<Rightarrow> {l. \<exists>d c. l = BFlux b d c k j i})" for y s l
      using that(2) by (cases y) (auto intro: other)
  qed (use that assms in auto)
  show ?a by (subst *) (simp_all add: mesh_flux_ct_all_def Let_def)
  show ?b by (subst *) (simp_all add: mesh_flux_ct_all_def Let_def)
  show ?c by (subst *) (simp_all add: mesh_flux_ct_all_def Let_def)
  show ?d by (subst *) (simp_all add: mesh_flux_ct_all_def Let_def)
  show ?e if "nd > 2" using that by (subst *) (simp_all add: mesh_flux_ct_all_def Let_def)
  show ?f if "nd > 2" using that by (subst *) (simp_all add: mesh_flux_ct_all_def Let_def)
  show ?g if "nd > 2" using that by (subst *) (simp_all add: mesh_flux_ct_all_def Let_def)
  show ?h if "nd > 2" using that by (subst *) (simp_all add: mesh_flux_ct_all_def Let_def)
  show ?i if "nd > 2" using that by (subst *) (simp_all add: mesh_flux_ct_all_def Let_def)
qed

lemma in_box_halo:
  "in_box (FluxCT_mesh_halo m) k j i \<longleftrightarrow>
     (if ndim m > 2 then r_ks (cellbounds m interior) - 3 \<le> k \<and> k \<le> r_ke (cellbounds m interior) + 3
      else r_ks (cellbounds m interior) \<le> k \<and> k \<le> r_ke (cellbounds m interior)) \<and>
     r_js (cellbounds m interior) - 3 \<le> j \<and> j \<le> r_je (cellbounds m interior) + 3 \<and>
     r_is (cellbounds m interior) - 3 \<le> i \<and> i \<le> r_ie (cellbounds m interior) + 3"
  by (simp add: in_box_def FluxCT_mesh_halo_def Let_def)

lemma FluxCT_mesh_emf_value:
  assumes "b < nblocks m" "in_box (FluxCT_mesh_halo m) k j i"
  shows "FluxCT_mesh_emf m F (Emf3 b k j i) =
           c0_25 * (F (BFlux b X1DIR B2 k j i) + F (BFlux b X1DIR B2 k (j - 1) i)
                    - F (BFlux b X2DIR B1 k j i) - F (BFlux b X2DIR B1 k j (i - 1)))"
    and "ndim m > 2 \<Longrightarrow> FluxCT_mesh_emf m F (Emf2 b k j i) =
           - c0_25 * (F (BFlux b X1DIR B3 k j i) + F (BFlux b X1DIR B3 (k - 1) j i)
                    - F (BFlux b X3DIR B1 k j i) - F (BFlux b X3DIR B1 k j (i - 1)))"
    and "ndim m > 2 \<Longrightarrow> FluxCT_mesh_emf m F (Emf1 b k j i) =
           c0_25 * (F (BFlux b X2DIR B3 k j i) + F (BFlux b X2DIR B3 (k - 1) j i)
                    - F (BFlux b X3DIR B2 k j i) - F (BFlux b X3DIR B2 k (j - 1) i))"
  using assms unfolding FluxCT_mesh_emf_def Let_def
  by (simp_all add: mesh_flux_ct_emf_written set_range4 distinct_range4 in_box_def)

lemma FluxCT_mesh_F1:
  assumes "\<not> ndim m < 2" "b < nblocks m"
    and "in_box ((cellbounds m interior)\<lparr>r_is := r_is (cellbounds m interior) - 3,
                                         r_ie := r_ie (cellbounds m interior) + 3\<rparr>) k j i"
  shows "FluxCT_mesh fuse m F (BFlux b X1DIR B1 k j i) = 0"
    and "FluxCT_mesh fuse m F (BFlux b X1DIR B2 k j i) =
           c0_5 * (FluxCT_mesh_emf m F (Emf3 b k j i) + FluxCT_mesh_emf m F (Emf3 b k (j + 1) i))"
    and "ndim m > 2 \<Longrightarrow> FluxCT_mesh fuse m F (BFlux b X1DIR B3 k j i) =
           - c0_5 * (FluxCT_mesh_emf m F (Emf2 b k j i) + FluxCT_mesh_emf m F (Emf2 b (k + 1) j i))"
proof -
  let ?d = "cellbounds m interior" and ?l = "FluxCT_mesh_halo m"
  have r1: "(b, k, j, i) \<in> set (range4 (nblocks m) (r_ks ?d) (r_ke ?d) (r_js ?d) (r_je ?d) (r_is ?l) (r_ie ?l))"
    and ra: "(b, k, j, i) \<in> set (range4 (nblocks m) (r_ks ?l) (r_ke ?l) (r_js ?l) (r_je ?l) (r_is ?l) (r_ie ?l))"
    using assms(2,3) by (auto simp: set_range4 in_box_def FluxCT_mesh_halo_def Let_def)
  note facts = FluxCT_mesh_def Let_def mesh_flux_ct_3_frame mesh_flux_ct_2_frame mesh_flux_ct_1_written
          mesh_flux_ct_all_written distinct_range4
  show "FluxCT_mesh fuse m F (BFlux b X1DIR B1 k j i) = 0"
    using assms(1) r1 ra by (cases fuse) (simp_all add: facts del: One_nat_def)
  show "FluxCT_mesh fuse m F (BFlux b X1DIR B2 k j i) =
           c0_5 * (FluxCT_mesh_emf m F (Emf3 b k j i) + FluxCT_mesh_emf m F (Emf3 b k (j + 1) i))"
    using assms(1) r1 ra by (cases fuse) (simp_all add: facts del: One_nat_def)
  show "FluxCT_mesh fuse m F (BFlux b X1DIR B3 k j i) =
           - c0_5 * (FluxCT_mesh_emf m F (Emf2 b k j i) + FluxCT_mesh_emf m F (Emf2 b (k + 1) j i))"
    if "ndim m > 2"
    using that assms(1) r1 ra by (cases fuse) (simp_all add: facts del: One_nat_def)
qed

lemma FluxCT_mesh_F2:
  assumes "\<not> ndim m < 2" "b < nblocks m"
    and "in_box ((cellbounds m interior)\<lparr>r_js := r_js (cellbounds m interior) - 3,
                                         r_je := r_je (cellbounds m interior) + 3\<rparr>) k j i"
  shows "FluxCT_mesh fuse m F (BFlux b X2DIR B1 k j i) =
           - c0_5 * (FluxCT_mesh_emf m F (Emf3 b k j i) + FluxCT_mesh_emf m F (Emf3 b k j (i + 1)))"
    and "FluxCT_mesh fuse m F (BFlux b X2DIR B2 k j i) = 0"
    and "ndim m > 2 \<Longrightarrow> FluxCT_mesh fuse m F (BFlux b X2DIR B3 k j i) =
           c0_5 * (FluxCT_mesh_emf m F (Emf1 b k j i) + FluxCT_mesh_emf m F (Emf1 b (k + 1) j i))"
proof -
  let ?d = "cellbounds m interior" and ?l = "FluxCT_mesh_halo m"
  have r1: "(b, k, j, i) \<in> set (range4 (nblocks m) (r_ks ?d) (r_ke ?d) (r_js ?l) (r_je ?l) (r_is ?d) (r_ie ?d))"
    and ra: "(b, k, j, i) \<in> set (range4 (nblocks m) (r_ks ?l) (r_ke ?l) (r_js ?l) (r_je ?l) (r_is ?l) (r_ie ?l))"
    using assms(2,3) by (auto simp: set_range4 in_box_def FluxCT_mesh_halo_def Let_def)
  note facts = FluxCT_mesh_def Let_def mesh_flux_ct_3_frame mesh_flux_ct_2_written
          mesh_flux_ct_all_written distinct_range4
  show "FluxCT_mesh fuse m F (BFlux b X2DIR B1 k j i) =
           - c0_5 * (FluxCT_mesh_emf m F (Emf3 b k j i) + FluxCT_mesh_emf m F (Emf3 b k j (i + 1)))"
    using assms(1) r1 ra by (cases fuse) (simp_all add: facts del: One_nat_def)
  show "FluxCT_mesh fuse m F (BFlux b X2DIR B2 k j i) = 0"
    using assms(1) r1 ra by (cases fuse) (simp_all add: facts del: One_nat_def)
  show "FluxCT_mesh fuse m F (BFlux b X2DIR B3 k j i) =
           c0_5 * (FluxCT_mesh_emf m F (Emf1 b k j i) + FluxCT_mesh_emf m F (Emf1 b (k + 1) j i))"
    if "ndim m > 2"
    using that assms(1) r1 ra by (cases fuse) (simp_all add: facts del: One_nat_def)
qed

lemma FluxCT_mesh_F3:
  assumes "ndim m > 2" "b < nblocks m"
    and "in_box ((cellbounds m interior)\<lparr>r_ks := r_ks (cellbounds m interior) - 3,
                                         r_ke := r_ke (cellbounds m interior) + 3\<rparr>) k j i"
  shows "FluxCT_mesh fuse m F (BFlux b X3DIR B1 k j i) =
           c0_5 * (FluxCT_mesh_emf m F (Emf2 b k j i) + FluxCT_mesh_emf m F (Emf2 b k j (i + 1)))"
    and "FluxCT_mesh fuse m F (BFlux b X3DIR B2 k j i) =
           - c0_5 * (FluxCT_mesh_emf m F (Emf1 b k j i) + FluxCT_mesh_emf m F (Emf1 b k (j + 1) i))"
    and "FluxCT_mesh fuse m F (BFlux b X3DIR B3 k j i) = 0"
proof -
  let ?d = "cellbounds m interior" and ?l = "FluxCT_mesh_halo m"
  have r1: "(b, k, j, i) \<in> set (range4 (nblocks m) (r_ks ?l) (r_ke ?l) (r_js ?d) (r_je ?d) (r_is ?d) (r_ie ?d))"
    and ra: "(b, k, j, i) \<in> set (range4 (nblocks m) (r_ks ?l) (r_ke ?l) (r_js ?l) (r_je ?l) (r_is ?l) (r_ie ?l))"
    using assms by (auto simp: set_range4 in_box_def FluxCT_mesh_halo_def Let_def)
  note facts = FluxCT_mesh_def Let_def mesh_flux_ct_3_written mesh_flux_ct_all_written distinct_range4
  show "FluxCT_mesh fuse m F (BFlux b X3DIR B1 k j i) =
           c0_5 * (FluxCT_mesh_emf m F (Emf2 b k j i) + FluxCT_mesh_emf m F (Emf2 b k j (i + 1)))"
    using assms(1) r1 ra by (cases fuse) (simp_all add: facts del: One_nat_def)
  show "FluxCT_mesh fuse m F (BFlux b X3DIR B2 k j i) =
           - c0_5 * (FluxCT_mesh_emf m F (Emf1 b k j i) + FluxCT_mesh_emf m F (Emf1 b k (j + 1) i))"
    using assms(1) r1 ra by (cases fuse) (simp_all add: facts del: One_nat_def)
  show "FluxCT_mesh fuse m F (BFlux b X3DIR B3 k j i) = 0"
    using assms(1) r1 ra by (cases fuse) (simp_all add: facts del: One_nat_def)
qed

text \<open>
  C2. FluxCT computes at every corner of its range the EMFs as quarter-sums of the
  fluxes it was called with, and overwrites each transverse flux of its written range
  with plus or minus one half of the sum of the two adjacent EMFs: in the per-block
  FluxCT on its three-dimensional path (corners \<open>[ks,ke+1] \<times> [js,je+1] \<times> [is,ie+1]\<close>) and
  on its two-dimensional path (plane \<open>k = 0\<close>, \<open>emf3\<close> only), and in the whole-mesh
  FluxCT for every block (corners in the halo box, \<open>emf1\<close> and \<open>emf2\<close> in three
  dimensions only).
\<close>

theorem FluxCT_toth:
  fixes F :: "bloc \<Rightarrow> 'r::{zero,one,plus,minus,uminus,times,inverse}"
  shows "(ndim m \<noteq> 1 \<and> ndim m \<noteq> 2 \<longrightarrow>
            (in_box (grow (cellbounds m interior) 1 1 1) k j i \<longrightarrow>
               toth_emf F (FluxCT_emf m b F) True b k j i) \<and>
            (in_box (grow (cellbounds m interior) 0 0 1) k j i \<longrightarrow>
               toth_F1 (FluxCT_emf m b F) (FluxCT fuse m b F) True b k j i) \<and>
            (in_box (grow (cellbounds m interior) 0 1 0) k j i \<longrightarrow>
               toth_F2 (FluxCT_emf m b F) (FluxCT fuse m b F) True b k j i) \<and>
            (in_box (grow (cellbounds m interior) 1 0 0) k j i \<longrightarrow>
               toth_F3 (FluxCT_emf m b F) (FluxCT fuse m b F) b k j i)) \<and>
         (ndim m = 2 \<longrightarrow>
            (in_box (grow (cellbounds m interior) 1 1 1) k j i \<longrightarrow>
               toth_emf F (FluxCT2D_emf m b F) False b 0 j i) \<and>
            (in_box (grow (cellbounds m interior) 0 0 1) k j i \<longrightarrow>
               toth_F1 (FluxCT2D_emf m b F) (FluxCT fuse m b F) False b 0 j i) \<and>
            (in_box (grow (cellbounds m interior) 0 1 0) k j i \<longrightarrow>
               toth_F2 (FluxCT2D_emf m b F) (FluxCT fuse m b F) False b 0 j i)) \<and>
         (\<not> ndim m < 2 \<and> b < nblocks m \<longrightarrow>
            (in_box (FluxCT_mesh_halo m) k j i \<longrightarrow>
               toth_emf F (FluxCT_mesh_emf m F) (ndim m > 2) b k j i) \<and>
            (in_box ((cellbounds m interior)\<lparr>r_is := r_is (cellbounds m interior) - 3,
                                             r_ie := r_ie (cellbounds m interior) + 3\<rparr>) k j i \<longrightarrow>
               toth_F1 (FluxCT_mesh_emf m F) (FluxCT_mesh fuse m F) (ndim m > 2) b k j i) \<and>
            (in_box ((cellbounds m interior)\<lparr>r_js := r_js (cellbounds m interior) - 3,
                                             r_je := r_je (cellbounds m interior) + 3\<rparr>) k j i \<longrightarrow>
               toth_F2 (FluxCT_mesh_emf m F) (FluxCT_mesh fuse m F) (ndim m > 2) b k j i) \<and>
            (ndim m > 2 \<and>
             in_box ((cellbounds m interior)\<lparr>r_ks := r_ks (cellbounds m interior) - 3,
                                             r_ke := r_ke (cellbounds m interior) + 3\<rparr>) k j i \<longrightarrow>
               toth_F3 (FluxCT_mesh_emf m F) (FluxCT_mesh fuse m F) b k j i))"
proof -
  have a: "toth_emf F (FluxCT_emf m b F) True b k j i"
    if "in_box (grow (cellbounds m interior) 1 1 1) k j i"
    using that by (simp add: toth_emf_def FluxCT_emf_value del: One_nat_def)
  have b: "toth_F1 (FluxCT_emf m b F) (FluxCT fuse m b F) True b k j i"
    if "ndim m \<noteq> 1" "ndim m \<noteq> 2" "in_box (grow (cellbounds m interior) 0 0 1) k j i"
    using that by (simp add: toth_F1_def FluxCT_3D_F1 del: One_nat_def)
  have c: "toth_F2 (FluxCT_emf m b F) (FluxCT fuse m b F) True b k j i"
    if "ndim m \<noteq> 1" "ndim m \<noteq> 2" "in_box (grow (cellbounds m interior) 0 1 0) k j i"
    using that by (simp add: toth_F2_def FluxCT_3D_F2 del: One_nat_def)
  have d: "toth_F3 (FluxCT_emf m b F) (FluxCT fuse m b F) b k j i"
    if "ndim m \<noteq> 1" "ndim m \<noteq> 2" "in_box (grow (cellbounds m interior) 1 0 0) k j i"
    using that by (simp add: toth_F3_def FluxCT_3D_F3 del: One_nat_def)
  have e: "toth_emf F (FluxCT2D_emf m b F) False b 0 j i"
    if "in_box (grow (cellbounds m interior) 1 1 1) k j i"
    using that by (simp add: toth_emf_def FluxCT2D_emf_value in_box_grow del: One_nat_def)
  have f: "toth_F1 (FluxCT2D_emf m b F) (FluxCT fuse m b F) False b 0 j i"
    if "ndim m = 2" "in_box (grow (cellbounds m interior) 0 0 1) k j i"
    using that by (simp add: toth_F1_def FluxCT_2D_F1 in_box_grow del: One_nat_def)
  have g: "toth_F2 (FluxCT2D_emf m b F) (FluxCT fuse m b F) False b 0 j i"
    if "ndim m = 2" "in_box (grow (cellbounds m interior) 0 1 0) k j i"
    using that by (simp add: toth_F2_def FluxCT_2D_F2 in_box_grow del: One_nat_def)
  have h: "toth_emf F (FluxCT_mesh_emf m F) (ndim m > 2) b k j i"
    if "b < nblocks m" "in_box (FluxCT_mesh_halo m) k j i"
    using that by (simp add: toth_emf_def FluxCT_mesh_emf_value del: One_nat_def)
  have i: "toth_F1 (FluxCT_mesh_emf m F) (FluxCT_mesh fuse m F) (ndim m > 2) b k j i"
    if "\<not> ndim m < 2" "b < nblocks m"
      "in_box ((cellbounds m interior)\<lparr>r_is := r_is (cellbounds m interior) - 3,
                                       r_ie := r_ie (cellbounds m interior) + 3\<rparr>) k j i"
    using that by (simp add: toth_F1_def FluxCT_mesh_F1 del: One_nat_def)
  have j: "toth_F2 (FluxCT_mesh_emf m F) (FluxCT_mesh fuse m F) (ndim m > 2) b k j i"
    if "\<not> ndim m < 2" "b < nblocks m"
      "in_box ((cellbounds m interior)\<lparr>r_js := r_js (cellbounds m interior) - 3,
                                       r_je := r_je (cellbounds m interior) + 3\<rparr>) k j i"
    using that by (simp add: toth_F2_def FluxCT_mesh_F2 del: One_nat_def)
  have k: "toth_F3 (FluxCT_mesh_emf m F) (FluxCT_mesh fuse m F) b k j i"
    if "ndim m > 2" "b < nblocks m"
      "in_box ((cellbounds m interior)\<lparr>r_ks := r_ks (cellbounds m interior) - 3,
                                       r_ke := r_ke (cellbounds m interior) + 3\<rparr>) k j i"
    using that by (simp add: toth_F3_def FluxCT_mesh_F3 del: One_nat_def)
  show ?thesis
    using a b c d e f g h i j k by blast
qed

theorem FluxCT_toth_witness:
  "FluxCT_emf mesh_3D 0 ramp (Emf3 0 4 4 4) = - 181 / 4 \<and>
   toth_F1 (FluxCT_emf mesh_3D 0 ramp) (FluxCT False mesh_3D 0 ramp) True 0 4 4 4 \<and>
   toth_F2 (FluxCT_emf mesh_3D 0 ramp) (FluxCT False mesh_3D 0 ramp) True 0 4 4 4 \<and>
   toth_F3 (FluxCT_emf mesh_3D 0 ramp) (FluxCT False mesh_3D 0 ramp) 0 4 4 4 \<and>
   FluxCT2D_emf mesh_2D 0 ramp (Emf3 0 0 4 4) = - 181 / 4 \<and>
   toth_F1 (FluxCT2D_emf mesh_2D 0 ramp) (FluxCT True mesh_2D 0 ramp) False 0 0 4 4 \<and>
   toth_F2 (FluxCT2D_emf mesh_2D 0 ramp) (FluxCT True mesh_2D 0 ramp) False 0 0 4 4 \<and>
   FluxCT_mesh_emf mesh_3D ramp (Emf3 0 4 4 4) = - 181 / 4 \<and>
   toth_F1 (FluxCT_mesh_emf mesh_3D ramp) (FluxCT_mesh False mesh_3D ramp) True 0 4 4 4 \<and>
   toth_F2 (FluxCT_mesh_emf mesh_3D ramp) (FluxCT_mesh False mesh_3D ramp) True 0 4 4 4 \<and>
   toth_F3 (FluxCT_mesh_emf mesh_3D ramp) (FluxCT_mesh False mesh_3D ramp) 0 4 4 4 \<and>
   toth_F1 (FluxCT_mesh_emf mesh_2D ramp) (FluxCT_mesh True mesh_2D ramp) False 0 0 4 4"
  using FluxCT_toth [where m = mesh_3D and k = 4 and j = 4 and i = 4 and b = 0 and F = ramp and fuse = False]
    FluxCT_toth [where m = mesh_2D and k = 0 and j = 4 and i = 4 and b = 0 and F = ramp and fuse = True]
  by (simp add: mesh_3D_def mesh_2D_def bounds_3D_def bounds_2D_def in_box_def grow_def
        FluxCT_mesh_halo_def toth_emf_def ramp_def c0_25_def)

subsection \<open>FixPolarFlux\<close>

lemma fix_flux_b_l_other:
  assumes "l \<notin> {BFlux b X1DIR B2 k (j - 1) i, BFlux b X2DIR B2 k j i, BFlux b X3DIR B2 k (j - 1) i}"
  shows "fix_flux_b_l nd b js (k, j, i) s l = s l"
  using assms by (simp add: fix_flux_b_l_def Let_def)

lemma fix_flux_b_r_other:
  assumes "l \<notin> {BFlux b X1DIR B2 k j i, BFlux b X2DIR B2 k j i, BFlux b X3DIR B2 k j i}"
  shows "fix_flux_b_r nd b je (k, j, i) s l = s l"
  using assms by (simp add: fix_flux_b_r_def Let_def)

lemma fix_flux_b_l_written:
  fixes F :: "bloc \<Rightarrow> 'r::{zero,uminus}"
  assumes mem: "(k, js, i) \<in> set xs" and dist: "distinct xs"
    and row: "\<And>k j i. (k, j, i) \<in> set xs \<Longrightarrow> j = js"
  shows "par_for xs (fix_flux_b_l nd b js) F (BFlux b X1DIR B2 k (js - 1) i) = - F (BFlux b X1DIR B2 k js i)" (is ?t1)
    and "nd > 1 \<Longrightarrow> par_for xs (fix_flux_b_l nd b js) F (BFlux b X2DIR B2 k js i) = 0" (is "_ \<Longrightarrow> ?t2")
    and "nd > 2 \<Longrightarrow> par_for xs (fix_flux_b_l nd b js) F (BFlux b X3DIR B2 k (js - 1) i) =
           - F (BFlux b X3DIR B2 k js i)" (is "_ \<Longrightarrow> ?t3")
proof -
  let ?W = "\<lambda>(k, j, i). {BFlux b X1DIR B2 k (j - 1) i, BFlux b X2DIR B2 k j i, BFlux b X3DIR B2 k (j - 1) i}"
  let ?R = "{l. \<exists>k i. l = BFlux b X1DIR B2 k js i \<or> l = BFlux b X3DIR B2 k js i}"
  have *: "par_for xs (fix_flux_b_l nd b js) F l = fix_flux_b_l nd b js (k, js, i) F l"
    if l: "l \<in> ?W (k, js, i)"
      and dep: "\<And>s s' :: bloc \<Rightarrow> 'r. (\<forall>r\<in>?R. s r = s' r) \<Longrightarrow>
              fix_flux_b_l nd b js (k, js, i) s l = fix_flux_b_l nd b js (k, js, i) s' l" for l
  proof (rule par_for_written [where W = ?W and R = ?R and x = "(k, js, i)" and xs = xs])
    show "distinct xs" by (rule dist)
    show "(k, js, i) \<in> set xs" by (rule mem)
    show "fix_flux_b_l nd b js (k, js, i) s l = fix_flux_b_l nd b js (k, js, i) s' l"
      if "\<forall>r\<in>?R. s r = s' r" for s s' :: "bloc \<Rightarrow> 'r"
      using that by (rule dep)
  next
    fix y :: "int \<times> int \<times> int"
    assume y: "y \<in> set xs"
    obtain k' j' i' where y': "y = (k', j', i')" by (cases y)
    with y row have j': "j' = js" by blast
    show "fix_flux_b_l nd b js y s l' = s l'" if "l' \<notin> ?W y" for s l'
      using that unfolding y' by (intro fix_flux_b_l_other) simp
    show "?W y \<inter> ?R = {}"
      unfolding y' j' by auto
    show "l \<notin> ?W y" if "y \<noteq> (k, js, i)"
      using that l unfolding y' j' by auto
  qed
  show ?t1 by (subst *) (auto simp: fix_flux_b_l_def Let_def)
  show ?t2 if "nd > 1" using that by (subst *) (auto simp: fix_flux_b_l_def Let_def)
  show ?t3 if "nd > 2" using that by (subst *) (auto simp: fix_flux_b_l_def Let_def)
qed

lemma fix_flux_b_l_frame:
  assumes out: "\<And>k i. l \<notin> {BFlux b X1DIR B2 k (js - 1) i, BFlux b X2DIR B2 k js i, BFlux b X3DIR B2 k (js - 1) i}"
    and row: "\<And>k j i. (k, j, i) \<in> set xs \<Longrightarrow> j = js"
  shows "par_for xs (fix_flux_b_l nd b js) F l = F l"
proof (rule par_for_frame
    [where W = "\<lambda>(k, j, i). {BFlux b X1DIR B2 k (j - 1) i, BFlux b X2DIR B2 k j i, BFlux b X3DIR B2 k (j - 1) i}"])
  fix y :: "int \<times> int \<times> int"
  obtain k' j' i' where y': "y = (k', j', i')" by (cases y)
  show "fix_flux_b_l nd b js y s l = s l"
    if "l \<notin> (case y of (k, j, i) \<Rightarrow> {BFlux b X1DIR B2 k (j - 1) i, BFlux b X2DIR B2 k j i, BFlux b X3DIR B2 k (j - 1) i})"
    for s
    using that unfolding y' by (intro fix_flux_b_l_other) simp
  show "l \<notin> (case y of (k, j, i) \<Rightarrow> {BFlux b X1DIR B2 k (j - 1) i, BFlux b X2DIR B2 k j i, BFlux b X3DIR B2 k (j - 1) i})"
    if "y \<in> set xs"
  proof -
    from that row have "j' = js" unfolding y' by blast
    then show ?thesis using out [of k' i'] unfolding y' by simp
  qed
qed

lemma fix_flux_b_r_written:
  fixes F :: "bloc \<Rightarrow> 'r::{zero,uminus}"
  assumes mem: "(k, jr, i) \<in> set xs" and dist: "distinct xs"
    and row: "\<And>k j i. (k, j, i) \<in> set xs \<Longrightarrow> j = jr" and ne: "jr \<noteq> je"
  shows "par_for xs (fix_flux_b_r nd b je) F (BFlux b X1DIR B2 k jr i) = - F (BFlux b X1DIR B2 k je i)" (is ?t1)
    and "nd > 1 \<Longrightarrow> par_for xs (fix_flux_b_r nd b je) F (BFlux b X2DIR B2 k jr i) = 0" (is "_ \<Longrightarrow> ?t2")
    and "nd > 2 \<Longrightarrow> par_for xs (fix_flux_b_r nd b je) F (BFlux b X3DIR B2 k jr i) =
           - F (BFlux b X3DIR B2 k je i)" (is "_ \<Longrightarrow> ?t3")
proof -
  let ?W = "\<lambda>(k, j, i). {BFlux b X1DIR B2 k j i, BFlux b X2DIR B2 k j i, BFlux b X3DIR B2 k j i}"
  let ?R = "{l. \<exists>k i. l = BFlux b X1DIR B2 k je i \<or> l = BFlux b X3DIR B2 k je i}"
  have *: "par_for xs (fix_flux_b_r nd b je) F l = fix_flux_b_r nd b je (k, jr, i) F l"
    if l: "l \<in> ?W (k, jr, i)"
      and dep: "\<And>s s' :: bloc \<Rightarrow> 'r. (\<forall>r\<in>?R. s r = s' r) \<Longrightarrow>
              fix_flux_b_r nd b je (k, jr, i) s l = fix_flux_b_r nd b je (k, jr, i) s' l" for l
  proof (rule par_for_written [where W = ?W and R = ?R and x = "(k, jr, i)" and xs = xs])
    show "distinct xs" by (rule dist)
    show "(k, jr, i) \<in> set xs" by (rule mem)
    show "fix_flux_b_r nd b je (k, jr, i) s l = fix_flux_b_r nd b je (k, jr, i) s' l"
      if "\<forall>r\<in>?R. s r = s' r" for s s' :: "bloc \<Rightarrow> 'r"
      using that by (rule dep)
  next
    fix y :: "int \<times> int \<times> int"
    assume y: "y \<in> set xs"
    obtain k' j' i' where y': "y = (k', j', i')" by (cases y)
    with y row have j': "j' = jr" by blast
    show "fix_flux_b_r nd b je y s l' = s l'" if "l' \<notin> ?W y" for s l'
      using that unfolding y' by (intro fix_flux_b_r_other) simp
    show "?W y \<inter> ?R = {}"
      unfolding y' j' using ne by auto
    show "l \<notin> ?W y" if "y \<noteq> (k, jr, i)"
      using that l unfolding y' j' by auto
  qed
  show ?t1 using ne by (subst *) (auto simp: fix_flux_b_r_def Let_def)
  show ?t2 if "nd > 1" using that ne by (subst *) (auto simp: fix_flux_b_r_def Let_def)
  show ?t3 if "nd > 2" using that ne by (subst *) (auto simp: fix_flux_b_r_def Let_def)
qed

lemma fix_flux_b_r_frame:
  assumes out: "\<And>k i. l \<notin> {BFlux b X1DIR B2 k jr i, BFlux b X2DIR B2 k jr i, BFlux b X3DIR B2 k jr i}"
    and row: "\<And>k j i. (k, j, i) \<in> set xs \<Longrightarrow> j = jr"
  shows "par_for xs (fix_flux_b_r nd b je) F l = F l"
proof (rule par_for_frame
    [where W = "\<lambda>(k, j, i). {BFlux b X1DIR B2 k j i, BFlux b X2DIR B2 k j i, BFlux b X3DIR B2 k j i}"])
  fix y :: "int \<times> int \<times> int"
  obtain k' j' i' where y': "y = (k', j', i')" by (cases y)
  show "fix_flux_b_r nd b je y s l = s l"
    if "l \<notin> (case y of (k, j, i) \<Rightarrow> {BFlux b X1DIR B2 k j i, BFlux b X2DIR B2 k j i, BFlux b X3DIR B2 k j i})"
    for s
    using that unfolding y' by (intro fix_flux_b_r_other) simp
  show "l \<notin> (case y of (k, j, i) \<Rightarrow> {BFlux b X1DIR B2 k j i, BFlux b X2DIR B2 k j i, BFlux b X3DIR B2 k j i})"
    if "y \<in> set xs"
  proof -
    from that row have "j' = jr" unfolding y' by blast
    then show ?thesis using out [of k' i'] unfolding y' by simp
  qed
qed


lemma fix_l_range_written:
  fixes F :: "bloc \<Rightarrow> 'r::{zero,uminus}"
  assumes "ks \<le> k" "k \<le> ke" "is \<le> i" "i \<le> ie"
  shows "par_for (range3 ks ke js js is ie) (fix_flux_b_l nd b js) F (BFlux b X1DIR B2 k (js - 1) i) =
           - F (BFlux b X1DIR B2 k js i)"
    and "nd > 1 \<Longrightarrow> par_for (range3 ks ke js js is ie) (fix_flux_b_l nd b js) F (BFlux b X2DIR B2 k js i) = 0"
    and "nd > 2 \<Longrightarrow> par_for (range3 ks ke js js is ie) (fix_flux_b_l nd b js) F (BFlux b X3DIR B2 k (js - 1) i) =
           - F (BFlux b X3DIR B2 k js i)"
proof -
  have mem: "(k, js, i) \<in> set (range3 ks ke js js is ie)"
    using assms by (simp add: set_range3)
  have row: "j = js" if "(k, j, i) \<in> set (range3 ks ke js js is ie)" for k j i
    using that by (simp add: set_range3)
  note w = fix_flux_b_l_written [OF mem distinct_range3 row]
  show "par_for (range3 ks ke js js is ie) (fix_flux_b_l nd b js) F (BFlux b X1DIR B2 k (js - 1) i) =
           - F (BFlux b X1DIR B2 k js i)"
    by (rule w(1))
  show "nd > 1 \<Longrightarrow> par_for (range3 ks ke js js is ie) (fix_flux_b_l nd b js) F (BFlux b X2DIR B2 k js i) = 0"
    by (rule w(2))
  show "nd > 2 \<Longrightarrow> par_for (range3 ks ke js js is ie) (fix_flux_b_l nd b js) F (BFlux b X3DIR B2 k (js - 1) i) =
           - F (BFlux b X3DIR B2 k js i)"
    by (rule w(3))
qed

lemma fix_l_range_frame:
  assumes "\<And>k i. l \<notin> {BFlux b X1DIR B2 k (js - 1) i, BFlux b X2DIR B2 k js i, BFlux b X3DIR B2 k (js - 1) i}"
  shows "par_for (range3 ks ke js js is ie) (fix_flux_b_l nd b js) F l = F l"
  by (rule fix_flux_b_l_frame [OF assms]) (simp add: set_range3)

lemma fix_r_range_written:
  fixes F :: "bloc \<Rightarrow> 'r::{zero,uminus}"
  assumes "ks \<le> k" "k \<le> ke" "is \<le> i" "i \<le> ie" "jr \<noteq> je"
  shows "par_for (range3 ks ke jr jr is ie) (fix_flux_b_r nd b je) F (BFlux b X1DIR B2 k jr i) =
           - F (BFlux b X1DIR B2 k je i)"
    and "nd > 1 \<Longrightarrow> par_for (range3 ks ke jr jr is ie) (fix_flux_b_r nd b je) F (BFlux b X2DIR B2 k jr i) = 0"
    and "nd > 2 \<Longrightarrow> par_for (range3 ks ke jr jr is ie) (fix_flux_b_r nd b je) F (BFlux b X3DIR B2 k jr i) =
           - F (BFlux b X3DIR B2 k je i)"
proof -
  have mem: "(k, jr, i) \<in> set (range3 ks ke jr jr is ie)"
    using assms by (simp add: set_range3)
  have row: "j = jr" if "(k, j, i) \<in> set (range3 ks ke jr jr is ie)" for k j i
    using that by (simp add: set_range3)
  note w = fix_flux_b_r_written [OF mem distinct_range3 row assms(5)]
  show "par_for (range3 ks ke jr jr is ie) (fix_flux_b_r nd b je) F (BFlux b X1DIR B2 k jr i) =
           - F (BFlux b X1DIR B2 k je i)"
    by (rule w(1))
  show "nd > 1 \<Longrightarrow> par_for (range3 ks ke jr jr is ie) (fix_flux_b_r nd b je) F (BFlux b X2DIR B2 k jr i) = 0"
    by (rule w(2))
  show "nd > 2 \<Longrightarrow> par_for (range3 ks ke jr jr is ie) (fix_flux_b_r nd b je) F (BFlux b X3DIR B2 k jr i) =
           - F (BFlux b X3DIR B2 k je i)"
    by (rule w(3))
qed

lemma fix_r_range_frame:
  assumes "\<And>k i. l \<notin> {BFlux b X1DIR B2 k jr i, BFlux b X2DIR B2 k jr i, BFlux b X3DIR B2 k jr i}"
  shows "par_for (range3 ks ke jr jr is ie) (fix_flux_b_r nd b je) F l = F l"
  by (rule fix_flux_b_r_frame [OF assms]) (simp add: set_range3)

text \<open>The fluxes of block \<open>b\<close> after \<open>FixPolarFlux\<close>, at an inner and at an outer polar boundary.\<close>

lemma FixPolarFlux_inner:
  fixes F :: "bloc \<Rightarrow> 'r::{zero,uminus}"
  assumes nd: "ndim m > 1" and ne: "r_js (cellbounds m interior) \<le> r_je (cellbounds m interior)"
    and inner: "inner_x2 m b = user"
    and k: "r_ks (cellbounds m interior) \<le> k"
           "k \<le> (if ndim m > 2 then r_ke (cellbounds m interior) + 1 else r_ke (cellbounds m interior))"
    and i: "r_is (cellbounds m interior) \<le> i" "i \<le> r_ie (cellbounds m interior) + 1"
  shows "FixPolarFlux m b F (BFlux b X2DIR B2 k (r_js (cellbounds m interior)) i) = 0"
    and "FixPolarFlux m b F (BFlux b X1DIR B2 k (r_js (cellbounds m interior) - 1) i) =
           - F (BFlux b X1DIR B2 k (r_js (cellbounds m interior)) i)"
    and "FixPolarFlux m b F (BFlux b X1DIR B2 k (r_js (cellbounds m interior)) i) =
           F (BFlux b X1DIR B2 k (r_js (cellbounds m interior)) i)"
    and "ndim m > 2 \<Longrightarrow> FixPolarFlux m b F (BFlux b X3DIR B2 k (r_js (cellbounds m interior) - 1) i) =
           - F (BFlux b X3DIR B2 k (r_js (cellbounds m interior)) i)"
    and "FixPolarFlux m b F (BFlux b X3DIR B2 k (r_js (cellbounds m interior)) i) =
           F (BFlux b X3DIR B2 k (r_js (cellbounds m interior)) i)"
  using assms
  by (simp_all add: FixPolarFlux_def Let_def fix_l_range_written fix_l_range_frame
        fix_r_range_frame del: One_nat_def)

lemma FixPolarFlux_outer:
  fixes F :: "bloc \<Rightarrow> 'r::{zero,uminus}"
  assumes nd: "ndim m > 1" and ne: "r_js (cellbounds m interior) \<le> r_je (cellbounds m interior)"
    and outer: "outer_x2 m b = user"
    and k: "r_ks (cellbounds m interior) \<le> k"
           "k \<le> (if ndim m > 2 then r_ke (cellbounds m interior) + 1 else r_ke (cellbounds m interior))"
    and i: "r_is (cellbounds m interior) \<le> i" "i \<le> r_ie (cellbounds m interior) + 1"
  shows "FixPolarFlux m b F (BFlux b X2DIR B2 k (r_je (cellbounds m interior) + 1) i) = 0"
    and "FixPolarFlux m b F (BFlux b X1DIR B2 k (r_je (cellbounds m interior) + 1) i) =
           - F (BFlux b X1DIR B2 k (r_je (cellbounds m interior)) i)"
    and "FixPolarFlux m b F (BFlux b X1DIR B2 k (r_je (cellbounds m interior)) i) =
           F (BFlux b X1DIR B2 k (r_je (cellbounds m interior)) i)"
    and "ndim m > 2 \<Longrightarrow> FixPolarFlux m b F (BFlux b X3DIR B2 k (r_je (cellbounds m interior) + 1) i) =
           - F (BFlux b X3DIR B2 k (r_je (cellbounds m interior)) i)"
    and "FixPolarFlux m b F (BFlux b X3DIR B2 k (r_je (cellbounds m interior)) i) =
           F (BFlux b X3DIR B2 k (r_je (cellbounds m interior)) i)"
  using assms
  by (simp_all add: FixPolarFlux_def Let_def fix_r_range_written fix_r_range_frame
        fix_l_range_frame del: One_nat_def)

lemma FixPolarFlux_other_block:
  assumes "b' \<noteq> b"
  shows "FixPolarFlux m b' F (BFlux b d c k j i) = F (BFlux b d c k j i)"
  using assms by (simp add: FixPolarFlux_def Let_def fix_l_range_frame fix_r_range_frame)

lemma fold_FixPolarFlux_other_blocks:
  assumes "b \<notin> set bs"
  shows "fold (\<lambda>b F. FixPolarFlux m b F) bs F (BFlux b d c k j i) = F (BFlux b d c k j i)"
  using assms
  by (induction bs arbitrary: F) (simp_all add: FixPolarFlux_other_block)

lemma FixPolarFlux_mesh_block:
  assumes "b < nblocks m"
  shows "\<exists>s. \<forall>d c k j i.
           FixPolarFlux_mesh m F (BFlux b d c k j i) = FixPolarFlux m b s (BFlux b d c k j i)"
proof -
  have split: "[0..<nblocks m] = [0..<b] @ b # [Suc b..<nblocks m]"
    using assms by (metis le0 upt_conv_Cons upt_add_eq_append le_add_diff_inverse less_imp_le_nat)
  let ?s = "fold (\<lambda>b F. FixPolarFlux m b F) [0..<b] F"
  have "FixPolarFlux_mesh m F (BFlux b d c k j i) = FixPolarFlux m b ?s (BFlux b d c k j i)" for d c k j i
    unfolding FixPolarFlux_mesh_def split
    by (simp add: fold_FixPolarFlux_other_blocks)
  then show ?thesis by blast
qed

text \<open>
  C6. In a problem with at least two dimensions, on a block with at least one interior
  row, after FixPolarFlux: at an inner x2 boundary flagged \<open>user\<close>, \<open>F2(B2,k,js,i) = 0\<close>
  and \<open>F1(B2,k,js-1,i) = -F1(B2,k,js,i)\<close> for every \<open>k\<close> and \<open>i\<close> the kernel visits, and
  in three dimensions \<open>F3(B2,k,js-1,i) = -F3(B2,k,js,i)\<close>; at an outer x2 boundary
  flagged \<open>user\<close> the same with \<open>je+1\<close> for the pole face and the row beyond and \<open>je\<close>
  for the row inside. This holds for the per-block function and, for every block, for
  the whole-mesh one.
\<close>

theorem FixPolarFlux_polar:
  fixes F :: "bloc \<Rightarrow> 'r::{zero,uminus}"
  assumes "ndim m > 1"
    and "r_js (cellbounds m interior) \<le> r_je (cellbounds m interior)"
    and "polar_range m k i"
  shows "(inner_x2 m b = user \<longrightarrow> polar_inner m (FixPolarFlux m b F) b k i) \<and>
         (outer_x2 m b = user \<longrightarrow> polar_outer m (FixPolarFlux m b F) b k i) \<and>
         (b < nblocks m \<longrightarrow>
            (inner_x2 m b = user \<longrightarrow> polar_inner m (FixPolarFlux_mesh m F) b k i) \<and>
            (outer_x2 m b = user \<longrightarrow> polar_outer m (FixPolarFlux_mesh m F) b k i))"
proof -
  have r: "r_ks (cellbounds m interior) \<le> k"
    "k \<le> (if ndim m > 2 then r_ke (cellbounds m interior) + 1 else r_ke (cellbounds m interior))"
    "r_is (cellbounds m interior) \<le> i" "i \<le> r_ie (cellbounds m interior) + 1"
    using assms(3) by (simp_all add: polar_range_def Let_def)
  have inner: "polar_inner m (FixPolarFlux m b s) b k i" if "inner_x2 m b = user" for s :: "bloc \<Rightarrow> 'r"
    unfolding polar_inner_def Let_def
    using FixPolarFlux_inner [OF assms(1,2) that r, of s] by simp
  have outer: "polar_outer m (FixPolarFlux m b s) b k i" if "outer_x2 m b = user" for s :: "bloc \<Rightarrow> 'r"
    unfolding polar_outer_def Let_def
    using FixPolarFlux_outer [OF assms(1,2) that r, of s] by simp
  have mesh: "polar_inner m (FixPolarFlux_mesh m F) b k i = polar_inner m (FixPolarFlux m b s) b k i"
    "polar_outer m (FixPolarFlux_mesh m F) b k i = polar_outer m (FixPolarFlux m b s) b k i"
    if "\<forall>d c k j i. FixPolarFlux_mesh m F (BFlux b d c k j i) = FixPolarFlux m b s (BFlux b d c k j i)"
    for s
    using that by (simp_all add: polar_inner_def polar_outer_def)
  show ?thesis
    using inner outer mesh FixPolarFlux_mesh_block [of b m F] by metis
qed

theorem FixPolarFlux_polar_witness:
  "FixPolarFlux mesh_3D 0 ramp (BFlux 0 X2DIR B2 6 4 6) = 0 \<and>
   FixPolarFlux mesh_3D 0 ramp (BFlux 0 X1DIR B2 6 3 6) = - FixPolarFlux mesh_3D 0 ramp (BFlux 0 X1DIR B2 6 4 6) \<and>
   FixPolarFlux mesh_3D 0 ramp (BFlux 0 X3DIR B2 6 3 6) = - FixPolarFlux mesh_3D 0 ramp (BFlux 0 X3DIR B2 6 4 6) \<and>
   FixPolarFlux mesh_3D 0 ramp (BFlux 0 X2DIR B2 6 6 6) = 0 \<and>
   FixPolarFlux mesh_3D 0 ramp (BFlux 0 X1DIR B2 6 6 6) = - FixPolarFlux mesh_3D 0 ramp (BFlux 0 X1DIR B2 6 5 6) \<and>
   FixPolarFlux_mesh mesh_3D ramp (BFlux 0 X2DIR B2 6 4 6) = 0 \<and>
   FixPolarFlux_mesh mesh_3D ramp (BFlux 0 X1DIR B2 6 6 6) = - FixPolarFlux_mesh mesh_3D ramp (BFlux 0 X1DIR B2 6 5 6) \<and>
   polar_inner mesh_2D (FixPolarFlux_mesh mesh_2D ramp) 0 0 4"
  using FixPolarFlux_polar [where m = mesh_3D and k = 6 and i = 6 and b = 0 and F = ramp]
    FixPolarFlux_polar [where m = mesh_2D and k = 0 and i = 4 and b = 0 and F = ramp]
  by (simp add: mesh_3D_def mesh_2D_def bounds_3D_def bounds_2D_def polar_range_def
        polar_inner_def polar_outer_def)

subsection \<open>UtoP\<close>

lemma set_range5:
  "set (range5 nb nv ks ke js je is ie) =
     {(b, mu, k, j, i). b < nb \<and> mu < nv \<and> ks \<le> k \<and> k \<le> ke \<and> js \<le> j \<and> j \<le> je \<and> is \<le> i \<and> i \<le> ie}"
  by (auto simp: range5_def set_range4)

lemma distinct_range5: "distinct (range5 nb nv ks ke js je is ie)"
  unfolding range5_def
  by (rule distinct_concat_map) (auto simp: distinct_map inj_on_def distinct_range4)

lemma UtoP_B_written:
  assumes "(b, mu, k, j, i) \<in> set xs" "distinct xs"
  shows "par_for xs (UtoP_B G) st (PrimsB b mu k j i) = st (ConsB b mu k j i) / gdet G b j i"
proof -
  have "par_for xs (UtoP_B G) st (PrimsB b mu k j i) = UtoP_B G (b, mu, k, j, i) st (PrimsB b mu k j i)"
    using assms
    by (intro par_for_written
          [where W = "\<lambda>(b, mu, k, j, i). {PrimsB b mu k j i}" and R = "{l. \<exists>b mu k j i. l = ConsB b mu k j i}"])
       (auto simp: UtoP_B_def split: if_splits)
  then show ?thesis by (simp add: UtoP_B_def)
qed

lemma UtoP_B_frame:
  assumes "\<And>b mu k j i. (b, mu, k, j, i) \<in> set xs \<Longrightarrow> l \<noteq> PrimsB b mu k j i"
  shows "par_for xs (UtoP_B G) st l = st l"
proof (rule par_for_frame [where W = "\<lambda>(b, mu, k, j, i). {PrimsB b mu k j i}"])
  fix x :: "nat \<times> nat \<times> int \<times> int \<times> int"
  obtain b mu k j i where x: "x = (b, mu, k, j, i)" by (cases x)
  show "UtoP_B G x s l = s l" if "l \<notin> (case x of (b, mu, k, j, i) \<Rightarrow> {PrimsB b mu k j i})" for s
    using that unfolding x by (simp add: UtoP_B_def)
  show "l \<notin> (case x of (b, mu, k, j, i) \<Rightarrow> {PrimsB b mu k j i})" if "x \<in> set xs"
    using assms [of b mu k j i] that unfolding x by simp
qed

lemma par_for_map: "par_for (map f xs) body st = par_for xs (\<lambda>x. body (f x)) st"
  by (simp add: par_for_def fold_map comp_def)

lemma UtoP_as_par_for:
  "par_for xs (\<lambda>(p, k, j, i). UtoP_B G (b, p, k, j, i)) st =
     par_for (map (\<lambda>(p, k, j, i). (b, p, k, j, i)) xs) (UtoP_B G) st"
  by (simp add: par_for_map case_prod_unfold)

lemma UtoP_block_value:
  assumes "mu < nv" "in_box (UtoP_bounds m domain coarse) k j i"
  shows "UtoP_block nv m G b domain coarse st (PrimsB b mu k j i) = st (ConsB b mu k j i) / gdet G b j i"
  unfolding UtoP_block_def Let_def UtoP_as_par_for
  using assms
  by (intro UtoP_B_written) (auto simp: set_range4 distinct_range4 distinct_map inj_on_def in_box_def)

lemma UtoP_block_ConsB:
  "UtoP_block nv m G b domain coarse st (ConsB b' c k j i) = st (ConsB b' c k j i)"
  unfolding UtoP_block_def Let_def UtoP_as_par_for
  by (rule UtoP_B_frame) simp

lemma UtoP_eq_UtoP_block: "UtoP m G b domain coarse st = UtoP_block NVEC m G b domain coarse st"
  by (simp add: UtoP_def UtoP_block_def)

lemma UtoP_mesh_value:
  assumes "b < nblocks m" "mu < nv" "in_box (UtoP_bounds m domain coarse) k j i"
  shows "UtoP_mesh nv m G domain coarse st (PrimsB b mu k j i) = st (ConsB b mu k j i) / gdet G b j i"
  unfolding UtoP_mesh_def Let_def
  using assms
  by (intro UtoP_B_written) (auto simp: set_range5 distinct_range5 in_box_def)

lemma UtoP_mesh_ConsB:
  "UtoP_mesh nv m G domain coarse st (ConsB b' c k j i) = st (ConsB b' c k j i)"
  unfolding UtoP_mesh_def Let_def
  by (rule UtoP_B_frame) simp

text \<open>
  C10, as amended. UtoP (the per-block function of b\_flux\_ct.cpp, and the per-block and
  whole-mesh functions of the other file) sets \<open>prims.B(p,k,j,i)\<close> to the Real quotient
  \<open>cons.B(p,k,j,i) / gdet(center,j,i)\<close> for every component \<open>p\<close> and every cell of the
  requested domain, and leaves every slot of \<open>cons.B\<close> unchanged, whatever the
  arithmetic. In exact arithmetic (a field) \<open>prims.B(p,k,j,i) * gdet(center,j,i)\<close> is
  then \<open>cons.B(p,k,j,i)\<close> wherever \<open>gdet(center,j,i)\<close> is nonzero.
\<close>

theorem UtoP_quotient:
  fixes st :: "bloc \<Rightarrow> 'r::inverse" and G :: "'r Coords"
    and sf :: "bloc \<Rightarrow> 'f::field" and Gf :: "'f Coords"
  shows "(in_box (UtoP_bounds m domain coarse) k j i \<longrightarrow>
            (p < NVEC \<longrightarrow>
               UtoP m G b domain coarse st (PrimsB b p k j i) = st (ConsB b p k j i) / gdet G b j i) \<and>
            (p < nv \<longrightarrow>
               UtoP_block nv m G b domain coarse st (PrimsB b p k j i) = st (ConsB b p k j i) / gdet G b j i) \<and>
            (p < nv \<and> b < nblocks m \<longrightarrow>
               UtoP_mesh nv m G domain coarse st (PrimsB b p k j i) = st (ConsB b p k j i) / gdet G b j i)) \<and>
         UtoP m G b domain coarse st (ConsB b' c k' j' i') = st (ConsB b' c k' j' i') \<and>
         UtoP_block nv m G b domain coarse st (ConsB b' c k' j' i') = st (ConsB b' c k' j' i') \<and>
         UtoP_mesh nv m G domain coarse st (ConsB b' c k' j' i') = st (ConsB b' c k' j' i') \<and>
         (in_box (UtoP_bounds m domain coarse) k j i \<and> gdet Gf b j i \<noteq> 0 \<longrightarrow>
            (p < NVEC \<longrightarrow>
               UtoP m Gf b domain coarse sf (PrimsB b p k j i) * gdet Gf b j i = sf (ConsB b p k j i)) \<and>
            (p < nv \<longrightarrow>
               UtoP_block nv m Gf b domain coarse sf (PrimsB b p k j i) * gdet Gf b j i = sf (ConsB b p k j i)) \<and>
            (p < nv \<and> b < nblocks m \<longrightarrow>
               UtoP_mesh nv m Gf domain coarse sf (PrimsB b p k j i) * gdet Gf b j i = sf (ConsB b p k j i)))"
  by (simp add: UtoP_eq_UtoP_block UtoP_block_value UtoP_block_ConsB UtoP_mesh_value UtoP_mesh_ConsB)

theorem UtoP_quotient_witness:
  "UtoP mesh_3D G49 0 interior False B_one (PrimsB 0 2 4 5 4) = Double 1 / Double 49 \<and>
   UtoP_mesh 3 mesh_3D G49 entire True B_one (PrimsB 0 2 0 9 0) = Double 1 / Double 49 \<and>
   UtoP_block 3 mesh_3D G49 0 interior False B_one (ConsB 0 2 4 5 4) = Double 1 \<and>
   UtoP mesh_3D G49r 0 interior False ones (PrimsB 0 2 4 5 4) * 49 = 1"
  using UtoP_quotient [where m = mesh_3D and domain = interior and coarse = False and k = 4 and j = 5
      and i = 4 and p = 2 and b = 0 and nv = 3 and G = G49 and st = B_one and Gf = G49r and sf = ones
      and b' = 0 and c = 2 and k' = 4 and j' = 5 and i' = 4]
    UtoP_quotient [where m = mesh_3D and domain = entire and coarse = True and k = 0 and j = 9
      and i = 0 and p = 2 and b = 0 and nv = 3 and G = G49 and st = B_one and Gf = G49r and sf = ones]
  by (simp add: mesh_3D_def bounds_3D_def UtoP_bounds_def in_box_def NVEC_def G49_def G49r_def
        B_one_def ones_def)

lemma binary64_one_49th: "binary64 (binary64 (1 / 49) * 49) \<noteq> 1"
  by code_simp

theorem UtoP_round_trip_counterexample:
  "in_box (UtoP_bounds mesh_3D interior False) 4 4 4 \<and> gdet G49 0 4 4 \<noteq> Double 0 \<and>
   UtoP mesh_3D G49 0 interior False B_one (PrimsB 0 0 4 4 4) * gdet G49 0 4 4 \<noteq> B_one (ConsB 0 0 4 4 4)"
proof -
  have box: "in_box (UtoP_bounds mesh_3D interior False) 4 4 4"
    by (simp add: mesh_3D_def bounds_3D_def UtoP_bounds_def in_box_def)
  have "UtoP mesh_3D G49 0 interior False B_one (PrimsB 0 0 4 4 4) = B_one (ConsB 0 0 4 4 4) / gdet G49 0 4 4"
    using box by (simp add: UtoP_eq_UtoP_block UtoP_block_value NVEC_def)
  then show ?thesis
    using box binary64_one_49th
    by (simp add: G49_def B_one_def divide_double_def times_double_def)
qed

text \<open>
  C7, as amended. TransportB does not read \<open>disable_flux_ct\<close>: whatever the flag, it
  runs FixPolarFlux when \<open>fix_polar_flux\<close> is set and then FluxCT, in the per-block and
  in the whole-mesh variant. (Skipping the transform is left to the caller.)
\<close>

theorem TransportB_ignores_disable_flux_ct:
  fixes F :: "bloc \<Rightarrow> 'r::{zero,one,plus,minus,uminus,times,inverse}"
  shows "TransportB fuse (p\<lparr>disable_flux_ct := d\<rparr>) m b F = TransportB fuse p m b F \<and>
         TransportB fuse p m b F = FluxCT fuse m b (if fix_polar_flux p then FixPolarFlux m b F else F) \<and>
         TransportB_mesh fuse (p\<lparr>disable_flux_ct := d\<rparr>) m F = TransportB_mesh fuse p m F \<and>
         TransportB_mesh fuse p m F = FluxCT_mesh fuse m (if fix_polar_flux p then FixPolarFlux_mesh m F else F)"
  by (simp add: TransportB_def TransportB_mesh_def)

theorem TransportB_disable_flux_ct_counterexample:
  "disable_flux_ct ct_disabled \<and>
   ones (BFlux 0 X1DIR B1 4 4 4) = 1 \<and>
   TransportB False ct_disabled mesh_3D 0 ones (BFlux 0 X1DIR B1 4 4 4) = 0 \<and>
   TransportB_mesh False ct_disabled mesh_3D ones (BFlux 0 X1DIR B1 4 4 4) = 0"
proof -
  have "FluxCT False mesh_3D 0 F (BFlux 0 X1DIR B1 4 4 4) = 0" for F :: "bloc \<Rightarrow> real"
    by (rule FluxCT_3D_F1(1)) (simp_all add: mesh_3D_def bounds_3D_def in_box_grow)
  moreover have "FluxCT_mesh False mesh_3D F (BFlux 0 X1DIR B1 4 4 4) = 0" for F :: "bloc \<Rightarrow> real"
    by (rule FluxCT_mesh_F1(1)) (simp_all add: mesh_3D_def bounds_3D_def in_box_def)
  ultimately show ?thesis
    by (simp add: TransportB_def TransportB_mesh_def ct_disabled_def ones_def)
qed

subsection \<open>MaxDivB\<close>



lemma set_box4: "set (box4 nb r) = {(b, k, j, i). b < nb \<and> in_box r k j i}"
  by (auto simp: box4_def set_range4 in_box_def)





















section \<open>VarMap\<close>

text \<open>
  C9 fails on a pack without the magnetic field: \<open>B1\<close> is \<open>-1\<close>, but \<open>B2 = B1 + 1\<close> and
  \<open>B3 = B1 + 2\<close> are 0 and 1, the slots of the density and of the internal energy.
  Every name that the constructor looks up itself does get \<open>-1\<close> when absent.
\<close>

theorem VarMap_absent_B:
  "hydro_pack ''cons.B'' = None \<and>
   sint (vB1 (mk_VarMap 0 hydro_pack True)) = - 1 \<and>
   sint (vB2 (mk_VarMap 0 hydro_pack True)) = 0 \<and>
   sint (vB3 (mk_VarMap 0 hydro_pack True)) = 1 \<and>
   sint (RHO (mk_VarMap 0 hydro_pack True)) = 0 \<and>
   sint (UU (mk_VarMap 0 hydro_pack True)) = 1 \<and>
   sint (PSI (mk_VarMap 0 hydro_pack True)) = - 1 \<and>
   sint (U2 (mk_VarMap 0 Map.empty False)) = 0 \<and>
   sint (U3 (mk_VarMap 0 Map.empty False)) = 1"
  by (simp add: mk_VarMap_def first_of_def hydro_pack_def Let_def)

section \<open>First-order flux correction\<close>

lemma PLOOP_frame:
  assumes "\<And>ip. ip < n \<Longrightarrow> l \<noteq> A ip"
  shows "PLOOP n (\<lambda>ip st. st(A ip := g ip st)) st l = st l"
proof -
  have "par_for [0..<n] (\<lambda>ip st. st(A ip := g ip st)) st l = st l"
    by (rule par_for_frame [where W = "\<lambda>ip. {A ip}"]) (use assms in auto)
  then show ?thesis by (simp add: PLOOP_def par_for_def)
qed

lemma PLOOP_written:
  assumes ip: "ip < n"
    and inj: "\<And>ip'. ip' < n \<Longrightarrow> ip' \<noteq> ip \<Longrightarrow> A ip' \<noteq> A ip"
    and dep: "\<And>s s'. (\<forall>r\<in>R. s r = s' r) \<Longrightarrow> g ip s = g ip s'"
    and RW: "\<And>ip'. ip' < n \<Longrightarrow> ip' \<noteq> ip \<Longrightarrow> A ip' \<notin> R"
  shows "PLOOP n (\<lambda>ip st. st(A ip := g ip st)) st (A ip) = g ip st"
proof -
  have "par_for [0..<n] (\<lambda>ip st. st(A ip := g ip st)) st (A ip) = (st(A ip := g ip st)) (A ip)"
  proof (rule par_for_written [where W = "\<lambda>ip. {A ip}" and R = R and x = ip])
    show "(s(A ip := g ip s)) (A ip) = (s'(A ip := g ip s')) (A ip)" if "\<forall>r\<in>R. s r = s' r" for s s'
      using dep [OF that] by simp
    show "A ip \<notin> {A y}" if "y \<in> set [0..<n]" "y \<noteq> ip" for y
      using inj [of y] that by auto
    show "{A y} \<inter> R = {}" if "y \<in> set [0..<n]" "y \<noteq> ip" for y
      using RW [of y] that by auto
  qed (use ip in auto)
  then show ?thesis by (simp add: PLOOP_def par_for_def)
qed

lemma PLOOP_const:
  assumes "ip < n" "\<And>ip'. ip' < n \<Longrightarrow> ip' \<noteq> ip \<Longrightarrow> A ip' \<noteq> A ip"
  shows "PLOOP n (\<lambda>ip st. st(A ip := v ip)) st (A ip) = v ip"
  using assms by (intro PLOOP_written [where R = "{}" and g = "\<lambda>ip st. v ip"]) auto

subsection \<open>The marking kernel\<close>

lemma fofc_mark_other: "l \<noteq> Fofcflag b k j i \<Longrightarrow> fofc_mark cast (b, k, j, i) st l = st l"
  by (simp add: fofc_mark_def)

lemma FOFC_mark_frame:
  assumes "\<And>b k j i. l \<noteq> Fofcflag b k j i"
  shows "FOFC_mark cast nb cells st l = st l"
  unfolding FOFC_mark_def
proof (rule par_for_frame [where W = "\<lambda>(b, k, j, i). {Fofcflag b k j i}"])
  fix x :: "nat \<times> int \<times> int \<times> int"
  obtain b k j i where x: "x = (b, k, j, i)" by (cases x)
  show "fofc_mark cast x s l = s l" for s
    unfolding x using assms by (intro fofc_mark_other)
  show "l \<notin> (case x of (b, k, j, i) \<Rightarrow> {Fofcflag b k j i})"
    unfolding x using assms by simp
qed

lemma FOFC_mark_Fofcflag:
  fixes st :: "floc \<Rightarrow> 'r::one"
  shows "FOFC_mark cast nb cells st (Fofcflag b k j i) =
     (if b < nb \<and> in_box cells k j i \<and>
         (cast (st (Fflag b k j i)) > 0 \<or> cast (st (Pflag b k j i)) > 0)
      then 1 else st (Fofcflag b k j i))"
proof (cases "b < nb \<and> in_box cells k j i")
  case True
  let ?R = "{Fflag b k j i, Pflag b k j i, Fofcflag b k j i}"
  have "par_for (box4 nb cells) (fofc_mark cast) st (Fofcflag b k j i) =
          fofc_mark cast (b, k, j, i) st (Fofcflag b k j i)"
  proof (rule par_for_written [where W = "\<lambda>(b, k, j, i). {Fofcflag b k j i}" and R = ?R])
    show "fofc_mark cast y s l = s l"
      if "l \<notin> (case y of (b, k, j, i) \<Rightarrow> {Fofcflag b k j i})" for y s and l :: floc
      using that by (cases y) (simp add: fofc_mark_other)
    show "fofc_mark cast (b, k, j, i) s (Fofcflag b k j i) = fofc_mark cast (b, k, j, i) s' (Fofcflag b k j i)"
      if "\<forall>r\<in>?R. s r = s' r" for s s' :: "floc \<Rightarrow> 'r"
      using that by (simp add: fofc_mark_def)
    show "(b, k, j, i) \<in> set (box4 nb cells)"
      using True by (simp add: box4_def set_range4 in_box_def)
    show "distinct (box4 nb cells)"
      by (simp add: box4_def distinct_range4)
  qed auto
  then show ?thesis
    using True by (simp add: FOFC_mark_def fofc_mark_def)
next
  case False
  have "par_for (box4 nb cells) (fofc_mark cast) st (Fofcflag b k j i) = st (Fofcflag b k j i)"
  proof (rule par_for_frame [where W = "\<lambda>(b, k, j, i). {Fofcflag b k j i}"])
    show "fofc_mark cast y s (Fofcflag b k j i) = s (Fofcflag b k j i)"
      if "Fofcflag b k j i \<notin> (case y of (b, k, j, i) \<Rightarrow> {Fofcflag b k j i})" for y s
      using that by (cases y) (simp add: fofc_mark_other)
    show "Fofcflag b k j i \<notin> (case y of (b, k, j, i) \<Rightarrow> {Fofcflag b k j i})"
      if "y \<in> set (box4 nb cells)" for y
    proof -
      obtain b' k' j' i' where y: "y = (b', k', j', i')" by (cases y)
      show ?thesis
        using that False unfolding y by (auto simp: box4_def set_range4 in_box_def)
    qed
  qed
  then show ?thesis
    using False by (auto simp: FOFC_mark_def)
qed


subsection \<open>The face kernel at one face\<close>

text \<open>The slots that the iteration of face \<open>(b, k, j, i)\<close> can write.\<close>

lemma fofc_face_frame:
  assumes "\<And>ip. ip < nvar \<Longrightarrow>
             l \<notin> {Pl_all b ip k j i, Pr_all b ip k j i, Ul_all b ip k j i, Ur_all b ip k j i,
                   Fl_all b ip k j i, Fr_all b ip k j i, U_flux b dir ip k j i}"
    and "l \<noteq> Cmax b (dir - 1) k j i" "l \<noteq> Cmin b (dir - 1) k j i"
  shows "fofc_face fns nvar dir (b, k, j, i) st l = st l"
  using assms
  by (simp add: fofc_face_def Let_def case_prod_unfold PLOOP_frame)

lemma fofc_face_unflagged:
  assumes "\<not> to_int fns (st (Fofcflag b k j i)) > 0"
    and "trail dir (k, j, i) = (kk, jj, ii)"
    and "\<not> to_int fns (st (Fofcflag b kk jj ii)) > 0"
  shows "fofc_face fns nvar dir (b, k, j, i) st = st"
  using assms by (auto simp: fofc_face_def Let_def trail_def)


lemma prims_at_cong:
  assumes "\<And>ip. ip < nvar \<Longrightarrow> s (A ip) = s' (B ip)"
  shows "prims_at nvar A s = prims_at nvar B s'"
  using assms by (simp add: prims_at_def)

lemma fofc_face_flagged:
  fixes st :: "floc \<Rightarrow> 'r::{zero,one,plus,minus,uminus,times,inverse,abs,ord}"
  assumes tr: "trail dir (k, j, i) = (kk, jj, ii)"
    and flag: "to_int fns (st (Fofcflag b k j i)) > 0 \<or> to_int fns (st (Fofcflag b kk jj ii)) > 0"
    and ip: "ip < nvar"
  shows "fofc_face fns nvar dir (b, k, j, i) st (U_flux b dir ip k j i) =
           fofc_flux fns nvar dir st b ip (k, j, i)"
proof -
  define loc where "loc = loc_of dir"
  define s1 where "s1 = PLOOP nvar (\<lambda>ip st. st(Pl_all b ip k j i := st (P_all b ip kk jj ii))) st"
  define s2 where "s2 = PLOOP nvar (\<lambda>ip st. st(Pr_all b ip k j i := st (P_all b ip k j i))) s1"
  define Pl where "Pl = prims_at nvar (\<lambda>ip. Pl_all b ip k j i) s2"
  define Dl where "Dl = calc_4vecs fns b Pl k j i loc"
  define s3 where "s3 = PLOOP nvar (\<lambda>ip st. st(Ul_all b ip k j i := prim_to_flux fns b Pl Dl k j i 0 loc ip)) s2"
  define s4 where "s4 = PLOOP nvar (\<lambda>ip st. st(Fl_all b ip k j i := prim_to_flux fns b Pl Dl k j i dir loc ip)) s3"
  define cL where "cL = vchar_global fns b Pl Dl k j i loc dir"
  define s5 where "s5 = s4(Cmax b (dir - 1) k j i := m_max 0 (fst cL))"
  define s6 where "s6 = s5(Cmin b (dir - 1) k j i := m_max 0 (- snd cL))"
  define Pr where "Pr = prims_at nvar (\<lambda>ip. Pr_all b ip k j i) s6"
  define Dr where "Dr = calc_4vecs fns b Pr k j i loc"
  define s7 where "s7 = PLOOP nvar (\<lambda>ip st. st(Ur_all b ip k j i := prim_to_flux fns b Pr Dr k j i 0 loc ip)) s6"
  define s8 where "s8 = PLOOP nvar (\<lambda>ip st. st(Fr_all b ip k j i := prim_to_flux fns b Pr Dr k j i dir loc ip)) s7"
  define cR where "cR = vchar_global fns b Pr Dr k j i loc dir"
  define s9 where "s9 = s8(Cmax b (dir - 1) k j i := m_abs (m_max (s8 (Cmax b (dir - 1) k j i)) (fst cR)))"
  define s10 where "s10 = s9(Cmin b (dir - 1) k j i := m_abs (m_max (s9 (Cmin b (dir - 1) k j i)) (- snd cR)))"
  define s11 where "s11 = PLOOP nvar (\<lambda>ip st.
               st(U_flux b dir ip k j i :=
                    llf (st (Fl_all b ip k j i)) (st (Fr_all b ip k j i))
                        (st (Cmax b (dir - 1) k j i)) (st (Cmin b (dir - 1) k j i))
                        (st (Ul_all b ip k j i)) (st (Ur_all b ip k j i)))) s10"
  have kji: "kk = (if dir = 3 then k - 1 else k)" "jj = (if dir = 2 then j - 1 else j)"
    "ii = (if dir = 1 then i - 1 else i)"
    using tr by (simp_all add: trail_def)
  have body: "fofc_face fns nvar dir (b, k, j, i) st = s11"
    unfolding fofc_face_def Let_def case_prod_unfold fst_conv snd_conv s11_def s10_def s9_def
      s8_def s7_def s6_def s5_def s4_def s3_def s2_def s1_def Pl_def Pr_def Dl_def Dr_def cL_def
      cR_def loc_def kji
    using flag [unfolded kji] by (simp only: if_P)
  have s1_Pl: "s1 (Pl_all b ip k j i) = st (P_all b ip kk jj ii)" if "ip < nvar" for ip
    unfolding s1_def using that
    by (intro PLOOP_written [where A = "\<lambda>ip. Pl_all b ip k j i" and g = "\<lambda>ip st. st (P_all b ip kk jj ii)"
          and R = "{l. \<exists>ip k j i. l = P_all b ip k j i}"]) auto
  have s1_P: "s1 (P_all b ip k' j' i') = st (P_all b ip k' j' i')" for ip k' j' i'
    unfolding s1_def by (simp add: PLOOP_frame)
  have s2_Pr: "s2 (Pr_all b ip k j i) = st (P_all b ip k j i)" if "ip < nvar" for ip
  proof -
    have "s2 (Pr_all b ip k j i) = s1 (P_all b ip k j i)"
      unfolding s2_def using that
      by (intro PLOOP_written [where A = "\<lambda>ip. Pr_all b ip k j i" and g = "\<lambda>ip st. st (P_all b ip k j i)"
            and R = "{l. \<exists>ip k j i. l = P_all b ip k j i}"]) auto
    then show ?thesis by (simp add: s1_P)
  qed
  have s2_Pl: "s2 (Pl_all b ip k j i) = st (P_all b ip kk jj ii)" if "ip < nvar" for ip
    unfolding s2_def using that by (simp add: PLOOP_frame s1_Pl)
  have Pl: "Pl = prims_at nvar (\<lambda>ip. P_all b ip kk jj ii) st"
    unfolding Pl_def by (rule prims_at_cong) (simp add: s2_Pl)
  have s6_Pr: "s6 (Pr_all b ip k j i) = st (P_all b ip k j i)" if "ip < nvar" for ip
    unfolding s6_def s5_def s4_def s3_def using that by (simp add: PLOOP_frame s2_Pr)
  have Pr: "Pr = prims_at nvar (\<lambda>ip. P_all b ip k j i) st"
    unfolding Pr_def by (rule prims_at_cong) (simp add: s6_Pr)
  have s3_Ul: "s3 (Ul_all b ip k j i) = prim_to_flux fns b Pl Dl k j i 0 loc ip"
    unfolding s3_def using ip
    by (intro PLOOP_const [where A = "\<lambda>ip. Ul_all b ip k j i"]) auto
  have s4_Fl: "s4 (Fl_all b ip k j i) = prim_to_flux fns b Pl Dl k j i dir loc ip"
    unfolding s4_def using ip
    by (intro PLOOP_const [where A = "\<lambda>ip. Fl_all b ip k j i"]) auto
  have s7_Ur: "s7 (Ur_all b ip k j i) = prim_to_flux fns b Pr Dr k j i 0 loc ip"
    unfolding s7_def using ip
    by (intro PLOOP_const [where A = "\<lambda>ip. Ur_all b ip k j i"]) auto
  have s8_Fr: "s8 (Fr_all b ip k j i) = prim_to_flux fns b Pr Dr k j i dir loc ip"
    unfolding s8_def using ip
    by (intro PLOOP_const [where A = "\<lambda>ip. Fr_all b ip k j i"]) auto
  have s10_Ul: "s10 (Ul_all b ip k j i) = prim_to_flux fns b Pl Dl k j i 0 loc ip"
    unfolding s10_def s9_def s8_def s7_def s6_def s5_def s4_def by (simp add: PLOOP_frame s3_Ul)
  have s10_Fl: "s10 (Fl_all b ip k j i) = prim_to_flux fns b Pl Dl k j i dir loc ip"
    unfolding s10_def s9_def s8_def s7_def s6_def s5_def by (simp add: PLOOP_frame s4_Fl)
  have s10_Ur: "s10 (Ur_all b ip k j i) = prim_to_flux fns b Pr Dr k j i 0 loc ip"
    unfolding s10_def s9_def s8_def by (simp add: PLOOP_frame s7_Ur)
  have s10_Fr: "s10 (Fr_all b ip k j i) = prim_to_flux fns b Pr Dr k j i dir loc ip"
    unfolding s10_def s9_def by (simp add: s8_Fr)
  have s8_Cmax: "s8 (Cmax b (dir - 1) k j i) = m_max 0 (fst cL)"
    unfolding s8_def s7_def s6_def s5_def by (simp add: PLOOP_frame)
  have s9_Cmin: "s9 (Cmin b (dir - 1) k j i) = m_max 0 (- snd cL)"
    unfolding s9_def s8_def s7_def s6_def by (simp add: PLOOP_frame)
  have s10_Cmax: "s10 (Cmax b (dir - 1) k j i) = m_abs (m_max (m_max 0 (fst cL)) (fst cR))"
    unfolding s10_def using s8_Cmax by (simp add: s9_def)
  have s10_Cmin: "s10 (Cmin b (dir - 1) k j i) = m_abs (m_max (m_max 0 (- snd cL)) (- snd cR))"
    unfolding s10_def using s9_Cmin by simp
  have "s11 (U_flux b dir ip k j i) =
          llf (s10 (Fl_all b ip k j i)) (s10 (Fr_all b ip k j i))
              (s10 (Cmax b (dir - 1) k j i)) (s10 (Cmin b (dir - 1) k j i))
              (s10 (Ul_all b ip k j i)) (s10 (Ur_all b ip k j i))"
    unfolding s11_def using ip
    by (intro PLOOP_written [where A = "\<lambda>ip. U_flux b dir ip k j i"
          and g = "\<lambda>ip st. llf (st (Fl_all b ip k j i)) (st (Fr_all b ip k j i))
                        (st (Cmax b (dir - 1) k j i)) (st (Cmin b (dir - 1) k j i))
                        (st (Ul_all b ip k j i)) (st (Ur_all b ip k j i))"
          and R = "{l. \<forall>b d ip k j i. l \<noteq> U_flux b d ip k j i}"]) auto
  then show ?thesis
    unfolding body s10_Ul s10_Fl s10_Ur s10_Fr s10_Cmax s10_Cmin
    by (simp add: fofc_flux_def llf_def tr Let_def
          case_prod_unfold Pl [symmetric] Pr [symmetric] Dl_def [symmetric] Dr_def [symmetric]
          cL_def [symmetric] cR_def [symmetric] loc_def [symmetric])
qed

subsection \<open>The face kernel over a direction\<close>

lemma fofc_flux_cong:
  assumes "\<And>ip k j i. s (P_all b ip k j i) = s' (P_all b ip k j i)"
  shows "fofc_flux fns nvar dir s b ip kji = fofc_flux fns nvar dir s' b ip kji"
proof -
  have "prims_at nvar (\<lambda>ip. P_all b ip k j i) s = prims_at nvar (\<lambda>ip. P_all b ip k j i) s'" for k j i
    by (rule prims_at_cong) (simp add: assms)
  then show ?thesis
    by (simp add: fofc_flux_def case_prod_unfold)
qed

lemma fofc_face_frame_writes:
  assumes "l \<notin> face_writes nvar dir y"
  shows "fofc_face fns nvar dir y st l = st l"
proof -
  obtain b k j i where y: "y = (b, k, j, i)" by (cases y)
  show ?thesis
    unfolding y
    by (rule fofc_face_frame) (use assms in \<open>auto simp: y face_writes_def\<close>)
qed

lemma fofc_face_U_flux:
  fixes st :: "floc \<Rightarrow> 'r::{zero,one,plus,minus,uminus,times,inverse,abs,ord}"
  assumes "ip < nvar"
  shows "fofc_face fns nvar dir (b, k, j, i) st (U_flux b dir ip k j i) =
     (if to_int fns (st (Fofcflag b k j i)) > 0 \<or>
         (case trail dir (k, j, i) of (kk, jj, ii) \<Rightarrow> to_int fns (st (Fofcflag b kk jj ii)) > 0)
      then fofc_flux fns nvar dir st b ip (k, j, i)
      else st (U_flux b dir ip k j i))"
proof -
  obtain kk jj ii where tr: "trail dir (k, j, i) = (kk, jj, ii)" by (cases "trail dir (k, j, i)")
  show ?thesis
  proof (cases "to_int fns (st (Fofcflag b k j i)) > 0 \<or> to_int fns (st (Fofcflag b kk jj ii)) > 0")
    case True
    then show ?thesis
      using fofc_face_flagged [OF tr True assms] by (simp add: tr)
  next
    case False
    then show ?thesis
      using fofc_face_unflagged [of fns st b k j i dir kk jj ii nvar] tr by auto
  qed
qed

lemma FOFC_dir_frame:
  assumes "\<And>y. l \<notin> face_writes nvar dir y"
  shows "FOFC_dir fns nd nvar nb faces dir st l = st l"
proof (cases "int dir > nd")
  case True
  then show ?thesis by (simp add: FOFC_dir_def)
next
  case False
  have "par_for (box4 nb (faces dir)) (fofc_face fns nvar dir) st l = st l"
    by (rule par_for_frame [where W = "face_writes nvar dir"])
       (simp_all add: fofc_face_frame_writes assms)
  then show ?thesis using False by (simp add: FOFC_dir_def)
qed

lemma FOFC_dir_P_all [simp]:
  "FOFC_dir fns nd nvar nb faces dir st (P_all b ip k j i) = st (P_all b ip k j i)"
  by (rule FOFC_dir_frame) (auto simp: face_writes_def)

lemma FOFC_dir_Fofcflag [simp]:
  "FOFC_dir fns nd nvar nb faces dir st (Fofcflag b k j i) = st (Fofcflag b k j i)"
  by (rule FOFC_dir_frame) (auto simp: face_writes_def)

lemma FOFC_dir_U_flux_other:
  assumes "d \<noteq> dir"
  shows "FOFC_dir fns nd nvar nb faces dir st (U_flux b d ip k j i) = st (U_flux b d ip k j i)"
  by (rule FOFC_dir_frame) (use assms in \<open>auto simp: face_writes_def\<close>)

lemma FOFC_dir_U_flux:
  fixes st :: "floc \<Rightarrow> 'r::{zero,one,plus,minus,uminus,times,inverse,abs,ord}"
  shows "FOFC_dir fns nd nvar nb faces dir st (U_flux b dir ip k j i) =
     (if int dir \<le> nd \<and> b < nb \<and> in_box (faces dir) k j i \<and> ip < nvar \<and>
         (to_int fns (st (Fofcflag b k j i)) > 0 \<or>
          (case trail dir (k, j, i) of (kk, jj, ii) \<Rightarrow> to_int fns (st (Fofcflag b kk jj ii)) > 0))
      then fofc_flux fns nvar dir st b ip (k, j, i)
      else st (U_flux b dir ip k j i))"
proof (cases "int dir \<le> nd \<and> b < nb \<and> in_box (faces dir) k j i \<and> ip < nvar")
  case True
  let ?l = "U_flux b dir ip k j i"
  let ?R = "{l. (\<exists>b ip k j i. l = P_all b ip k j i) \<or> (\<exists>b k j i. l = Fofcflag b k j i)} \<union> {?l}"
  have "par_for (box4 nb (faces dir)) (fofc_face fns nvar dir) st ?l =
          fofc_face fns nvar dir (b, k, j, i) st ?l"
  proof (rule par_for_written [where W = "face_writes nvar dir" and R = ?R])
    show "fofc_face fns nvar dir y s l = s l" if "l \<notin> face_writes nvar dir y" for y s l
      using that by (rule fofc_face_frame_writes)
    show "fofc_face fns nvar dir (b, k, j, i) s ?l = fofc_face fns nvar dir (b, k, j, i) s' ?l"
      if "\<forall>r\<in>?R. s r = s' r" for s s' :: "floc \<Rightarrow> 'r"
    proof -
      have P: "s (P_all b ip k j i) = s' (P_all b ip k j i)" for b ip k j i
        using that by auto
      have F: "s (Fofcflag b k j i) = s' (Fofcflag b k j i)" for b k j i
        using that by auto
      have U: "s ?l = s' ?l" using that by auto
      have "fofc_flux fns nvar dir s b ip (k, j, i) = fofc_flux fns nvar dir s' b ip (k, j, i)"
        by (rule fofc_flux_cong) (rule P)
      then show ?thesis
        using True by (simp add: fofc_face_U_flux F U)
    qed
    show "face_writes nvar dir y \<inter> ?R = {}" if "y \<noteq> (b, k, j, i)" for y
    proof -
      obtain b' k' j' i' where y: "y = (b', k', j', i')" by (cases y)
      show ?thesis using that unfolding y by (auto simp: face_writes_def)
    qed
    show "?l \<notin> face_writes nvar dir y" if "y \<noteq> (b, k, j, i)" for y
    proof -
      obtain b' k' j' i' where y: "y = (b', k', j', i')" by (cases y)
      show ?thesis using that unfolding y by (auto simp: face_writes_def)
    qed
    show "distinct (box4 nb (faces dir))"
      by (simp add: box4_def distinct_range4)
    show "(b, k, j, i) \<in> set (box4 nb (faces dir))"
      using True by (simp add: set_box4)
  qed
  then show ?thesis
    using True by (simp add: FOFC_dir_def fofc_face_U_flux)
next
  case False
  have "FOFC_dir fns nd nvar nb faces dir st (U_flux b dir ip k j i) = st (U_flux b dir ip k j i)"
  proof (cases "int dir > nd")
    case True
    then show ?thesis by (simp add: FOFC_dir_def)
  next
    case nd: False
    have "par_for (box4 nb (faces dir)) (fofc_face fns nvar dir) st (U_flux b dir ip k j i) =
            st (U_flux b dir ip k j i)"
    proof (rule par_for_frame [where W = "face_writes nvar dir"])
      show "fofc_face fns nvar dir y s (U_flux b dir ip k j i) = s (U_flux b dir ip k j i)"
        if "U_flux b dir ip k j i \<notin> face_writes nvar dir y" for y s
        using that by (rule fofc_face_frame_writes)
      show "U_flux b dir ip k j i \<notin> face_writes nvar dir y" if "y \<in> set (box4 nb (faces dir))" for y
      proof -
        obtain b' k' j' i' where y: "y = (b', k', j', i')" by (cases y)
        show ?thesis using that False nd unfolding y by (auto simp: face_writes_def set_box4)
      qed
    qed
    then show ?thesis using nd by (simp add: FOFC_dir_def)
  qed
  then show ?thesis using False by auto
qed

subsection \<open>The whole correction\<close>

lemma FOFC_P_all:
  "FOFC fns nd nvar nb cells faces st (P_all b ip k j i) = st (P_all b ip k j i)"
  by (simp add: FOFC_def FOFC_mark_frame)

lemma FOFC_Fofcflag:
  "FOFC fns nd nvar nb cells faces st (Fofcflag b k j i) =
     FOFC_mark (to_int fns) nb cells st (Fofcflag b k j i)"
  by (simp add: FOFC_def)

lemma FOFC_dir_flux_P:
  "fofc_flux fns nvar d (FOFC_dir fns' nd nvar' nb faces dir st) b ip kji = fofc_flux fns nvar d st b ip kji"
  by (rule fofc_flux_cong) simp

lemma FOFC_mark_flux_P:
  "fofc_flux fns nvar d (FOFC_mark cast nb cells st) b ip kji = fofc_flux fns nvar d st b ip kji"
  by (rule fofc_flux_cong) (simp add: FOFC_mark_frame)

lemma FOFC_mark_U_flux:
  "FOFC_mark cast nb cells st (U_flux b d ip k j i) = st (U_flux b d ip k j i)"
  by (simp add: FOFC_mark_frame)

lemma FOFC_flux:
  fixes st :: "floc \<Rightarrow> 'r::{zero,one,plus,minus,uminus,times,inverse,abs,ord}"
  shows "FOFC fns nd nvar nb cells faces st (U_flux b d ip k j i) =
     (if d \<in> {1, 2, 3} \<and> int d \<le> nd \<and> b < nb \<and> in_box (faces d) k j i \<and> ip < nvar \<and>
         fofc_corrects (to_int fns) nb cells st d b (k, j, i)
      then fofc_flux fns nvar d st b ip (k, j, i)
      else st (U_flux b d ip k j i))"
proof -
  consider "d = 1" | "d = 2" | "d = 3" | "d \<notin> {1, 2, 3}" by auto
  then show ?thesis
  proof cases
    case 1
    show ?thesis
      unfolding 1 FOFC_def
      by (auto simp add: FOFC_dir_U_flux_other FOFC_dir_U_flux FOFC_dir_flux_P FOFC_mark_flux_P
            FOFC_mark_U_flux fofc_corrects_def fofc_marked_def case_prod_unfold simp del: One_nat_def)
  next
    case 2
    show ?thesis
      unfolding 2 FOFC_def
      by (auto simp add: FOFC_dir_U_flux_other FOFC_dir_U_flux FOFC_dir_flux_P FOFC_mark_flux_P
            FOFC_mark_U_flux fofc_corrects_def fofc_marked_def case_prod_unfold simp del: One_nat_def)
  next
    case 3
    show ?thesis
      unfolding 3 FOFC_def
      by (auto simp add: FOFC_dir_U_flux_other FOFC_dir_U_flux FOFC_dir_flux_P FOFC_mark_flux_P
            FOFC_mark_U_flux fofc_corrects_def fofc_marked_def case_prod_unfold simp del: One_nat_def)
  next
    case 4
    then have "d \<noteq> 1" "d \<noteq> 2" "d \<noteq> 3" by auto
    then show ?thesis
      using 4 unfolding FOFC_def
      by (simp add: FOFC_dir_U_flux_other FOFC_mark_U_flux del: One_nat_def)
  qed
qed

lemma with_speeds_simps [simp]:
  "with_speeds st cmx cmn (Fflag b k j i) = st (Fflag b k j i)"
  "with_speeds st cmx cmn (Pflag b k j i) = st (Pflag b k j i)"
  "with_speeds st cmx cmn (Fofcflag b k j i) = st (Fofcflag b k j i)"
  "with_speeds st cmx cmn (P_all b ip k j i) = st (P_all b ip k j i)"
  "with_speeds st cmx cmn (U_flux b d ip k j i) = st (U_flux b d ip k j i)"
  by (simp_all add: with_speeds_def)

lemma fofc_marked_cong:
  assumes "s (Fflag b k j i) = s' (Fflag b k j i)"
    and "s (Pflag b k j i) = s' (Pflag b k j i)"
    and "s (Fofcflag b k j i) = s' (Fofcflag b k j i)"
  shows "fofc_marked cast nb cells s b (k, j, i) = fofc_marked cast nb cells s' b (k, j, i)"
  unfolding fofc_marked_def prod.case FOFC_mark_Fofcflag assms ..

lemma fofc_corrects_cong:
  assumes "\<And>k j i. s (Fflag b k j i) = s' (Fflag b k j i)"
    and "\<And>k j i. s (Pflag b k j i) = s' (Pflag b k j i)"
    and "\<And>k j i. s (Fofcflag b k j i) = s' (Fofcflag b k j i)"
  shows "fofc_corrects cast nb cells s d b kji = fofc_corrects cast nb cells s' d b kji"
proof -
  have "fofc_marked cast nb cells s b c = fofc_marked cast nb cells s' b c" for c
  proof -
    obtain k j i where c: "c = (k, j, i)" by (cases c)
    show ?thesis unfolding c by (rule fofc_marked_cong) (rule assms)+
  qed
  then show ?thesis by (simp add: fofc_corrects_def)
qed

lemma flux_flagged: "fofc_flux fns0 1 1 flagged 0 0 (4, 4, 4) = 2"
  by (simp add: fofc_flux_def trail_def prims_at_def fns0_def flagged_def quiet_def m_max_def
        m_abs_def c0_5_def Let_def)

lemma trail_lead: "trail d x = c \<longleftrightarrow> x = lead d c"
  by (cases x; cases c) (auto simp: trail_def lead_def)

lemma fofc_flux_flagged: "fofc_flux fns0 1 1 flagged 0 0 (4, 4, 4) = 2"
  by (simp add: fofc_flux_def trail_def prims_at_def fns0_def flagged_def quiet_def m_max_def
        m_abs_def c0_5_def Let_def loc_of_def)

lemma fofc_corrects_flagged: "fofc_corrects (to_int fns0) 1 cells0 flagged 1 0 (4, 4, 4)"
  by (simp add: fofc_corrects_def fofc_marked_def FOFC_mark_Fofcflag cells0_def in_box_def
        flagged_def quiet_def fns0_def cast_int_def)

subsection \<open>The corrected faces\<close>

text \<open>
  C3. At a face that FOFC visits (a direction present in the mesh, a block and a face of
  the kernel's range, a variable of the pack) and corrects, because one of the two cells
  that border it is marked, the flux of every variable on return is
  \<open>0.5*(Fl + Fr) - 0.5*max(cmax, cmin)*(Ur - Ul)\<close>, where the left state is the
  cell-centred primitive vector of the trailing cell and the right state that of the
  cell of the face's index, \<open>Ul\<close>, \<open>Ur\<close>, \<open>Fl\<close>, \<open>Fr\<close> are computed from these states, and
  \<open>cmax\<close>, \<open>cmin\<close> are their characteristic speeds clamped to be non-negative. The
  result is the same whatever values \<open>cmx\<close>, \<open>cmn\<close> the arrays \<open>cmax\<close> and \<open>cmin\<close> held
  before the call.
\<close>

theorem FOFC_first_order_flux:
  fixes st :: "floc \<Rightarrow> 'r::{zero,one,plus,minus,uminus,times,inverse,abs,ord}"
  assumes "d \<in> {1, 2, 3}" "int d \<le> nd" "b < nb" "in_box (faces d) k j i" "ip < nvar"
    and "fofc_corrects (to_int fns) nb cells st d b (k, j, i)"
  shows "FOFC fns nd nvar nb cells faces st (U_flux b d ip k j i) =
           fofc_flux fns nvar d st b ip (k, j, i) \<and>
         FOFC fns nd nvar nb cells faces (with_speeds st cmx cmn) (U_flux b d ip k j i) =
           fofc_flux fns nvar d st b ip (k, j, i)"
proof
  show "FOFC fns nd nvar nb cells faces st (U_flux b d ip k j i) =
          fofc_flux fns nvar d st b ip (k, j, i)"
    unfolding FOFC_flux using assms by simp
  have "fofc_corrects (to_int fns) nb cells (with_speeds st cmx cmn) d b (k, j, i) =
          fofc_corrects (to_int fns) nb cells st d b (k, j, i)"
    by (rule fofc_corrects_cong) simp_all
  moreover have "fofc_flux fns nvar d (with_speeds st cmx cmn) b ip (k, j, i) =
          fofc_flux fns nvar d st b ip (k, j, i)"
    by (rule fofc_flux_cong) simp
  ultimately show "FOFC fns nd nvar nb cells faces (with_speeds st cmx cmn) (U_flux b d ip k j i) =
          fofc_flux fns nvar d st b ip (k, j, i)"
    unfolding FOFC_flux using assms by simp
qed

theorem FOFC_first_order_flux_witness:
  "fofc_corrects (to_int fns0) 1 cells0 flagged 1 0 (4, 4, 4) \<and>
   in_box (faces0 1) 4 4 4 \<and>
   flagged (U_flux 0 1 0 4 4 4) = 7 \<and>
   FOFC fns0 3 1 1 cells0 faces0 flagged (U_flux 0 1 0 4 4 4) = 2 \<and>
   FOFC fns0 3 1 1 cells0 faces0 (with_speeds flagged (\<lambda>b c k j i. 100) (\<lambda>b c k j i. 100))
     (U_flux 0 1 0 4 4 4) = 2"
  using FOFC_first_order_flux [where fns = fns0 and nd = 3 and nvar = 1 and nb = 1 and cells = cells0
      and faces = faces0 and st = flagged and b = 0 and d = 1 and ip = 0 and k = 4 and j = 4 and i = 4
      and cmx = "\<lambda>b c k j i. 100" and cmn = "\<lambda>b c k j i. 100"]
    fofc_corrects_flagged fofc_flux_flagged
  by (simp add: faces0_def cells0_def in_box_def flagged_def quiet_def)

text \<open>
  With no cell marked on entry and none to mark, FOFC changes no flux.
\<close>

lemma FOFC_unmarked_frame:
  fixes st :: "floc \<Rightarrow> 'r::{zero,one,plus,minus,uminus,times,inverse,abs,ord}"
  assumes cast: "to_int fns 0 = 0"
    and zero: "\<And>b k j i. st (Fflag b k j i) = 0 \<and> st (Pflag b k j i) = 0"
    and fofc: "\<And>b k j i. \<not> 0 < to_int fns (st (Fofcflag b k j i))"
  shows "FOFC fns nd nvar nb cells faces st (U_flux b d ip k j i) = st (U_flux b d ip k j i)"
proof -
  have "\<not> fofc_marked (to_int fns) nb cells st b c" for c
    by (cases c) (simp add: fofc_marked_def FOFC_mark_Fofcflag zero cast fofc)
  then have "\<not> fofc_corrects (to_int fns) nb cells st d b (k, j, i)"
    by (simp add: fofc_corrects_def)
  then show ?thesis
    unfolding FOFC_flux by simp
qed

lemma FOFC_dir_Fflag [simp]:
  "FOFC_dir fns nd nvar nb faces dir st (Fflag b k j i) = st (Fflag b k j i)"
  by (rule FOFC_dir_frame) (auto simp: face_writes_def)

lemma FOFC_dir_Pflag [simp]:
  "FOFC_dir fns nd nvar nb faces dir st (Pflag b k j i) = st (Pflag b k j i)"
  by (rule FOFC_dir_frame) (auto simp: face_writes_def)

lemma FOFC_flags:
  "FOFC fns nd nvar nb cells faces st (Fflag b k j i) = st (Fflag b k j i)"
  "FOFC fns nd nvar nb cells faces st (Pflag b k j i) = st (Pflag b k j i)"
  by (simp_all add: FOFC_def FOFC_mark_frame)

lemma FOFC_flagged_Fofcflag: "FOFC fns0 3 1 1 cells0 faces0 flagged (Fofcflag 0 4 4 4) = 1"
  by (simp add: FOFC_Fofcflag FOFC_mark_Fofcflag cells0_def in_box_def flagged_def quiet_def
        fns0_def cast_int_def)

lemma second_entry_no_flags:
  "second_entry (Fflag b k j i) = 0 \<and> second_entry (Pflag b k j i) = 0"
  by (simp add: second_entry_def FOFC_flags flagged_def quiet_def)

lemma second_entry_Fofcflag: "second_entry (Fofcflag 0 4 4 4) = 1"
  using FOFC_flagged_Fofcflag by (simp add: second_entry_def)

lemma fofc_corrects_second_entry: "fofc_corrects (to_int fns0) 1 cells0 second_entry 1 0 (4, 4, 4)"
  by (simp add: fofc_corrects_def fofc_marked_def FOFC_mark_Fofcflag second_entry_no_flags
        second_entry_Fofcflag fns0_def cast_int_def)

lemma fofc_flux_second_entry: "fofc_flux fns0 1 1 second_entry 0 0 (4, 4, 4) = 2"
proof -
  have "fofc_flux fns0 1 1 second_entry 0 0 (4, 4, 4) = fofc_flux fns0 1 1 flagged 0 0 (4, 4, 4)"
    by (rule fofc_flux_cong) (simp add: second_entry_def FOFC_P_all)
  then show ?thesis by (simp only: fofc_flux_flagged)
qed

text \<open>
  C4 fails on a store that FOFC produces itself. The marking kernel sets \<open>fofcflag\<close>
  where \<open>fflag\<close> or \<open>pflag\<close> is positive and has no branch that clears it: after a call
  on \<open>flagged\<close>, \<open>fofcflag\<close> is 1 in cell \<open>(4, 4, 4)\<close>. On the next entry, with \<open>fflag\<close> and
  \<open>pflag\<close> zero at every cell (\<open>second_entry_no_flags\<close>) and the flux 7 at the x1 face of
  that cell, FOFC replaces the flux by the first-order flux 2.
\<close>

theorem FOFC_keeps_fofcflag:
  "FOFC fns0 3 1 1 cells0 faces0 flagged (Fofcflag 0 4 4 4) = 1 \<and>
   second_entry (Fflag 0 4 4 4) = 0 \<and> second_entry (Pflag 0 4 4 4) = 0 \<and>
   second_entry (Fflag 0 4 4 3) = 0 \<and> second_entry (Pflag 0 4 4 3) = 0 \<and>
   second_entry (U_flux 0 1 0 4 4 4) = 7 \<and>
   FOFC fns0 3 1 1 cells0 faces0 second_entry (U_flux 0 1 0 4 4 4) = 2"
proof -
  have "FOFC fns0 3 1 1 cells0 faces0 second_entry (U_flux 0 1 0 4 4 4) =
          fofc_flux fns0 1 1 second_entry 0 0 (4, 4, 4)"
    unfolding FOFC_flux using fofc_corrects_second_entry
    by (simp add: faces0_def cells0_def in_box_def)
  then have flux: "FOFC fns0 3 1 1 cells0 faces0 second_entry (U_flux 0 1 0 4 4 4) = 2"
    by (simp only: fofc_flux_second_entry)
  have "second_entry (U_flux 0 1 0 4 4 4) = 7"
    by (simp add: second_entry_def)
  then show ?thesis
    using flux second_entry_no_flags FOFC_flagged_Fofcflag by simp
qed

text \<open>
  C5. Setting \<open>pflag\<close> in one cell \<open>(kc, jc, ic)\<close> of block \<open>bc\<close>, all other flags being
  as they were, leaves the flux that FOFC returns unchanged at every face other than the
  two faces per direction that border that cell.
\<close>

theorem FOFC_pflag_local:
  fixes st :: "floc \<Rightarrow> 'r::{zero,one,plus,minus,uminus,times,inverse,abs,ord}"
  assumes "b \<noteq> bc \<or> (k, j, i) \<notin> bordering d (kc, jc, ic)"
  shows "FOFC fns nd nvar nb cells faces (st(Pflag bc kc jc ic := v)) (U_flux b d ip k j i) =
         FOFC fns nd nvar nb cells faces st (U_flux b d ip k j i)"
proof -
  let ?st' = "st(Pflag bc kc jc ic := v)"
  obtain kk jj ii where tr: "trail d (k, j, i) = (kk, jj, ii)"
    by (cases "trail d (k, j, i)")
  have here: "(b, k, j, i) \<noteq> (bc, kc, jc, ic)"
    using assms by (auto simp: bordering_def)
  have there: "(b, kk, jj, ii) \<noteq> (bc, kc, jc, ic)"
    using assms tr by (auto simp: bordering_def trail_lead)
  have "fofc_marked (to_int fns) nb cells ?st' b (k, j, i) = fofc_marked (to_int fns) nb cells st b (k, j, i)"
    by (rule fofc_marked_cong) (use here in auto)
  moreover have "fofc_marked (to_int fns) nb cells ?st' b (kk, jj, ii) =
      fofc_marked (to_int fns) nb cells st b (kk, jj, ii)"
    by (rule fofc_marked_cong) (use there in auto)
  ultimately have "fofc_corrects (to_int fns) nb cells ?st' d b (k, j, i) =
      fofc_corrects (to_int fns) nb cells st d b (k, j, i)"
    by (simp add: fofc_corrects_def tr)
  moreover have "fofc_flux fns nvar d ?st' b ip (k, j, i) = fofc_flux fns nvar d st b ip (k, j, i)"
    by (rule fofc_flux_cong) simp
  ultimately show ?thesis
    unfolding FOFC_flux by auto
qed

theorem FOFC_pflag_local_witness:
  "(4, 4, 6) \<notin> bordering 1 (4, 4, 4) \<and>
   FOFC fns0 3 1 1 cells0 faces0 (quiet(Pflag 0 4 4 4 := 1)) (U_flux 0 1 0 4 4 6) =
   FOFC fns0 3 1 1 cells0 faces0 quiet (U_flux 0 1 0 4 4 6)"
  using FOFC_pflag_local [where fns = fns0 and st = quiet and nd = 3 and nvar = 1 and nb = 1
      and cells = cells0 and faces = faces0 and b = 0 and bc = 0 and d = 1 and ip = 0
      and k = 4 and j = 4 and i = 6 and kc = 4 and jc = 4 and ic = 4 and v = 1]
  by (simp add: bordering_def lead_def)

end
